theory Spec2Isabelle
  imports Main "HOL-Library.Word" "HOL-Library.AList"
begin

section \<open>JavaScript strings\<close>

text \<open>
  A JavaScript string is a sequence of 16-bit code units. The regular expressions of
  \<^verbatim>\<open>generateFilename\<close> carry no \<^verbatim>\<open>u\<close> flag, so they too work on code units.
  Source literals are ASCII and are written \<open>ascii ''...''\<close>.
\<close>

type_synonym code_unit = "16 word"
type_synonym jsstring = "code_unit list"

definition ascii :: "string \<Rightarrow> jsstring" where
  "ascii s = map of_char s"

text \<open>
  The class \<^verbatim>\<open>\s\<close> of a regular expression, which is also what \<^verbatim>\<open>String.prototype.trim\<close>
  strips: WhiteSpace and LineTerminator of ECMA-262 (TAB, LF, VT, FF, CR, SP, NBSP,
  U+1680, U+2000 to U+200A, LS, PS, U+202F, U+205F, U+3000, U+FEFF).
\<close>

definition is_ws :: "code_unit \<Rightarrow> bool" where
  "is_ws c =
     (c = 0x09 \<or> c = 0x0A \<or> c = 0x0B \<or> c = 0x0C \<or> c = 0x0D \<or> c = 0x20 \<or> c = 0xA0 \<or>
      c = 0x1680 \<or> (0x2000 \<le> c \<and> c \<le> 0x200A) \<or> c = 0x2028 \<or> c = 0x2029 \<or>
      c = 0x202F \<or> c = 0x205F \<or> c = 0x3000 \<or> c = 0xFEFF)"

text \<open>The class \<^verbatim>\<open>[a-zA-Z0-9]\<close>.\<close>

definition is_alnum :: "code_unit \<Rightarrow> bool" where
  "is_alnum c =
     ((0x61 \<le> c \<and> c \<le> 0x7A) \<or> (0x41 \<le> c \<and> c \<le> 0x5A) \<or> (0x30 \<le> c \<and> c \<le> 0x39))"

text \<open>\<^verbatim>\<open>s.replace(/[^a-zA-Z0-9\s]/g, "")\<close>: every code unit outside the class is deleted.\<close>

definition remove_special :: "jsstring \<Rightarrow> jsstring" where
  "remove_special s = filter (\<lambda>c. is_alnum c \<or> is_ws c) s"

text \<open>\<^verbatim>\<open>s.replace(/\s+/g, "_")\<close>: every maximal run of whitespace becomes one underscore.\<close>

function whitespace_to_underscore :: "jsstring \<Rightarrow> jsstring" where
  "whitespace_to_underscore [] = []"
| "whitespace_to_underscore (c # cs) =
     (if is_ws c then 0x5F # whitespace_to_underscore (dropWhile is_ws cs)
      else c # whitespace_to_underscore cs)"
  by pat_completeness auto
termination
  by (relation "measure length") (auto simp: less_Suc_eq_le length_dropWhile_le)

text \<open>\<^verbatim>\<open>s.trim()\<close>.\<close>

definition trim :: "jsstring \<Rightarrow> jsstring" where
  "trim s = rev (dropWhile is_ws (rev (dropWhile is_ws s)))"

text \<open>\<^verbatim>\<open>s.split(sep)\<close> for a separator of one code unit; the result is never empty.\<close>

fun split :: "code_unit \<Rightarrow> jsstring \<Rightarrow> jsstring list" where
  "split sep [] = [[]]"
| "split sep (c # cs) =
     (if c = sep then [] # split sep cs
      else (case split sep cs of [] \<Rightarrow> [[c]] | p # ps \<Rightarrow> (c # p) # ps))"

text \<open>\<^verbatim>\<open>n.toString()\<close> for a non-negative integer: its decimal digits.\<close>

definition digit :: "nat \<Rightarrow> code_unit" where
  "digit d = 0x30 + of_nat d"

function decimal :: "nat \<Rightarrow> jsstring" where
  "decimal n = (if n < 10 then [digit n] else decimal (n div 10) @ [digit (n mod 10)])"
  by pat_completeness auto
termination
  by (relation "measure id") auto

declare decimal.simps [simp del]

text \<open>\<^verbatim>\<open>s.padStart(w, "0")\<close>.\<close>

definition padStart :: "nat \<Rightarrow> jsstring \<Rightarrow> jsstring" where
  "padStart w s = replicate (w - length s) 0x30 @ s"

text \<open>\<^verbatim>\<open>c.toUpperCase()\<close> on one code unit, for the ASCII letters the source applies it to.\<close>

definition toUpperCase :: "code_unit \<Rightarrow> code_unit" where
  "toUpperCase c = (if 0x61 \<le> c \<and> c \<le> 0x7A then c - 0x20 else c)"

section \<open>Exceptions\<close>

datatype fs_op = GetDirectoryHandle | GetFileHandle | CreateWritable | WriteData | CloseStream

datatype exn =
    RangeError
  | SyntaxError
  | TypeError
  | QuotaExceededError
  | DOMException fs_op

section \<open>Dates\<close>

text \<open>
  A \<^verbatim>\<open>Date\<close> is either invalid or a point in time. The only thing the code asks of a
  date is \<^verbatim>\<open>toISOString()\<close>, which prints its UTC calendar fields; a valid date is
  represented by those fields (the platform's conversion between a time value and
  the fields is not part of this repository). Months and days count from 1 here, as
  they are printed.
\<close>

record utc_fields =
  year :: int
  month :: nat
  day :: nat
  hours :: nat
  minutes :: nat
  seconds :: nat
  milliseconds :: nat

datatype Date = Invalid_Date | Date utc_fields

definition calendar_ok :: "utc_fields \<Rightarrow> bool" where
  "calendar_ok d =
     (1 \<le> month d \<and> month d \<le> 12 \<and> 1 \<le> day d \<and> day d \<le> 31 \<and>
      hours d \<le> 23 \<and> minutes d \<le> 59 \<and> seconds d \<le> 59 \<and> milliseconds d \<le> 999)"

text \<open>
  The year of \<^verbatim>\<open>toISOString\<close>: four digits from 0 to 9999, otherwise a sign and six
  digits (the expanded years of ECMA-262).
\<close>

definition iso_year :: "int \<Rightarrow> jsstring" where
  "iso_year y =
     (if 0 \<le> y \<and> y \<le> 9999 then padStart 4 (decimal (nat y))
      else (if y < 0 then ascii ''-'' else ascii ''+'') @ padStart 6 (decimal (nat \<bar>y\<bar>)))"

definition iso_date :: "utc_fields \<Rightarrow> jsstring" where
  "iso_date d =
     iso_year (year d) @ ascii ''-'' @ padStart 2 (decimal (month d)) @ ascii ''-'' @
     padStart 2 (decimal (day d))"

definition iso_time :: "utc_fields \<Rightarrow> jsstring" where
  "iso_time d =
     padStart 2 (decimal (hours d)) @ ascii '':'' @ padStart 2 (decimal (minutes d)) @
     ascii '':'' @ padStart 2 (decimal (seconds d)) @ ascii ''.'' @
     padStart 3 (decimal (milliseconds d)) @ ascii ''Z''"

text \<open>\<^verbatim>\<open>date.toISOString()\<close> throws a RangeError on an invalid date.\<close>

fun toISOString :: "Date \<Rightarrow> exn + jsstring" where
  "toISOString Invalid_Date = Inl RangeError"
| "toISOString (Date d) = Inr (iso_date d @ ascii ''T'' @ iso_time d)"

section \<open>Filenames\<close>

datatype NoteType = TypeText | TypeAudio | TypeVideo

text \<open>The string a note type is in the source: \<^verbatim>\<open>"text" | "audio" | "video"\<close>.\<close>

fun type_string :: "NoteType \<Rightarrow> jsstring" where
  "type_string TypeText = ascii ''text''"
| "type_string TypeAudio = ascii ''audio''"
| "type_string TypeVideo = ascii ''video''"

text \<open>The table \<^verbatim>\<open>extensions\<close> of \<^verbatim>\<open>generateFilename\<close>.\<close>

fun extensions :: "NoteType \<Rightarrow> jsstring" where
  "extensions TypeText = ascii ''.txt''"
| "extensions TypeAudio = ascii ''.mp3''"
| "extensions TypeVideo = ascii ''.mp4''"

text \<open>
  \<^verbatim>\<open>title.replace(/[^a-zA-Z0-9\s]/g, "").replace(/\s+/g, "_")\<close>
\<close>

definition sanitizedTitle :: "jsstring \<Rightarrow> jsstring" where
  "sanitizedTitle title = whitespace_to_underscore (remove_special title)"

text \<open>
  \<^verbatim>\<open>generateFilename(title, type, date)\<close>. The timestamp is
  \<^verbatim>\<open>date.toISOString().split("T")[0]\<close>, the part of the ISO string before its first
  \<^verbatim>\<open>T\<close>. The source's default \<^verbatim>\<open>date = new Date()\<close> is the caller's to supply here.
\<close>

definition generateFilename :: "jsstring \<Rightarrow> NoteType \<Rightarrow> Date \<Rightarrow> exn + jsstring" where
  "generateFilename title ty date =
     (case toISOString date of
        Inl e \<Rightarrow> Inl e
      | Inr isoString \<Rightarrow>
          (let timestamp = hd (split 0x54 isoString)
           in Inr (timestamp @ ascii ''_'' @ sanitizedTitle title @ extensions ty)))"

section \<open>JavaScript values and JSON\<close>

text \<open>
  The values the code handles. Numbers are the integers the code produces (clock
  readings, whole seconds); a \<^verbatim>\<open>Blob\<close> is its bytes; an object is its own enumerable
  properties in creation order. Property names are the identifiers of the source.
\<close>

type_synonym bytes = "8 word list"

datatype jsval =
    Undefined
  | Null
  | Bool bool
  | Num int
  | Str jsstring
  | Blob bytes
  | Arr "jsval list"
  | Obj "(string \<times> jsval) list"

text \<open>
  A JSON text is represented by its syntax tree: JSON has no \<^verbatim>\<open>undefined\<close> and no
  binary data.
\<close>

datatype json =
    JNull
  | JBool bool
  | JNum int
  | JStr jsstring
  | JArr "json list"
  | JObj "(string \<times> json) list"

text \<open>The truthiness that \<^verbatim>\<open>||\<close>, \<^verbatim>\<open>!\<close>, \<^verbatim>\<open>if\<close> and \<^verbatim>\<open>filter(Boolean)\<close> test.\<close>

fun truthy :: "jsval \<Rightarrow> bool" where
  "truthy Undefined = False"
| "truthy Null = False"
| "truthy (Bool b) = b"
| "truthy (Num n) = (n \<noteq> 0)"
| "truthy (Str s) = (s \<noteq> [])"
| "truthy (Blob b) = True"
| "truthy (Arr xs) = True"
| "truthy (Obj kvs) = True"

text \<open>\<^verbatim>\<open>a || b\<close>\<close>

definition js_or :: "jsval \<Rightarrow> jsval \<Rightarrow> jsval" where
  "js_or a b = (if truthy a then a else b)"

text \<open>An optional field of a TypeScript interface: absent is \<^verbatim>\<open>undefined\<close>.\<close>

definition optional :: "('a \<Rightarrow> jsval) \<Rightarrow> 'a option \<Rightarrow> jsval" where
  "optional f x = (case x of None \<Rightarrow> Undefined | Some v \<Rightarrow> f v)"

text \<open>
  \<^verbatim>\<open>JSON.stringify\<close> (ECMA-262, SerializeJSONProperty, SerializeJSONArray,
  SerializeJSONObject): \<^verbatim>\<open>undefined\<close> has no JSON text, is \<^verbatim>\<open>null\<close> as an array
  element and is left out as a property value; a \<^verbatim>\<open>Blob\<close> has no own enumerable
  property and no \<^verbatim>\<open>toJSON\<close>, so it is written as the empty object.
\<close>

fun SerializeJSONProperty :: "jsval \<Rightarrow> json option"
  and SerializeJSONArray :: "jsval list \<Rightarrow> json list"
  and SerializeJSONObject :: "(string \<times> jsval) list \<Rightarrow> (string \<times> json) list" where
  "SerializeJSONProperty Undefined = None"
| "SerializeJSONProperty Null = Some JNull"
| "SerializeJSONProperty (Bool b) = Some (JBool b)"
| "SerializeJSONProperty (Num n) = Some (JNum n)"
| "SerializeJSONProperty (Str s) = Some (JStr s)"
| "SerializeJSONProperty (Blob b) = Some (JObj [])"
| "SerializeJSONProperty (Arr xs) = Some (JArr (SerializeJSONArray xs))"
| "SerializeJSONProperty (Obj kvs) = Some (JObj (SerializeJSONObject kvs))"
| "SerializeJSONArray [] = []"
| "SerializeJSONArray (x # xs) =
     (case SerializeJSONProperty x of None \<Rightarrow> JNull | Some j \<Rightarrow> j) # SerializeJSONArray xs"
| "SerializeJSONObject [] = []"
| "SerializeJSONObject ((k, v) # kvs) =
     (case SerializeJSONProperty v of
        None \<Rightarrow> SerializeJSONObject kvs
      | Some j \<Rightarrow> (k, j) # SerializeJSONObject kvs)"

text \<open>
  \<^verbatim>\<open>JSON.parse\<close> builds an object by defining its properties in text order; a
  repeated name overwrites the value and keeps the first position.
\<close>

definition define_properties :: "(string \<times> jsval) list \<Rightarrow> (string \<times> jsval) list" where
  "define_properties kvs = foldl (\<lambda>obj (k, v). AList.update k v obj) [] kvs"

fun internalize :: "json \<Rightarrow> jsval"
  and internalize_list :: "json list \<Rightarrow> jsval list"
  and internalize_members :: "(string \<times> json) list \<Rightarrow> (string \<times> jsval) list" where
  "internalize JNull = Null"
| "internalize (JBool b) = Bool b"
| "internalize (JNum n) = Num n"
| "internalize (JStr s) = Str s"
| "internalize (JArr js) = Arr (internalize_list js)"
| "internalize (JObj kvs) = Obj (define_properties (internalize_members kvs))"
| "internalize_list [] = []"
| "internalize_list (j # js) = internalize j # internalize_list js"
| "internalize_members [] = []"
| "internalize_members ((k, j) # kvs) = (k, internalize j) # internalize_members kvs"

text \<open>
  A string held by \<^verbatim>\<open>localStorage\<close> or read from a file is either a JSON text or
  some other text, which \<^verbatim>\<open>JSON.parse\<close> rejects.
\<close>

datatype stored = JSON_text json | Other_text jsstring

definition JSON_stringify :: "jsval \<Rightarrow> json option" where
  "JSON_stringify v = SerializeJSONProperty v"

text \<open>
  The string that \<^verbatim>\<open>setItem(key, JSON.stringify(v))\<close> stores: \<^verbatim>\<open>undefined\<close> is
  coerced to the text \<^verbatim>\<open>undefined\<close>.
\<close>

definition ToString :: "json option \<Rightarrow> stored" where
  "ToString r = (case r of None \<Rightarrow> Other_text (ascii ''undefined'') | Some j \<Rightarrow> JSON_text j)"

fun JSON_parse :: "stored \<Rightarrow> exn + jsval" where
  "JSON_parse (JSON_text j) = Inr (internalize j)"
| "JSON_parse (Other_text s) = Inl SyntaxError"

text \<open>
  Reading a property: a TypeError on \<^verbatim>\<open>null\<close> and \<^verbatim>\<open>undefined\<close>, \<^verbatim>\<open>undefined\<close>
  where the value has no such property.
\<close>

fun get :: "jsval \<Rightarrow> string \<Rightarrow> exn + jsval" where
  "get Undefined k = Inl TypeError"
| "get Null k = Inl TypeError"
| "get (Obj kvs) k = Inr (case map_of kvs k of None \<Rightarrow> Undefined | Some v \<Rightarrow> v)"
| "get v k = Inr Undefined"

text \<open>
  \<^verbatim>\<open>xs.push(x)\<close> on a value that came from \<^verbatim>\<open>JSON.parse\<close>: only an array has the
  method, anything else is a TypeError.
\<close>

fun push :: "jsval \<Rightarrow> jsval \<Rightarrow> exn + jsval" where
  "push (Arr xs) x = Inr (Arr (xs @ [x]))"
| "push v x = Inl TypeError"

section \<open>The browser\<close>

text \<open>
  What the code reaches outside itself: \<^verbatim>\<open>localStorage\<close>, with the writes the
  browser accepts (a full or disabled storage refuses them with an exception); the
  directory the user granted, as its subdirectories and their files, with the file
  system operations that fail (permission denied, stale handle, I/O error); the
  platform's date parser and its clock.
\<close>

datatype chunk = Text_data jsstring | Binary_data bytes

type_synonym file_content = "chunk list"

record world =
  localStorage :: "jsstring \<rightharpoonup> stored"
  quota_allows :: "jsstring \<Rightarrow> stored \<Rightarrow> bool"
  directory :: "jsstring \<rightharpoonup> (jsstring \<rightharpoonup> file_content)"
  fs_fault :: "fs_op \<Rightarrow> bool"
  Date_parse :: "jsstring \<Rightarrow> Date"
  now :: utc_fields
  now_ms :: int

text \<open>
  A computation returns a value or throws, and leaves a world either way: what was
  written before an exception stays written.
\<close>

type_synonym 'a action = "world \<Rightarrow> (exn + 'a) \<times> world"

definition return :: "'a \<Rightarrow> 'a action" where
  "return a w = (Inr a, w)"

definition lift :: "exn + 'a \<Rightarrow> 'a action" where
  "lift r w = (r, w)"

definition bind :: "'a action \<Rightarrow> ('a \<Rightarrow> 'b action) \<Rightarrow> 'b action" where
  "bind m f w = (case m w of (Inl e, w') \<Rightarrow> (Inl e, w') | (Inr a, w') \<Rightarrow> f a w')"

definition try_catch :: "'a action \<Rightarrow> (exn \<Rightarrow> 'a action) \<Rightarrow> 'a action" where
  "try_catch m h w = (case m w of (Inl e, w') \<Rightarrow> h e w' | (Inr a, w') \<Rightarrow> (Inr a, w'))"

subsection \<open>localStorage\<close>

definition getItem :: "jsstring \<Rightarrow> stored option action" where
  "getItem k w = (Inr (localStorage w k), w)"

definition setItem :: "jsstring \<Rightarrow> stored \<Rightarrow> unit action" where
  "setItem k v w =
     (if quota_allows w k v then (Inr (), w\<lparr>localStorage := (localStorage w)(k \<mapsto> v)\<rparr>)
      else (Inl QuotaExceededError, w))"

definition removeItem :: "jsstring \<Rightarrow> unit action" where
  "removeItem k w = (Inr (), w\<lparr>localStorage := (localStorage w)(k := None)\<rparr>)"

text \<open>\<^verbatim>\<open>localStorage.getItem(k) || d\<close>: a missing item and the empty string give \<open>d\<close>.\<close>

definition or_text :: "stored option \<Rightarrow> stored \<Rightarrow> stored" where
  "or_text r d = (case r of None \<Rightarrow> d | Some t \<Rightarrow> if t = Other_text [] then d else t)"

text \<open>The keys \<^verbatim>\<open>`mydiary_notes_${username}`\<close> and \<^verbatim>\<open>`mydiary_settings_${username}`\<close>.\<close>

definition notes_key :: "jsstring \<Rightarrow> jsstring" where
  "notes_key username = ascii ''mydiary_notes_'' @ username"

definition settings_key :: "jsstring \<Rightarrow> jsstring" where
  "settings_key username = ascii ''mydiary_settings_'' @ username"

text \<open>
  Reading a user's whole collection, as every reader and writer of the repository
  does it (\<^verbatim>\<open>loadUserStats\<close>, \<^verbatim>\<open>saveToLocalStorage\<close>, \<^verbatim>\<open>handleSave\<close>,
  \<^verbatim>\<open>exportData\<close>):
  \<^verbatim>\<open>JSON.parse(localStorage.getItem(`mydiary_notes_${username}`) || "[]")\<close>
\<close>

definition readAll :: "jsstring \<Rightarrow> jsval action" where
  "readAll username =
     bind (getItem (notes_key username))
       (\<lambda>item. lift (JSON_parse (or_text item (JSON_text (JArr [])))))"

subsection \<open>The granted directory\<close>

datatype FileSystemDirectoryHandle = Granted_directory

record FileSystemFileHandle =
  file_folder :: jsstring
  file_name :: jsstring

record FileSystemWritableFileStream =
  stream_target :: FileSystemFileHandle
  stream_data :: file_content

text \<open>
  \<^verbatim>\<open>directoryHandle.getDirectoryHandle(name)\<close>, without \<^verbatim>\<open>create\<close>: the subdirectory
  must exist. The handle of a subdirectory is its name.
\<close>

definition getDirectoryHandle :: "FileSystemDirectoryHandle \<Rightarrow> jsstring \<Rightarrow> jsstring action" where
  "getDirectoryHandle h name w =
     (if fs_fault w GetDirectoryHandle \<or> directory w name = None
      then (Inl (DOMException GetDirectoryHandle), w)
      else (Inr name, w))"

text \<open>
  \<^verbatim>\<open>subdirHandle.getFileHandle(filename, { create: true })\<close>: a file that does not
  exist is created empty.
\<close>

definition getFileHandle :: "jsstring \<Rightarrow> jsstring \<Rightarrow> FileSystemFileHandle action" where
  "getFileHandle folder filename w =
     (if fs_fault w GetFileHandle then (Inl (DOMException GetFileHandle), w)
      else (case directory w folder of
              None \<Rightarrow> (Inl (DOMException GetFileHandle), w)
            | Some files \<Rightarrow>
                (Inr \<lparr>file_folder = folder, file_name = filename\<rparr>,
                 if files filename = None
                 then w\<lparr>directory := (directory w)(folder \<mapsto> files(filename \<mapsto> []))\<rparr>
                 else w)))"

text \<open>
  \<^verbatim>\<open>fileHandle.createWritable()\<close>: the stream starts empty and its data replace
  the file when the stream is closed.
\<close>

definition createWritable :: "FileSystemFileHandle \<Rightarrow> FileSystemWritableFileStream action" where
  "createWritable fh w =
     (if fs_fault w CreateWritable then (Inl (DOMException CreateWritable), w)
      else (Inr \<lparr>stream_target = fh, stream_data = []\<rparr>, w))"

definition write_stream :: "FileSystemWritableFileStream \<Rightarrow> chunk \<Rightarrow> FileSystemWritableFileStream action" where
  "write_stream writable data w =
     (if fs_fault w WriteData then (Inl (DOMException WriteData), w)
      else (Inr (writable\<lparr>stream_data := stream_data writable @ [data]\<rparr>), w))"

definition close_stream :: "FileSystemWritableFileStream \<Rightarrow> unit action" where
  "close_stream writable w =
     (if fs_fault w CloseStream then (Inl (DOMException CloseStream), w)
      else (case directory w (file_folder (stream_target writable)) of
              None \<Rightarrow> (Inl (DOMException CloseStream), w)
            | Some files \<Rightarrow>
                (Inr (),
                 w\<lparr>directory := (directory w)(file_folder (stream_target writable) \<mapsto>
                      files(file_name (stream_target writable) \<mapsto> stream_data writable))\<rparr>)))"

section \<open>FileStorageManager (src/lib/file-storage.ts)\<close>

record FileStorageConfig =
  diaryPath :: jsstring
  username :: jsstring

record NoteFile =
  note_id :: jsstring
  title :: jsstring
  note_type :: NoteType
  filename :: jsstring
  content :: "jsstring option"
  blob :: "bytes option"
  date :: jsstring
  tags :: "jsstring list"
  mood :: "jsstring option"
  duration :: "int option"

record FileStorageManager =
  config :: FileStorageConfig
  directoryHandle :: "FileSystemDirectoryHandle option"

text \<open>The object literal \<^verbatim>\<open>metadata\<close> of \<^verbatim>\<open>saveMetadataToLocalStorage\<close>.\<close>

definition metadata :: "NoteFile \<Rightarrow> jsstring \<Rightarrow> jsval" where
  "metadata note fname = Obj
     [(''id'', Str (note_id note)),
      (''title'', Str (title note)),
      (''type'', Str (type_string (note_type note))),
      (''filename'', Str fname),
      (''date'', Str (date note)),
      (''tags'', Arr (map Str (tags note))),
      (''mood'', optional Str (mood note)),
      (''duration'', optional Num (duration note)),
      (''savedToFile'', Bool True)]"

definition saveMetadataToLocalStorage :: "FileStorageManager \<Rightarrow> NoteFile \<Rightarrow> jsstring \<Rightarrow> unit action" where
  "saveMetadataToLocalStorage m note fname =
     bind (readAll (username (config m))) (\<lambda>existingMetadata.
     bind (lift (push existingMetadata (metadata note fname))) (\<lambda>existingMetadata.
     setItem (notes_key (username (config m))) (ToString (JSON_stringify existingMetadata))))"

text \<open>The object literal \<^verbatim>\<open>noteData\<close> of \<^verbatim>\<open>saveToLocalStorage\<close>.\<close>

definition noteData :: "NoteFile \<Rightarrow> jsval" where
  "noteData note = Obj
     [(''id'', Str (note_id note)),
      (''title'', Str (title note)),
      (''type'', Str (type_string (note_type note))),
      (''content'', optional Str (content note)),
      (''audioData'', if note_type note = TypeAudio then optional Blob (blob note) else Undefined),
      (''videoData'', if note_type note = TypeVideo then optional Blob (blob note) else Undefined),
      (''date'', Str (date note)),
      (''tags'', Arr (map Str (tags note))),
      (''mood'', optional Str (mood note)),
      (''duration'', optional Num (duration note)),
      (''savedToFile'', Bool False)]"

text \<open>
  \<^verbatim>\<open>saveToLocalStorage\<close>: the whole body is inside \<^verbatim>\<open>try\<close>, and the handler
  returns \<^verbatim>\<open>false\<close>.
\<close>

definition saveToLocalStorage :: "FileStorageManager \<Rightarrow> NoteFile \<Rightarrow> bool action" where
  "saveToLocalStorage m note =
     try_catch
       (bind (readAll (username (config m))) (\<lambda>existingNotes.
        bind (lift (push existingNotes (noteData note))) (\<lambda>existingNotes.
        bind (setItem (notes_key (username (config m))) (ToString (JSON_stringify existingNotes))) (\<lambda>_.
        return True))))
       (\<lambda>error. return False)"

text \<open>
  \<^verbatim>\<open>note.type.charAt(0).toUpperCase() + note.type.slice(1)\<close>
\<close>

definition subdirName :: "NoteType \<Rightarrow> jsstring" where
  "subdirName ty = map toUpperCase (take 1 (type_string ty)) @ drop 1 (type_string ty)"

text \<open>
  The file path of \<^verbatim>\<open>saveNoteToFile\<close>, in two parts. First the statements of its
  \<^verbatim>\<open>try\<close> block from \<^verbatim>\<open>subdirName\<close> to \<^verbatim>\<open>writable.close()\<close>, which write the
  file and yield its name: text content for a text note (\<^verbatim>\<open>note.content || ""\<close>),
  the blob for the others, nothing when there is no blob.
\<close>

definition write_note_file :: "FileSystemDirectoryHandle \<Rightarrow> NoteFile \<Rightarrow> jsstring action" where
  "write_note_file h note =
     bind (getDirectoryHandle h (subdirName (note_type note))) (\<lambda>subdirHandle.
     bind (\<lambda>w. lift (generateFilename (title note) (note_type note)
                       (Date_parse w (date note))) w) (\<lambda>fname.
     bind (getFileHandle subdirHandle fname) (\<lambda>fileHandle.
     bind (createWritable fileHandle) (\<lambda>writable.
     bind (if note_type note = TypeText
           then write_stream writable
                  (Text_data (case content note of None \<Rightarrow> [] | Some c \<Rightarrow> c))
           else (case blob note of
                   None \<Rightarrow> return writable
                 | Some b \<Rightarrow> write_stream writable (Binary_data b))) (\<lambda>writable.
     bind (close_stream writable) (\<lambda>_.
     return fname))))))"

text \<open>Then the shadow record, and \<^verbatim>\<open>return true\<close>.\<close>

definition export_to_directory ::
  "FileStorageManager \<Rightarrow> FileSystemDirectoryHandle \<Rightarrow> NoteFile \<Rightarrow> bool action" where
  "export_to_directory m h note =
     bind (write_note_file h note) (\<lambda>fname.
     bind (saveMetadataToLocalStorage m note fname) (\<lambda>_.
     return True))"

definition saveNoteToFile :: "FileStorageManager \<Rightarrow> NoteFile \<Rightarrow> bool action" where
  "saveNoteToFile m note =
     try_catch
       (case directoryHandle m of
          None \<Rightarrow> saveToLocalStorage m note
        | Some h \<Rightarrow> export_to_directory m h note)
       (\<lambda>error. saveToLocalStorage m note)"

section \<open>CreateNoteDialog (src/components/create-note-dialog.tsx)\<close>

datatype ViewMode = Select | Editor | Audio_recorder | Video_recorder

text \<open>The state of the dialog (its \<^verbatim>\<open>useState\<close> cells).\<close>

record CreateNoteDialog =
  viewMode :: ViewMode
  noteType :: NoteType
  form_title :: jsstring
  form_content :: jsstring
  form_tags :: jsstring
  form_mood :: jsstring

definition resetForm :: "CreateNoteDialog \<Rightarrow> CreateNoteDialog" where
  "resetForm s = s\<lparr>form_title := [], form_content := [], form_tags := [], form_mood := [],
                  noteType := TypeText, viewMode := Select\<rparr>"

text \<open>\<^verbatim>\<open>n.toString()\<close> for an integer.\<close>

definition Number_toString :: "int \<Rightarrow> jsstring" where
  "Number_toString n = (if n < 0 then ascii ''-'' @ decimal (nat (- n)) else decimal (nat n))"

text \<open>The ISO string of a valid date, as \<^verbatim>\<open>new Date()\<close> always is.\<close>

definition iso_string :: "utc_fields \<Rightarrow> jsstring" where
  "iso_string d = iso_date d @ ascii ''T'' @ iso_time d"

text \<open>
  The object literal \<^verbatim>\<open>newNote\<close> of \<^verbatim>\<open>handleSave\<close>. An argument that the caller
  leaves out is \<^verbatim>\<open>undefined\<close>.
\<close>

definition newNote ::
  "CreateNoteDialog \<Rightarrow> jsstring \<Rightarrow> jsval \<Rightarrow> jsval \<Rightarrow> jsval \<Rightarrow> world \<Rightarrow> jsval" where
  "newNote s final noteContent dur thumbnail w = Obj
     [(''id'', Str (Number_toString (now_ms w))),
      (''title'', Str (trim final)),
      (''type'', Str (type_string (noteType s))),
      (''content'', if noteType s = TypeText then js_or noteContent (Str (form_content s))
                    else Str []),
      (''audioData'', if noteType s = TypeAudio then noteContent else Undefined),
      (''videoData'', if noteType s = TypeVideo then noteContent else Undefined),
      (''thumbnail'', thumbnail),
      (''duration'', js_or dur (Num 0)),
      (''tags'', Arr (map Str (filter (\<lambda>tag. tag \<noteq> []) (map trim (split 0x2C (form_tags s)))))),
      (''mood'', Str (form_mood s)),
      (''date'', Str (iso_string (now w))),
      (''createdAt'', Num (now_ms w))]"

text \<open>\<^verbatim>\<open>const finalTitle = noteTitle || title\<close>\<close>

definition finalTitle :: "CreateNoteDialog \<Rightarrow> jsstring option \<Rightarrow> jsstring" where
  "finalTitle s noteTitle =
     (case noteTitle of
        None \<Rightarrow> form_title s
      | Some t \<Rightarrow> if t = [] then form_title s else t)"

text \<open>
  \<^verbatim>\<open>handleSave(noteTitle?, noteContent?, duration?, thumbnail?)\<close>. It returns the
  dialog's new state and whether \<^verbatim>\<open>onNoteCreated\<close> was called; nothing catches what
  \<^verbatim>\<open>JSON.parse\<close>, \<^verbatim>\<open>push\<close> or \<^verbatim>\<open>setItem\<close> throw.
\<close>

definition handleSave ::
  "jsstring \<Rightarrow> CreateNoteDialog \<Rightarrow> jsstring option \<Rightarrow> jsval \<Rightarrow> jsval \<Rightarrow> jsval \<Rightarrow>
   (CreateNoteDialog \<times> bool) action" where
  "handleSave user s noteTitle noteContent dur thumbnail =
     (if trim (finalTitle s noteTitle) = [] then return (s, False)
      else
        bind (\<lambda>w. return (newNote s (finalTitle s noteTitle) noteContent dur thumbnail w) w)
          (\<lambda>newNote.
        bind (readAll user) (\<lambda>existingNotes.
        bind (lift (push existingNotes newNote)) (\<lambda>existingNotes.
        bind (setItem (notes_key user) (ToString (JSON_stringify existingNotes))) (\<lambda>_.
        return (resetForm s, True))))))"

section \<open>SettingsView (src/components/settings-view.tsx)\<close>

definition defaultSettings :: jsval where
  "defaultSettings = Obj
     [(''diaryPath'', Str []),
      (''theme'', Str (ascii ''system'')),
      (''fontFamily'', Str (ascii ''Inter'')),
      (''fontSize'', Str (ascii ''medium'')),
      (''notifications'', Obj
         [(''enabled'', Bool False),
          (''dailyReminder'', Bool False),
          (''reminderTime'', Str (ascii ''21:00'')),
          (''weeklyReminder'', Bool False)]),
      (''privacy'', Obj
         [(''passwordProtection'', Bool False),
          (''autoLock'', Bool False),
          (''autoLockTime'', Num 15)]),
      (''backup'', Obj
         [(''autoBackup'', Bool False),
          (''backupFrequency'', Str (ascii ''weekly''))]),
      (''customization'', Obj
         [(''accentColor'', Str (ascii ''#3b82f6'')),
          (''backgroundPattern'', Str (ascii ''none''))])]"

text \<open>
  The state of the view. \<^verbatim>\<open>importData\<close> stores whatever the imported file holds as
  settings, so the settings are a value.
\<close>

record SettingsView =
  settings :: jsval
  hasChanges :: bool
  showDeleteConfirm :: bool

text \<open>
  \<^verbatim>\<open>exportData\<close>: the name and the text of the file it offers for download.
\<close>

definition exportData :: "jsstring \<Rightarrow> SettingsView \<Rightarrow> (jsstring \<times> stored) action" where
  "exportData user s =
     bind (readAll user) (\<lambda>notes w.
       (let exportData = Obj
              [(''username'', Str user),
               (''settings'', settings s),
               (''notes'', notes),
               (''exportDate'', Str (iso_string (now w))),
               (''version'', Str (ascii ''1.0''))];
            download = ascii ''mydiary-backup-'' @ user @ ascii ''-'' @
                       hd (split 0x54 (iso_string (now w))) @ ascii ''.json''
        in (Inr (download, ToString (JSON_stringify exportData)), w)))"

text \<open>
  \<^verbatim>\<open>importData\<close> with the text of the chosen file, or no file. It returns the alert
  it shows and the view's new state. Everything after the file test is inside
  \<^verbatim>\<open>try\<close>; \<^verbatim>\<open>setSettings\<close> precedes the write of the settings.
\<close>

definition importData ::
  "jsstring \<Rightarrow> SettingsView \<Rightarrow> stored option \<Rightarrow> world \<Rightarrow> (string option \<times> SettingsView) \<times> world" where
  "importData user s chosen w =
     (case chosen of
        None \<Rightarrow> ((None, s), w)
      | Some result \<Rightarrow>
          (let failed = Some ''Error importing data. Please check the file format.'';
               succeeded = Some ''Data imported successfully!''
           in case JSON_parse result of
                Inl e \<Rightarrow> ((failed, s), w)
              | Inr importedData \<Rightarrow>
                  (case get importedData ''notes'' of
                     Inl e \<Rightarrow> ((failed, s), w)
                   | Inr notes \<Rightarrow>
                       (case (if truthy notes
                              then setItem (notes_key user) (ToString (JSON_stringify notes)) w
                              else (Inr (), w)) of
                          (Inl e, w1) \<Rightarrow> ((failed, s), w1)
                        | (Inr _, w1) \<Rightarrow>
                            (case get importedData ''settings'' of
                               Inl e \<Rightarrow> ((failed, s), w1)
                             | Inr imported \<Rightarrow>
                                 if truthy imported
                                 then (case setItem (settings_key user)
                                              (ToString (JSON_stringify imported)) w1 of
                                         (Inl e, w2) \<Rightarrow> ((failed, s\<lparr>settings := imported\<rparr>), w2)
                                       | (Inr _, w2) \<Rightarrow> ((succeeded, s\<lparr>settings := imported\<rparr>), w2))
                                 else ((succeeded, s), w1))))))"

text \<open>
  \<^verbatim>\<open>deleteAllData\<close>: the first call only arms the confirmation, the second removes
  the two items. (The timer that disarms the confirmation after five seconds is not
  modelled.)
\<close>

definition deleteAllData :: "jsstring \<Rightarrow> SettingsView \<Rightarrow> world \<Rightarrow> (string option \<times> SettingsView) \<times> world" where
  "deleteAllData user s w =
     (if showDeleteConfirm s
      then (case removeItem (notes_key user) w of
              (_, w1) \<Rightarrow>
                (case removeItem (settings_key user) w1 of
                   (_, w2) \<Rightarrow>
                     ((Some ''All data has been deleted.'',
                       s\<lparr>settings := defaultSettings, showDeleteConfirm := False\<rparr>), w2)))
      else ((None, s\<lparr>showDeleteConfirm := True\<rparr>), w))"

section \<open>Notions used to state the properties\<close>

text \<open>
  The sanitization as the specification words it: the characters outside
  \<^verbatim>\<open>[A-Za-z0-9 ]\<close> are removed, then runs of whitespace become one underscore.
\<close>

definition spec_sanitize :: "jsstring \<Rightarrow> jsstring" where
  "spec_sanitize t =
     whitespace_to_underscore (filter (\<lambda>c. is_alnum c \<or> c = 0x20) t)"

text \<open>
  What a value written into the stored array is read back as: its JSON text, parsed
  (an array element that has no JSON text is written as \<^verbatim>\<open>null\<close>).
\<close>

definition reparse :: "jsval \<Rightarrow> jsval" where
  "reparse v = internalize (case SerializeJSONProperty v of None \<Rightarrow> JNull | Some j \<Rightarrow> j)"

text \<open>
  Appending \<open>x\<close> to a user's collection can succeed: the stored item is missing, empty
  or the text of an array, and the browser accepts the new text of the array.
\<close>

definition can_append :: "jsstring \<Rightarrow> jsval \<Rightarrow> world \<Rightarrow> bool" where
  "can_append user x w =
     (case fst (readAll user w) of
        Inr (Arr olds) \<Rightarrow>
          quota_allows w (notes_key user) (ToString (JSON_stringify (Arr (olds @ [x]))))
      | _ \<Rightarrow> False)"

text \<open>
  The file path of \<^verbatim>\<open>saveNoteToFile\<close> ran to its \<^verbatim>\<open>return true\<close>; and the world in
  which the fallback starts when it did not (the given world when there is no
  directory handle, otherwise what the failed attempt left).
\<close>

definition export_completed :: "FileStorageManager \<Rightarrow> NoteFile \<Rightarrow> world \<Rightarrow> bool" where
  "export_completed m note w =
     (case directoryHandle m of
        None \<Rightarrow> False
      | Some h \<Rightarrow> (case fst (export_to_directory m h note w) of Inl e \<Rightarrow> False | Inr b \<Rightarrow> True))"

definition after_attempt :: "FileStorageManager \<Rightarrow> NoteFile \<Rightarrow> world \<Rightarrow> world" where
  "after_attempt m note w =
     (case directoryHandle m of
        None \<Rightarrow> w
      | Some h \<Rightarrow> snd (export_to_directory m h note w))"

text \<open>What the file of a note holds once it is written.\<close>

definition file_data :: "NoteFile \<Rightarrow> file_content" where
  "file_data note =
     (if note_type note = TypeText
      then [Text_data (case content note of None \<Rightarrow> [] | Some c \<Rightarrow> c)]
      else (case blob note of None \<Rightarrow> [] | Some b \<Rightarrow> [Binary_data b]))"

text \<open>
  A stored record carries the descriptive fields of a note: its id, title, type,
  date, tags, mood and duration (an absent mood or duration reads as
  \<^verbatim>\<open>undefined\<close>).
\<close>

definition carries :: "NoteFile \<Rightarrow> jsval \<Rightarrow> bool" where
  "carries note r =
     (get r ''id'' = Inr (Str (note_id note)) \<and>
      get r ''title'' = Inr (Str (title note)) \<and>
      get r ''type'' = Inr (Str (type_string (note_type note))) \<and>
      get r ''date'' = Inr (Str (date note)) \<and>
      get r ''tags'' = Inr (Arr (map Str (tags note))) \<and>
      get r ''mood'' = Inr (optional Str (mood note)) \<and>
      get r ''duration'' = Inr (optional Num (duration note)))"

definition is_digit :: "code_unit \<Rightarrow> bool" where
  "is_digit c = (0x30 \<le> c \<and> c \<le> 0x39)"

text \<open>
  A value is stable when writing it as JSON and parsing the text gives it back.
\<close>

definition stable :: "jsval \<Rightarrow> bool" where
  "stable v = (case SerializeJSONProperty v of None \<Rightarrow> False | Some j \<Rightarrow> internalize j = v)"

section \<open>Concrete inputs\<close>

text \<open>
  A browser with an empty \<^verbatim>\<open>localStorage\<close> that accepts every write, a granted
  directory with the three empty subfolders and no failing operation, on 2025-01-15;
  and the variations used below: a full storage, a storage that refuses the settings
  item only, a directory to which access is denied, a directory in which closing a
  stream fails.
\<close>

definition accept_all :: "jsstring \<Rightarrow> stored \<Rightarrow> bool" where
  "accept_all k v = True"

definition storage_full :: "jsstring \<Rightarrow> stored \<Rightarrow> bool" where
  "storage_full k v = False"

definition no_fault :: "fs_op \<Rightarrow> bool" where
  "no_fault operation = False"

definition access_denied :: "fs_op \<Rightarrow> bool" where
  "access_denied operation = True"

definition close_fails :: "fs_op \<Rightarrow> bool" where
  "close_fails operation = (operation = CloseStream)"

definition settings_refused :: "jsstring \<Rightarrow> stored \<Rightarrow> bool" where
  "settings_refused k v = (if k = settings_key (ascii ''ann'') then False else True)"

definition jan15 :: utc_fields where
  "jan15 = \<lparr>year = 2025, month = 1, day = 15, hours = 10, minutes = 30, seconds = 0,
             milliseconds = 0\<rparr>"

definition parse_demo :: "jsstring \<Rightarrow> Date" where
  "parse_demo s = (if s = ascii ''2025-01-15T10:30:00.000Z'' then Date jan15 else Invalid_Date)"

definition empty_folders :: "jsstring \<rightharpoonup> (jsstring \<rightharpoonup> file_content)" where
  "empty_folders =
     [ascii ''Text'' \<mapsto> Map.empty, ascii ''Audio'' \<mapsto> Map.empty, ascii ''Video'' \<mapsto> Map.empty]"

definition demo_world :: world where
  "demo_world =
     \<lparr>localStorage = Map.empty, quota_allows = accept_all, directory = empty_folders,
      fs_fault = no_fault, Date_parse = parse_demo, now = jan15, now_ms = 42\<rparr>"

definition demo_manager :: FileStorageManager where
  "demo_manager =
     \<lparr>config = \<lparr>diaryPath = [], username = ascii ''ann''\<rparr>,
      directoryHandle = Some Granted_directory\<rparr>"

definition demo_note :: NoteFile where
  "demo_note =
     \<lparr>note_id = ascii ''7'', title = ascii ''Hi'', note_type = TypeText, filename = [],
      content = Some (ascii ''dear diary''), blob = None,
      date = ascii ''2025-01-15T10:30:00.000Z'', tags = [ascii ''a''], mood = None,
      duration = None\<rparr>"

definition demo_dialog :: CreateNoteDialog where
  "demo_dialog =
     \<lparr>viewMode = Editor, noteType = TypeText, form_title = ascii ''Hi'',
      form_content = ascii ''dear diary'', form_tags = ascii ''a, b'', form_mood = ascii ''calm''\<rparr>"

definition demo_view :: SettingsView where
  "demo_view = \<lparr>settings = defaultSettings, hasChanges = False, showDeleteConfirm = True\<rparr>"

definition demo_audio :: NoteFile where
  "demo_audio =
     \<lparr>note_id = ascii ''8'', title = ascii ''Memo'', note_type = TypeAudio, filename = [],
      content = None, blob = Some [1, 2, 3],
      date = ascii ''2025-01-15T10:30:00.000Z'', tags = [], mood = Some (ascii ''calm''),
      duration = Some 12\<rparr>"


section \<open>Strings, dates and filenames\<close>

lemma split_not_Nil: "split sep s \<noteq> []"
  by (induction s) (auto split: list.splits)

lemma hd_split: "hd (split sep s) = takeWhile (\<lambda>c. c \<noteq> sep) s"
  by (induction s) (auto simp: split_not_Nil split: list.splits)

lemma hd_split_append:
  assumes "sep \<notin> set xs"
  shows "hd (split sep (xs @ sep # ys)) = xs"
proof -
  from assms have "takeWhile (\<lambda>c. c \<noteq> sep) (xs @ sep # ys) = xs"
    by (induction xs) auto
  then show ?thesis by (simp only: hd_split)
qed

lemma digit_is_digit: "d < 10 \<Longrightarrow> is_digit (digit d)"
proof -
  assume "d < 10"
  then have "d \<in> {0, 1, 2, 3, 4, 5, 6, 7, 8, 9}" by auto
  then show ?thesis by (auto simp: is_digit_def digit_def)
qed

lemma decimal_digits: "c \<in> set (decimal n) \<Longrightarrow> is_digit c"
proof (induction n arbitrary: c rule: decimal.induct)
  case (1 n)
  show ?case
  proof (cases "n < 10")
    case True
    with "1.prems" show ?thesis by (simp add: decimal.simps [of n] digit_is_digit)
  next
    case False
    with "1.prems" "1.IH" show ?thesis
      by (auto simp: decimal.simps [of n] digit_is_digit)
  qed
qed

lemma length_decimal: "0 < k \<Longrightarrow> n < 10 ^ k \<Longrightarrow> length (decimal n) \<le> k"
proof (induction n arbitrary: k rule: decimal.induct)
  case (1 n)
  show ?case
  proof (cases "n < 10")
    case True
    with "1.prems" show ?thesis by (simp add: decimal.simps [of n])
  next
    case False
    from False "1.prems" have "k \<noteq> 0" "k \<noteq> 1" by auto
    then obtain j where k: "k = Suc j" and j: "0 < j"
      by (cases k) auto
    from "1.prems" k have "n div 10 < 10 ^ j" by (simp add: less_mult_imp_div_less mult.commute)
    with "1.IH" [OF False j] have "length (decimal (n div 10)) \<le> j" by simp
    with False k show ?thesis by (simp add: decimal.simps [of n])
  qed
qed

lemma length_decimal_pos: "0 < length (decimal n)"
  by (subst decimal.simps) simp

lemma length_padStart: "length (padStart w s) = max w (length s)"
  by (simp add: padStart_def)

lemma padStart_digits: "(\<And>c. c \<in> set s \<Longrightarrow> is_digit c) \<Longrightarrow> c \<in> set (padStart w s) \<Longrightarrow> is_digit c"
  by (auto simp: padStart_def is_digit_def)

lemma is_digit_not_T: "is_digit c \<Longrightarrow> c \<noteq> 0x54"
  by (auto simp: is_digit_def)

lemma pad_decimal_digit: "c \<in> set (padStart w (decimal n)) \<Longrightarrow> is_digit c"
  using padStart_digits decimal_digits by blast

lemma iso_year_no_T: "c \<in> set (iso_year y) \<Longrightarrow> c \<noteq> 0x54"
  by (auto simp: iso_year_def ascii_def dest!: pad_decimal_digit is_digit_not_T split: if_splits)

lemma iso_date_no_T: "0x54 \<notin> set (iso_date d)"
  using iso_year_no_T [where c = "0x54"] pad_decimal_digit [where c = "0x54"] is_digit_not_T [where c = "0x54"]
  by (auto simp: iso_date_def ascii_def)

lemma generateFilename_Date:
  "generateFilename t ty (Date d) =
     Inr (iso_date d @ ascii ''_'' @ sanitizedTitle t @ extensions ty)"
proof -
  have "hd (split 0x54 (iso_date d @ 0x54 # iso_time d)) = iso_date d"
    by (rule hd_split_append) (rule iso_date_no_T)
  then show ?thesis by (simp add: generateFilename_def ascii_def)
qed

lemma iso_date_form:
  assumes "0 \<le> year d" "year d \<le> 9999" "month d \<le> 12" "day d \<le> 31"
  shows "\<exists>Y M D. iso_date d = Y @ ascii ''-'' @ M @ ascii ''-'' @ D \<and>
           length Y = 4 \<and> length M = 2 \<and> length D = 2 \<and> (\<forall>c \<in> set (Y @ M @ D). is_digit c)"
proof -
  let ?Y = "padStart 4 (decimal (nat (year d)))"
  let ?M = "padStart 2 (decimal (month d))"
  let ?D = "padStart 2 (decimal (day d))"
  from assms have "nat (year d) < 10 ^ 4" by simp
  then have "length (decimal (nat (year d))) \<le> 4" by (intro length_decimal) simp_all
  then have Y: "length ?Y = 4" by (simp add: length_padStart)
  from assms have "month d < 10 ^ 2" by simp
  then have "length (decimal (month d)) \<le> 2" by (intro length_decimal) simp_all
  then have M: "length ?M = 2" by (simp add: length_padStart)
  from assms have "day d < 10 ^ 2" by simp
  then have "length (decimal (day d)) \<le> 2" by (intro length_decimal) simp_all
  then have D: "length ?D = 2" by (simp add: length_padStart)
  have dg: "\<forall>c \<in> set (?Y @ ?M @ ?D). is_digit c"
    using pad_decimal_digit by auto
  from assms have "iso_date d = ?Y @ ascii ''-'' @ ?M @ ascii ''-'' @ ?D"
    by (simp add: iso_date_def iso_year_def)
  with Y M D dg show ?thesis by blast
qed

subsection \<open>Sanitization\<close>

lemma wtu_chars: "c \<in> set (whitespace_to_underscore s) \<Longrightarrow> (c \<in> set s \<and> \<not> is_ws c) \<or> c = 0x5F"
proof (induction s arbitrary: c rule: whitespace_to_underscore.induct)
  case 1
  then show ?case by simp
next
  case (2 a cs)
  then show ?case
    by (auto split: if_splits dest: set_dropWhileD)
qed

lemma sanitizedTitle_chars: "c \<in> set (sanitizedTitle t) \<Longrightarrow> is_alnum c \<or> c = 0x5F"
  by (auto simp: sanitizedTitle_def remove_special_def dest!: wtu_chars)

lemma alnum_not_ws: "is_alnum c \<Longrightarrow> \<not> is_ws c"
  unfolding is_alnum_def is_ws_def by (auto simp: word_le_nat_alt)

lemma underscore_not_alnum: "\<not> is_alnum 0x5F" "\<not> is_ws 0x5F"
  by (simp_all add: is_alnum_def is_ws_def)

lemma filter_dropWhile_ws: "filter is_alnum (dropWhile is_ws s) = filter is_alnum s"
  by (induction s) (auto simp: alnum_not_ws)

lemma wtu_alnum: "filter is_alnum (whitespace_to_underscore s) = filter is_alnum s"
proof (induction s rule: whitespace_to_underscore.induct)
  case 1
  then show ?case by simp
next
  case (2 c cs)
  then show ?case
    by (auto simp: underscore_not_alnum filter_dropWhile_ws alnum_not_ws)
qed

lemma sanitizedTitle_alnum: "filter is_alnum (sanitizedTitle t) = filter is_alnum t"
proof -
  have "filter is_alnum (remove_special t) = filter is_alnum t"
    by (induction t) (auto simp: remove_special_def)
  then show ?thesis by (simp add: sanitizedTitle_def wtu_alnum)
qed

lemma wtu_no_ws: "\<forall>c \<in> set s. \<not> is_ws c \<Longrightarrow> whitespace_to_underscore (s @ r) = s @ whitespace_to_underscore r"
  by (induction s) auto

lemma wtu_run:
  "w \<noteq> [] \<Longrightarrow> \<forall>c \<in> set w. is_ws c \<Longrightarrow> r = [] \<or> \<not> is_ws (hd r) \<Longrightarrow>
   whitespace_to_underscore (w @ r) = 0x5F # whitespace_to_underscore r"
proof (cases w)
  case Nil
  assume "w \<noteq> []" with Nil show ?thesis by simp
next
  case (Cons c cs)
  assume a: "\<forall>c \<in> set w. is_ws c" "r = [] \<or> \<not> is_ws (hd r)"
  with Cons have "dropWhile is_ws (cs @ r) = r"
    by (cases r) (auto simp: dropWhile_append)
  with a Cons show ?thesis by simp
qed

lemma wtu_append:
  "xs = [] \<or> \<not> is_ws (last xs) \<Longrightarrow>
   whitespace_to_underscore (xs @ ys) = whitespace_to_underscore xs @ whitespace_to_underscore ys"
proof (induction xs rule: whitespace_to_underscore.induct)
  case 1
  then show ?case by simp
next
  case (2 c cs)
  show ?case
  proof (cases "is_ws c")
    case False
    with 2 show ?thesis by (cases cs) auto
  next
    case True
    with "2.prems" have ne: "dropWhile is_ws cs \<noteq> []" and l: "\<not> is_ws (last cs)" and cne: "cs \<noteq> []"
      by (auto split: if_splits)
    have "last (dropWhile is_ws cs) = last cs"
      using ne by (induction cs) (auto split: if_splits)
    with l ne True "2.IH"(1) have
      "whitespace_to_underscore (dropWhile is_ws cs @ ys) =
       whitespace_to_underscore (dropWhile is_ws cs) @ whitespace_to_underscore ys" by simp
    moreover have "dropWhile is_ws (cs @ ys) = dropWhile is_ws cs @ ys"
      using ne by (induction cs) auto
    ultimately show ?thesis using True by simp
  qed
qed

lemma remove_special_append: "remove_special (a @ b) = remove_special a @ remove_special b"
  by (simp add: remove_special_def)

lemma remove_special_ws: "\<forall>c \<in> set w. is_ws c \<Longrightarrow> remove_special w = w"
  by (simp add: remove_special_def)

lemma filter_last_nonempty: "xs \<noteq> [] \<Longrightarrow> P (last xs) \<Longrightarrow> filter P xs \<noteq> []"
  by (induction xs) (auto split: if_splits)

lemma last_filter_P: "xs \<noteq> [] \<Longrightarrow> P (last xs) \<Longrightarrow> last (filter P xs) = last xs"
  by (induction xs) (auto simp: filter_last_nonempty split: if_splits)

lemma remove_special_last:
  "a = [] \<or> is_alnum (last a) \<Longrightarrow> remove_special a = [] \<or> \<not> is_ws (last (remove_special a))"
proof (cases "a = []")
  case True
  then show ?thesis by (simp add: remove_special_def)
next
  case False
  assume "a = [] \<or> is_alnum (last a)"
  with False have l: "is_alnum (last a)" by simp
  then have "last (remove_special a) = last a"
    unfolding remove_special_def using False by (intro last_filter_P) auto
  with l show ?thesis by (simp add: alnum_not_ws)
qed

lemma remove_special_hd:
  "b = [] \<or> is_alnum (hd b) \<Longrightarrow> remove_special b = [] \<or> \<not> is_ws (hd (remove_special b))"
  by (cases b) (auto simp: remove_special_def alnum_not_ws)

lemma sanitizedTitle_run:
  assumes "w \<noteq> []" "\<forall>c \<in> set w. is_ws c" "a = [] \<or> is_alnum (last a)" "b = [] \<or> is_alnum (hd b)"
  shows "sanitizedTitle (a @ w @ b) = sanitizedTitle a @ [0x5F] @ sanitizedTitle b"
proof -
  have "remove_special (a @ w @ b) = remove_special a @ w @ remove_special b"
    using assms(2) by (simp add: remove_special_append remove_special_ws)
  moreover have "whitespace_to_underscore (remove_special a @ w @ remove_special b) =
      whitespace_to_underscore (remove_special a) @ whitespace_to_underscore (w @ remove_special b)"
    by (rule wtu_append) (rule remove_special_last [OF assms(3)])
  moreover have "whitespace_to_underscore (w @ remove_special b) =
      0x5F # whitespace_to_underscore (remove_special b)"
    by (rule wtu_run [OF assms(1,2) remove_special_hd [OF assms(4)]])
  ultimately show ?thesis by (simp add: sanitizedTitle_def)
qed

lemma example_date:
  "iso_date \<lparr>year = 2025, month = 1, day = 15, hours = h, minutes = mi, seconds = sec, milliseconds = ms\<rparr>
     = ascii ''2025-01-15''"
  by (simp add: iso_date_def iso_year_def padStart_def decimal.simps digit_def ascii_def)

lemma example_title: "sanitizedTitle (ascii ''Hello, World!'') = ascii ''Hello_World''"
  by code_simp

text \<open>
  Claim C2, as the code has it. \<^verbatim>\<open>generateFilename\<close> is a function of the title, the
  type and the date: it throws a RangeError on an invalid date and otherwise returns the
  date part of the ISO string, an underscore, the sanitized title and the extension of
  the type (\<^verbatim>\<open>.txt\<close>, \<^verbatim>\<open>.mp3\<close>, \<^verbatim>\<open>.mp4\<close>). For a UTC year from 0 to 9999 the date part
  is four digits, a dash, two digits, a dash, two digits. Sanitization removes every
  code unit that is neither in \<^verbatim>\<open>[A-Za-z0-9]\<close> nor whitespace (\<^verbatim>\<open>\s\<close>, not only the
  space) and then turns every run of whitespace into one underscore: the result holds
  only letters, digits and underscores, the letters and digits of the title are kept
  in order, and a run of whitespace between two pieces that end and start with a letter
  or digit becomes exactly one underscore. A text note titled "Hello, World!" dated
  2025-01-15 gets the filename \<^verbatim>\<open>2025-01-15_Hello_World.txt\<close>.
\<close>

theorem generateFilename_form:
  "generateFilename t ty Invalid_Date = Inl RangeError \<and>
   generateFilename t ty (Date d) =
     Inr (iso_date d @ ascii ''_'' @ sanitizedTitle t @ extensions ty) \<and>
   (0 \<le> year d \<and> year d \<le> 9999 \<and> calendar_ok d \<longrightarrow>
      (\<exists>Y M D. iso_date d = Y @ ascii ''-'' @ M @ ascii ''-'' @ D \<and>
         length Y = 4 \<and> length M = 2 \<and> length D = 2 \<and> (\<forall>c \<in> set (Y @ M @ D). is_digit c))) \<and>
   sanitizedTitle t = whitespace_to_underscore (filter (\<lambda>c. is_alnum c \<or> is_ws c) t) \<and>
   (\<forall>c \<in> set (sanitizedTitle t). is_alnum c \<or> c = 0x5F) \<and>
   filter is_alnum (sanitizedTitle t) = filter is_alnum t \<and>
   (\<forall>a w b. t = a @ w @ b \<and> w \<noteq> [] \<and> (\<forall>c \<in> set w. is_ws c) \<and>
       (a = [] \<or> is_alnum (last a)) \<and> (b = [] \<or> is_alnum (hd b)) \<longrightarrow>
       sanitizedTitle t = sanitizedTitle a @ ascii ''_'' @ sanitizedTitle b) \<and>
   extensions TypeText = ascii ''.txt'' \<and> extensions TypeAudio = ascii ''.mp3'' \<and>
   extensions TypeVideo = ascii ''.mp4'' \<and>
   generateFilename (ascii ''Hello, World!'') TypeText
     (Date \<lparr>year = 2025, month = 1, day = 15, hours = h, minutes = mi, seconds = sec,
            milliseconds = ms\<rparr>) = Inr (ascii ''2025-01-15_Hello_World.txt'')"
proof -
  have form: "0 \<le> year d \<and> year d \<le> 9999 \<and> calendar_ok d \<longrightarrow>
      (\<exists>Y M D. iso_date d = Y @ ascii ''-'' @ M @ ascii ''-'' @ D \<and>
         length Y = 4 \<and> length M = 2 \<and> length D = 2 \<and> (\<forall>c \<in> set (Y @ M @ D). is_digit c))"
    using iso_date_form [of d] by (simp add: calendar_ok_def)
  have run: "\<forall>a w b. t = a @ w @ b \<and> w \<noteq> [] \<and> (\<forall>c \<in> set w. is_ws c) \<and>
       (a = [] \<or> is_alnum (last a)) \<and> (b = [] \<or> is_alnum (hd b)) \<longrightarrow>
       sanitizedTitle t = sanitizedTitle a @ ascii ''_'' @ sanitizedTitle b"
    using sanitizedTitle_run by (simp add: ascii_def)
  have chars: "\<forall>c \<in> set (sanitizedTitle t). is_alnum c \<or> c = 0x5F"
    using sanitizedTitle_chars by blast
  have ex: "generateFilename (ascii ''Hello, World!'') TypeText
     (Date \<lparr>year = 2025, month = 1, day = 15, hours = h, minutes = mi, seconds = sec,
            milliseconds = ms\<rparr>) = Inr (ascii ''2025-01-15_Hello_World.txt'')"
    by (simp only: generateFilename_Date example_date example_title) (simp add: ascii_def)
  have inv: "generateFilename t ty Invalid_Date = Inl RangeError"
    by (simp add: generateFilename_def)
  have san: "sanitizedTitle t = whitespace_to_underscore (filter (\<lambda>c. is_alnum c \<or> is_ws c) t)"
    by (simp add: sanitizedTitle_def remove_special_def)
  have exts: "extensions TypeText = ascii ''.txt'' \<and> extensions TypeAudio = ascii ''.mp3'' \<and>
   extensions TypeVideo = ascii ''.mp4''" by simp
  from inv generateFilename_Date [of t ty d] form san chars sanitizedTitle_alnum [of t] run exts ex
  show ?thesis by (intro conjI) blast+
qed

text \<open>An audio note titled "My  day!" (two spaces) on 2025-01-15.\<close>

theorem generateFilename_form_witness:
  "0 \<le> (2025 :: int) \<and> (2025 :: int) \<le> 9999 \<and>
   calendar_ok \<lparr>year = 2025, month = 1, day = 15, hours = 10, minutes = 30, seconds = 0, milliseconds = 0\<rparr> \<and>
   generateFilename (ascii ''My  day!'') TypeAudio
     (Date \<lparr>year = 2025, month = 1, day = 15, hours = 10, minutes = 30, seconds = 0, milliseconds = 0\<rparr>)
     = Inr (ascii ''2025-01-15_My_day.mp3'')"
proof -
  let ?d = "\<lparr>year = 2025, month = 1, day = 15, hours = 10, minutes = 30, seconds = 0, milliseconds = 0\<rparr>"
  have c: "calendar_ok ?d" by (simp add: calendar_ok_def)
  have t: "sanitizedTitle (ascii ''My  day!'') = ascii ''My_day''" by code_simp
  from generateFilename_form [of "ascii ''My  day!''" TypeAudio ?d]
  have "generateFilename (ascii ''My  day!'') TypeAudio (Date ?d) =
     Inr (iso_date ?d @ ascii ''_'' @ sanitizedTitle (ascii ''My  day!'') @ extensions TypeAudio)"
    by blast
  moreover have "iso_date ?d = ascii ''2025-01-15''" by (rule example_date)
  moreover have "ascii ''2025-01-15'' @ ascii ''_'' @ ascii ''My_day'' @ extensions TypeAudio =
      ascii ''2025-01-15_My_day.mp3''" by (simp add: ascii_def)
  ultimately show ?thesis using c t by simp
qed

text \<open>
  Where the claim as worded fails: a tab is outside \<^verbatim>\<open>[A-Za-z0-9 ]\<close>, yet it is not
  removed but becomes an underscore; the year 10000 is printed with a sign and six
  digits; an invalid date gives no filename.
\<close>

theorem generateFilename_spec_counterexample:
  "generateFilename [0x61, 0x09, 0x62] TypeText
     (Date \<lparr>year = 2025, month = 1, day = 15, hours = 0, minutes = 0, seconds = 0, milliseconds = 0\<rparr>)
     = Inr (ascii ''2025-01-15_a_b.txt'') \<and>
   ascii ''2025-01-15_'' @ spec_sanitize [0x61, 0x09, 0x62] @ ascii ''.txt'' = ascii ''2025-01-15_ab.txt'' \<and>
   generateFilename (ascii ''a'') TypeText
     (Date \<lparr>year = 10000, month = 1, day = 1, hours = 0, minutes = 0, seconds = 0, milliseconds = 0\<rparr>)
     = Inr (ascii ''+010000-01-01_a.txt'') \<and>
   generateFilename (ascii ''a'') TypeText Invalid_Date = Inl RangeError"
proof -
  have t1: "sanitizedTitle [0x61, 0x09, 0x62] = ascii ''a_b''" by code_simp
  have t2: "spec_sanitize [0x61, 0x09, 0x62] = ascii ''ab''" by code_simp
  have t3: "sanitizedTitle (ascii ''a'') = ascii ''a''" by code_simp
  have d2: "iso_date \<lparr>year = 10000, month = 1, day = 1, hours = 0, minutes = 0, seconds = 0,
      milliseconds = 0\<rparr> = ascii ''+010000-01-01''"
    by (simp add: iso_date_def iso_year_def padStart_def decimal.simps digit_def ascii_def)
  have i: "generateFilename (ascii ''a'') TypeText Invalid_Date = Inl RangeError"
    by (simp add: generateFilename_def)
  show ?thesis
    by (simp only: generateFilename_Date example_date d2 t1 t2 t3 i) (simp add: ascii_def)
qed

section \<open>JSON round trips\<close>

lemma update_fresh: "k \<notin> fst ` set al \<Longrightarrow> AList.update k v al = al @ [(k, v)]"
  by (induction al) auto

lemma set_update_subset: "set (AList.update k v al) \<subseteq> insert (k, v) (set al)"
  by (induction al) auto

lemma foldl_update_distinct:
  "distinct (map fst acc) \<Longrightarrow>
   distinct (map fst (foldl (\<lambda>obj (k, v). AList.update k v obj) acc ps))"
  by (induction ps arbitrary: acc) (auto simp: distinct_update)

lemma foldl_update_set:
  "set (foldl (\<lambda>obj (k, v). AList.update k v obj) acc ps) \<subseteq> set acc \<union> set ps"
proof (induction ps arbitrary: acc)
  case Nil
  then show ?case by simp
next
  case (Cons p ps)
  obtain k v where p: "p = (k, v)" by (cases p)
  from Cons [of "AList.update k v acc"] set_update_subset [of k v acc] p
  show ?case by auto
qed

lemma foldl_update_fresh:
  "distinct (map fst (acc @ ps)) \<Longrightarrow>
   foldl (\<lambda>obj (k, v). AList.update k v obj) acc ps = acc @ ps"
proof (induction ps arbitrary: acc)
  case Nil
  then show ?case by simp
next
  case (Cons p ps)
  obtain k v where p: "p = (k, v)" by (cases p)
  with Cons.prems have fresh: "k \<notin> fst ` set acc" by auto
  from Cons.prems p have "distinct (map fst ((acc @ [(k, v)]) @ ps))" by auto
  from Cons.IH [OF this] fresh p show ?case by (simp add: update_fresh)
qed

lemma define_properties_distinct: "distinct (map fst (define_properties ps))"
  unfolding define_properties_def by (rule foldl_update_distinct) simp

lemma define_properties_set: "set (define_properties ps) \<subseteq> set ps"
  unfolding define_properties_def using foldl_update_set [of "[]" ps] by simp

lemma define_properties_id: "distinct (map fst ps) \<Longrightarrow> define_properties ps = ps"
  unfolding define_properties_def using foldl_update_fresh [of "[]" ps] by simp

lemma stable_members:
  "\<forall>p \<in> set ps. stable (snd p) \<Longrightarrow> internalize_members (SerializeJSONObject ps) = ps"
proof (induction ps)
  case Nil
  then show ?case by simp
next
  case (Cons p ps)
  obtain k v where p: "p = (k, v)" by (cases p)
  with Cons.prems obtain j where "SerializeJSONProperty v = Some j" "internalize j = v"
    by (auto simp: stable_def split: option.splits)
  with Cons p show ?case by simp
qed

lemma stable_list:
  "\<forall>v \<in> set vs. stable v \<Longrightarrow> internalize_list (SerializeJSONArray vs) = vs"
proof (induction vs)
  case Nil
  then show ?case by simp
next
  case (Cons v vs)
  then obtain j where "SerializeJSONProperty v = Some j" "internalize j = v"
    by (auto simp: stable_def split: option.splits)
  with Cons show ?case by simp
qed

lemma stable_internalize:
  "stable (internalize j)"
  "\<forall>v \<in> set (internalize_list js). stable v"
  "\<forall>p \<in> set (internalize_members kvs). stable (snd p)"
proof (induction j and js and kvs rule: internalize_internalize_list_internalize_members.induct)
  case (5 js)
  then show ?case by (simp add: stable_def stable_list)
next
  case (6 kvs)
  let ?ps = "define_properties (internalize_members kvs)"
  from 6 define_properties_set [of "internalize_members kvs"]
  have st: "\<forall>p \<in> set ?ps. stable (snd p)" by blast
  have "define_properties ?ps = ?ps"
    by (rule define_properties_id) (rule define_properties_distinct)
  with st show ?case by (simp add: stable_def stable_members)
next
  case (8 j js)
  then show ?case by simp
next
  case (10 k j kvs)
  then show ?case by simp
qed (simp_all add: stable_def)

lemma SerializeJSONArray_append:
  "SerializeJSONArray (xs @ ys) = SerializeJSONArray xs @ SerializeJSONArray ys"
  by (induction xs) auto

lemma internalize_list_append:
  "internalize_list (xs @ ys) = internalize_list xs @ internalize_list ys"
  by (induction xs) auto

lemma stable_Arr: "stable (Arr xs) = (internalize_list (SerializeJSONArray xs) = xs)"
  by (simp add: stable_def)

lemma stable_reparse: "stable v \<Longrightarrow> reparse v = v"
  by (auto simp: stable_def reparse_def split: option.splits)

lemma reparse_stable: "stable (reparse v)"
  by (simp add: reparse_def stable_internalize)

lemma reparse_append:
  assumes "stable (Arr olds)"
  shows "internalize (JArr (SerializeJSONArray (olds @ [x]))) = Arr (olds @ [reparse x])"
  using assms
  by (simp add: stable_Arr SerializeJSONArray_append internalize_list_append reparse_def)

lemma keys_SerializeJSONObject: "fst ` set (SerializeJSONObject kvs) \<subseteq> fst ` set kvs"
proof (induction kvs)
  case Nil
  then show ?case by simp
next
  case (Cons p kvs)
  obtain k v where "p = (k, v)" by (cases p)
  with Cons show ?case by (auto split: option.splits)
qed

lemma keys_internalize_members: "map fst (internalize_members kvs) = map fst kvs"
  by (induction kvs) auto

lemma distinct_SerializeJSONObject:
  "distinct (map fst kvs) \<Longrightarrow> distinct (map fst (SerializeJSONObject kvs))"
proof (induction kvs)
  case Nil
  then show ?case by simp
next
  case (Cons p kvs)
  obtain k v where "p = (k, v)" by (cases p)
  with Cons keys_SerializeJSONObject [of kvs] show ?case
    by (auto split: option.splits)
qed

lemma map_of_reparsed:
  "distinct (map fst kvs) \<Longrightarrow>
   map_of (internalize_members (SerializeJSONObject kvs)) k =
     (case map_of kvs k of
        None \<Rightarrow> None
      | Some v \<Rightarrow> map_option internalize (SerializeJSONProperty v))"
proof (induction kvs)
  case Nil
  then show ?case by simp
next
  case (Cons p kvs)
  obtain k' v where p: "p = (k', v)" by (cases p)
  show ?case
  proof (cases "k = k'")
    case False
    with Cons p show ?thesis by (auto split: option.splits)
  next
    case True
    from Cons.prems p have "k' \<notin> fst ` set kvs" by auto
    with keys_SerializeJSONObject [of kvs]
    have "k' \<notin> fst ` set (internalize_members (SerializeJSONObject kvs))"
      using keys_internalize_members [of "SerializeJSONObject kvs"]
      by (metis list.set_map subsetD)
    then have "map_of (internalize_members (SerializeJSONObject kvs)) k' = None"
      by (simp add: map_of_eq_None_iff)
    with True p show ?thesis by (auto split: option.splits)
  qed
qed

lemma reparse_Obj:
  assumes "distinct (map fst kvs)"
  shows "reparse (Obj kvs) = Obj (internalize_members (SerializeJSONObject kvs))"
proof -
  have "distinct (map fst (internalize_members (SerializeJSONObject kvs)))"
    using distinct_SerializeJSONObject [OF assms] by (simp add: keys_internalize_members)
  then show ?thesis by (simp add: reparse_def define_properties_id)
qed

lemma get_reparse_Obj:
  assumes "distinct (map fst kvs)"
  shows "get (reparse (Obj kvs)) k =
     Inr (case map_of kvs k of
            None \<Rightarrow> Undefined
          | Some v \<Rightarrow> (case SerializeJSONProperty v of None \<Rightarrow> Undefined | Some j \<Rightarrow> internalize j))"
  by (simp add: reparse_Obj [OF assms] map_of_reparsed [OF assms] split: option.splits)

lemma get_reparse_stable:
  assumes "distinct (map fst kvs)" "get (Obj kvs) k = Inr v" "stable v \<or> v = Undefined"
  shows "get (reparse (Obj kvs)) k = Inr v"
  using assms(2,3)
  by (auto simp: get_reparse_Obj [OF assms(1)] stable_def split: option.splits)

lemma stable_simps:
  "stable Null" "stable (Bool b)" "stable (Num n)" "stable (Str s)" "\<not> stable Undefined"
  "\<not> stable (Blob bs)"
  by (simp_all add: stable_def define_properties_def)

lemma stable_Arr_Str: "stable (Arr (map Str ss))"
  by (induction ss) (auto simp: stable_def)

section \<open>The stored collection\<close>

subsection \<open>Reading and appending\<close>

lemma bind_return: "bind m return = m"
  by (rule ext) (auto simp: bind_def return_def split: prod.splits sum.splits)

lemma readAll_eq:
  "readAll u w = (JSON_parse (or_text (localStorage w (notes_key u)) (JSON_text (JArr []))), w)"
  by (simp add: readAll_def bind_def getItem_def lift_def)

lemma snd_readAll: "snd (readAll u w) = w"
  by (simp add: readAll_eq)

lemma readAll_pair: "readAll u w = (fst (readAll u w), w)"
  by (simp add: readAll_eq)

lemma JSON_parse_stable: "JSON_parse t = Inr v \<Longrightarrow> stable v"
  by (cases t) (auto simp: stable_internalize)

lemma readAll_stable: "fst (readAll u w) = Inr v \<Longrightarrow> stable v"
  by (simp add: readAll_eq JSON_parse_stable)

lemma readAll_missing:
  "localStorage w (notes_key u) = None \<or> localStorage w (notes_key u) = Some (Other_text []) \<Longrightarrow>
   fst (readAll u w) = Inr (Arr [])"
  by (auto simp: readAll_eq or_text_def define_properties_def)

lemma readAll_unparsable:
  "localStorage w (notes_key u) = Some (Other_text s) \<Longrightarrow> s \<noteq> [] \<Longrightarrow>
   fst (readAll u w) = Inl SyntaxError"
  by (simp add: readAll_eq or_text_def)

lemma readAll_same_store:
  "localStorage w' = localStorage w \<Longrightarrow> fst (readAll u w') = fst (readAll u w)"
  by (simp add: readAll_eq)

lemma can_append_same_store:
  "localStorage w' = localStorage w \<Longrightarrow> quota_allows w' = quota_allows w \<Longrightarrow>
   can_append u x w' = can_append u x w"
  by (simp add: can_append_def readAll_eq split: sum.splits jsval.splits)

lemma text_of_array: "ToString (JSON_stringify (Arr xs)) = JSON_text (JArr (SerializeJSONArray xs))"
  by (simp add: ToString_def JSON_stringify_def)

lemma can_append_cases:
  assumes "can_append u x w"
  obtains olds where "fst (readAll u w) = Inr (Arr olds)"
    and "quota_allows w (notes_key u) (JSON_text (JArr (SerializeJSONArray (olds @ [x]))))"
  using assms
  by (auto simp: can_append_def text_of_array split: sum.splits jsval.splits)

lemma can_appendI:
  "fst (readAll u w) = Inr (Arr olds) \<Longrightarrow>
   quota_allows w (notes_key u) (JSON_text (JArr (SerializeJSONArray (olds @ [x])))) \<Longrightarrow>
   can_append u x w"
  by (simp add: can_append_def text_of_array)

lemma append_ok:
  assumes "fst (readAll u w) = Inr (Arr olds)" "can_append u x w"
  shows "bind (readAll u) (\<lambda>xs. bind (lift (push xs x)) (\<lambda>xs'.
           bind (setItem (notes_key u) (ToString (JSON_stringify xs'))) k)) w =
         k () (w\<lparr>localStorage := (localStorage w)(notes_key u \<mapsto>
                  JSON_text (JArr (SerializeJSONArray (olds @ [x]))))\<rparr>)"
proof -
  from assms have q: "quota_allows w (notes_key u) (JSON_text (JArr (SerializeJSONArray (olds @ [x]))))"
    by (simp add: can_append_def text_of_array)
  from assms(1) have "readAll u w = (Inr (Arr olds), w)"
    using readAll_pair [of u w] by simp
  with q show ?thesis
    by (simp add: bind_def lift_def setItem_def text_of_array)
qed

lemma append_fail:
  assumes "\<not> can_append u x w"
  shows "\<exists>e. bind (readAll u) (\<lambda>xs. bind (lift (push xs x)) (\<lambda>xs'.
           bind (setItem (notes_key u) (ToString (JSON_stringify xs'))) k)) w = (Inl e, w)"
proof (cases "fst (readAll u w)")
  case (Inl e)
  then have "readAll u w = (Inl e, w)" using readAll_pair [of u w] by simp
  then show ?thesis by (simp add: bind_def)
next
  case (Inr v)
  then have r: "readAll u w = (Inr v, w)" using readAll_pair [of u w] by simp
  show ?thesis
  proof (cases "\<exists>olds. v = Arr olds")
    case True
    then obtain olds where v: "v = Arr olds" by blast
    with assms Inr have "\<not> quota_allows w (notes_key u) (JSON_text (JArr (SerializeJSONArray (olds @ [x]))))"
      by (simp add: can_append_def text_of_array)
    with r v show ?thesis by (simp add: bind_def lift_def setItem_def text_of_array)
  next
    case False
    then have "push v x = Inl TypeError" by (cases v) auto
    with r show ?thesis by (simp add: bind_def lift_def)
  qed
qed

lemma readAll_after_append:
  assumes "fst (readAll u w) = Inr (Arr olds)"
  shows "fst (readAll u (w\<lparr>localStorage := (localStorage w)(notes_key u \<mapsto>
                  JSON_text (JArr (SerializeJSONArray (olds @ [x]))))\<rparr>)) =
         Inr (Arr (olds @ [reparse x]))"
proof -
  from assms have "stable (Arr olds)" by (rule readAll_stable)
  then have "internalize (JArr (SerializeJSONArray (olds @ [x]))) = Arr (olds @ [reparse x])"
    by (rule reparse_append)
  then show ?thesis by (simp add: readAll_eq or_text_def)
qed

subsection \<open>saveToLocalStorage and saveMetadataToLocalStorage\<close>

lemma saveToLocalStorage_ok:
  assumes "fst (readAll (username (config m)) w) = Inr (Arr olds)"
    "can_append (username (config m)) (noteData note) w"
  shows "saveToLocalStorage m note w =
     (Inr True, w\<lparr>localStorage := (localStorage w)(notes_key (username (config m)) \<mapsto>
         JSON_text (JArr (SerializeJSONArray (olds @ [noteData note]))))\<rparr>)"
  unfolding saveToLocalStorage_def try_catch_def
  by (simp add: append_ok [OF assms] return_def)

lemma saveToLocalStorage_fail:
  assumes "\<not> can_append (username (config m)) (noteData note) w"
  shows "saveToLocalStorage m note w = (Inr False, w)"
proof -
  from append_fail [OF assms] obtain e where
    "bind (readAll (username (config m))) (\<lambda>xs. bind (lift (push xs (noteData note))) (\<lambda>xs'.
       bind (setItem (notes_key (username (config m))) (ToString (JSON_stringify xs')))
         (\<lambda>_. return True))) w = (Inl e, w)" by blast
  then show ?thesis
    unfolding saveToLocalStorage_def try_catch_def by (simp add: return_def)
qed

lemma saveMetadata_ok:
  assumes "fst (readAll (username (config m)) w) = Inr (Arr olds)"
    "can_append (username (config m)) (metadata note fname) w"
  shows "saveMetadataToLocalStorage m note fname w =
     (Inr (), w\<lparr>localStorage := (localStorage w)(notes_key (username (config m)) \<mapsto>
         JSON_text (JArr (SerializeJSONArray (olds @ [metadata note fname]))))\<rparr>)"
proof -
  have "saveMetadataToLocalStorage m note fname =
      bind (readAll (username (config m))) (\<lambda>xs. bind (lift (push xs (metadata note fname))) (\<lambda>xs'.
       bind (setItem (notes_key (username (config m))) (ToString (JSON_stringify xs'))) return))"
    by (simp add: saveMetadataToLocalStorage_def bind_return)
  then show ?thesis by (simp add: append_ok [OF assms] return_def)
qed

lemma saveMetadata_fail:
  assumes "\<not> can_append (username (config m)) (metadata note fname) w"
  shows "\<exists>e. saveMetadataToLocalStorage m note fname w = (Inl e, w)"
proof -
  have "saveMetadataToLocalStorage m note fname =
      bind (readAll (username (config m))) (\<lambda>xs. bind (lift (push xs (metadata note fname))) (\<lambda>xs'.
       bind (setItem (notes_key (username (config m))) (ToString (JSON_stringify xs'))) return))"
    by (simp add: saveMetadataToLocalStorage_def bind_return)
  with append_fail [OF assms] show ?thesis by simp
qed

section \<open>Export to the directory\<close>

subsection \<open>The file path\<close>

lemma write_note_file_frame:
  assumes "write_note_file h note w = (r, w1)"
  shows "w1 = w\<lparr>directory := directory w1\<rparr>"
  using assms
  unfolding write_note_file_def bind_def lift_def return_def getDirectoryHandle_def
    getFileHandle_def createWritable_def write_stream_def close_stream_def
  by (auto split: if_splits sum.splits option.splits prod.splits)

lemma write_note_file_store:
  assumes "write_note_file h note w = (r, w1)"
  shows "localStorage w1 = localStorage w" "quota_allows w1 = quota_allows w"
proof -
  from write_note_file_frame [OF assms] have e: "w1 = w\<lparr>directory := directory w1\<rparr>" .
  show "localStorage w1 = localStorage w" by (subst e) simp
  show "quota_allows w1 = quota_allows w" by (subst e) simp
qed

lemma write_note_file_written:
  assumes "write_note_file h note w = (Inr fname, w1)"
  shows "generateFilename (title note) (note_type note) (Date_parse w (date note)) = Inr fname \<and>
     (\<exists>files. directory w (subdirName (note_type note)) = Some files \<and>
        directory w1 = (directory w)(subdirName (note_type note) \<mapsto> files(fname \<mapsto> file_data note)))"
  using assms
  unfolding write_note_file_def bind_def lift_def return_def getDirectoryHandle_def
    getFileHandle_def createWritable_def write_stream_def close_stream_def file_data_def
  by (auto split: if_splits sum.splits option.splits prod.splits)

lemma export_to_directory_eq:
  "export_to_directory m h note w =
     (case write_note_file h note w of
        (Inl e, w0) \<Rightarrow> (Inl e, w0)
      | (Inr fname, w0) \<Rightarrow>
          (case saveMetadataToLocalStorage m note fname w0 of
             (Inl e, w1) \<Rightarrow> (Inl e, w1)
           | (Inr u, w1) \<Rightarrow> (Inr True, w1)))"
  by (simp add: export_to_directory_def bind_def return_def split: prod.splits sum.splits)

lemma export_failed_store:
  assumes "export_to_directory m h note w = (Inl e, w1)"
  shows "localStorage w1 = localStorage w \<and> quota_allows w1 = quota_allows w"
proof (cases "write_note_file h note w")
  case (Pair r w0)
  note st = write_note_file_store [OF Pair]
  show ?thesis
  proof (cases r)
    case (Inl e')
    with assms Pair st show ?thesis by (simp add: export_to_directory_eq)
  next
    case (Inr fname)
    show ?thesis
    proof (cases "can_append (username (config m)) (metadata note fname) w0")
      case True
      then obtain olds where "fst (readAll (username (config m)) w0) = Inr (Arr olds)"
        by (rule can_append_cases)
      from saveMetadata_ok [OF this True] assms Pair Inr show ?thesis
        by (simp add: export_to_directory_eq)
    next
      case False
      from saveMetadata_fail [OF this] obtain e' where
        "saveMetadataToLocalStorage m note fname w0 = (Inl e', w0)" by blast
      with assms Pair Inr st show ?thesis by (simp add: export_to_directory_eq)
    qed
  qed
qed

lemma export_completed_shadow:
  assumes "export_to_directory m h note w = (Inr b, w1)"
  shows "b = True \<and>
     (\<exists>fname olds files.
        generateFilename (title note) (note_type note) (Date_parse w (date note)) = Inr fname \<and>
        fst (readAll (username (config m)) w) = Inr (Arr olds) \<and>
        fst (readAll (username (config m)) w1) = Inr (Arr (olds @ [reparse (metadata note fname)])) \<and>
        directory w (subdirName (note_type note)) = Some files \<and>
        directory w1 = (directory w)(subdirName (note_type note) \<mapsto> files(fname \<mapsto> file_data note)))"
proof (cases "write_note_file h note w")
  case (Pair r w0)
  note st = write_note_file_store [OF Pair]
  show ?thesis
  proof (cases r)
    case (Inl e')
    with assms Pair show ?thesis by (simp add: export_to_directory_eq)
  next
    case (Inr fname)
    with Pair have wr: "write_note_file h note w = (Inr fname, w0)" by simp
    note written = write_note_file_written [OF wr]
    show ?thesis
    proof (cases "can_append (username (config m)) (metadata note fname) w0")
      case False
      from saveMetadata_fail [OF this] obtain e' where
        "saveMetadataToLocalStorage m note fname w0 = (Inl e', w0)" by blast
      with assms wr show ?thesis by (simp add: export_to_directory_eq)
    next
      case True
      then obtain olds where olds: "fst (readAll (username (config m)) w0) = Inr (Arr olds)"
        by (rule can_append_cases)
      from saveMetadata_ok [OF olds True] assms wr
      have b: "b = True" and w1: "w1 = w0\<lparr>localStorage := (localStorage w0)(notes_key (username (config m)) \<mapsto>
         JSON_text (JArr (SerializeJSONArray (olds @ [metadata note fname]))))\<rparr>"
        by (simp_all add: export_to_directory_eq)
      from olds readAll_same_store [OF st(1), of "username (config m)"]
      have olds': "fst (readAll (username (config m)) w) = Inr (Arr olds)"
        by simp
      from readAll_after_append [OF olds, of "metadata note fname"] w1
      have "fst (readAll (username (config m)) w1) = Inr (Arr (olds @ [reparse (metadata note fname)]))"
        by simp
      moreover from w1 have "directory w1 = directory w0" by simp
      ultimately show ?thesis using b olds' written by fastforce
    qed
  qed
qed

subsection \<open>saveNoteToFile\<close>

lemma saveToLocalStorage_cases:
  "saveToLocalStorage m note w =
     (if can_append (username (config m)) (noteData note) w
      then (Inr True, snd (saveToLocalStorage m note w))
      else (Inr False, w))"
proof (cases "can_append (username (config m)) (noteData note) w")
  case True
  then obtain olds where "fst (readAll (username (config m)) w) = Inr (Arr olds)"
    by (rule can_append_cases)
  from saveToLocalStorage_ok [OF this True] True show ?thesis by simp
next
  case False
  from saveToLocalStorage_fail [OF this] False show ?thesis by simp
qed

lemma saveToLocalStorage_never_throws: "\<exists>b w'. saveToLocalStorage m note w = (Inr b, w')"
  by (subst saveToLocalStorage_cases) auto

lemma saveNoteToFile_eq:
  "saveNoteToFile m note w =
     (if export_completed m note w then (Inr True, after_attempt m note w)
      else saveToLocalStorage m note (after_attempt m note w))"
proof (cases "directoryHandle m")
  case None
  from saveToLocalStorage_never_throws [of m "note" w] obtain b w' where
    "saveToLocalStorage m note w = (Inr b, w')" by blast
  with None show ?thesis
    by (simp add: saveNoteToFile_def try_catch_def export_completed_def after_attempt_def)
next
  case (Some h)
  show ?thesis
  proof (cases "export_to_directory m h note w")
    case (Pair r w1)
    show ?thesis
    proof (cases r)
      case (Inl e)
      with Some Pair show ?thesis
        by (simp add: saveNoteToFile_def try_catch_def export_completed_def after_attempt_def)
    next
      case (Inr b)
      with Pair export_completed_shadow [of m h "note" w b w1] have "b = True" by simp
      with Some Pair Inr show ?thesis
        by (simp add: saveNoteToFile_def try_catch_def export_completed_def after_attempt_def)
    qed
  qed
qed

lemma after_attempt_store:
  assumes "\<not> export_completed m note w"
  shows "localStorage (after_attempt m note w) = localStorage w \<and>
         quota_allows (after_attempt m note w) = quota_allows w"
proof (cases "directoryHandle m")
  case None
  then show ?thesis by (simp add: after_attempt_def)
next
  case (Some h)
  with assms obtain e w1 where "export_to_directory m h note w = (Inl e, w1)"
    by (cases "export_to_directory m h note w")
       (auto simp: export_completed_def split: sum.splits)
  with export_failed_store [OF this] Some show ?thesis by (simp add: after_attempt_def)
qed

subsection \<open>The fields of the stored records\<close>

lemma readback_id:
  "stable v \<or> v = Undefined \<Longrightarrow>
   (case SerializeJSONProperty v of None \<Rightarrow> Undefined | Some j \<Rightarrow> internalize j) = v"
  by (auto simp: stable_def split: option.splits)

lemma stable_optional_Str: "stable (optional Str x) \<or> optional Str x = Undefined"
  by (cases x) (simp_all add: optional_def stable_simps)

lemma stable_optional_Num: "stable (optional Num x) \<or> optional Num x = Undefined"
  by (cases x) (simp_all add: optional_def stable_simps)

lemma get_reparse_field:
  assumes "distinct (map fst kvs)" "map_of kvs k = Some v" "stable v \<or> v = Undefined"
  shows "get (reparse (Obj kvs)) k = Inr v"
  using assms(2) readback_id [OF assms(3)] by (simp add: get_reparse_Obj [OF assms(1)])

lemma get_reparse_absent:
  assumes "distinct (map fst kvs)" "k \<notin> set (map fst kvs)"
  shows "get (reparse (Obj kvs)) k = Inr Undefined"
proof -
  from assms(2) have "map_of kvs k = None" by (simp add: map_of_eq_None_iff)
  then show ?thesis by (simp add: get_reparse_Obj [OF assms(1)])
qed

lemma carries_metadata: "carries note (reparse (metadata note fname))"
  unfolding carries_def metadata_def
  by (intro conjI get_reparse_field)
     (simp_all add: stable_simps stable_Arr_Str stable_optional_Str stable_optional_Num)

lemma metadata_filename: "get (reparse (metadata note fname)) ''filename'' = Inr (Str fname)"
  unfolding metadata_def by (rule get_reparse_field) (simp_all add: stable_simps)

lemma metadata_savedToFile: "get (reparse (metadata note fname)) ''savedToFile'' = Inr (Bool True)"
  unfolding metadata_def by (rule get_reparse_field) (simp_all add: stable_simps)

lemma metadata_other:
  "k \<notin> set [''id'', ''title'', ''type'', ''filename'', ''date'', ''tags'', ''mood'', ''duration'',
      ''savedToFile''] \<Longrightarrow> get (reparse (metadata note fname)) k = Inr Undefined"
  unfolding metadata_def by (rule get_reparse_absent) simp_all

lemma carries_noteData: "carries note (reparse (noteData note))"
  unfolding carries_def noteData_def
  by (intro conjI get_reparse_field)
     (simp_all add: stable_simps stable_Arr_Str stable_optional_Str stable_optional_Num)

lemma noteData_content:
  "get (reparse (noteData note)) ''content'' = Inr (optional Str (content note))"
  unfolding noteData_def by (rule get_reparse_field) (simp_all add: stable_optional_Str)

lemma noteData_savedToFile: "get (reparse (noteData note)) ''savedToFile'' = Inr (Bool False)"
  unfolding noteData_def by (rule get_reparse_field) (simp_all add: stable_simps)

lemma noteData_audioData:
  "get (reparse (noteData note)) ''audioData'' =
     Inr (if note_type note = TypeAudio \<and> blob note \<noteq> None then Obj [] else Undefined)"
  unfolding noteData_def
  by (subst get_reparse_Obj) (auto simp: optional_def define_properties_def split: option.splits)

lemma noteData_videoData:
  "get (reparse (noteData note)) ''videoData'' =
     Inr (if note_type note = TypeVideo \<and> blob note \<noteq> None then Obj [] else Undefined)"
  unfolding noteData_def
  by (subst get_reparse_Obj) (auto simp: optional_def define_properties_def split: option.splits)

section \<open>The fallback\<close>

lemma saveToLocalStorage_directory: "directory (snd (saveToLocalStorage m n w)) = directory w"
proof (cases "can_append (username (config m)) (noteData n) w")
  case True
  then obtain olds where "fst (readAll (username (config m)) w) = Inr (Arr olds)"
    by (rule can_append_cases)
  from saveToLocalStorage_ok [OF this True] show ?thesis by simp
next
  case False
  from saveToLocalStorage_fail [OF this] show ?thesis by simp
qed

lemma fallback_appends:
  assumes "can_append (username (config m)) (noteData n) w"
  shows "\<exists>olds w'. saveToLocalStorage m n w = (Inr True, w') \<and>
     fst (readAll (username (config m)) w) = Inr (Arr olds) \<and>
     fst (readAll (username (config m)) w') = Inr (Arr (olds @ [reparse (noteData n)]))"
proof -
  from assms obtain olds where olds: "fst (readAll (username (config m)) w) = Inr (Arr olds)"
    by (rule can_append_cases)
  from saveToLocalStorage_ok [OF olds assms] readAll_after_append [OF olds, of "noteData n"] olds
  show ?thesis by simp
qed

subsection \<open>When the collection cannot be appended to\<close>

lemma not_can_append_unparsable:
  "fst (readAll u w) = Inl e \<Longrightarrow> \<not> can_append u x w"
  by (simp add: can_append_def)

lemma not_can_append_not_array:
  "fst (readAll u w) = Inr v \<Longrightarrow> \<forall>olds. v \<noteq> Arr olds \<Longrightarrow> \<not> can_append u x w"
  by (cases v) (simp_all add: can_append_def)

lemma not_can_append_cases:
  assumes "\<not> can_append u x w"
  shows "(\<exists>e. fst (readAll u w) = Inl e) \<or>
     (\<exists>v. fst (readAll u w) = Inr v \<and> (\<forall>olds. v \<noteq> Arr olds)) \<or>
     (\<exists>olds. fst (readAll u w) = Inr (Arr olds) \<and>
        \<not> quota_allows w (notes_key u) (ToString (JSON_stringify (Arr (olds @ [x])))))"
proof (cases "fst (readAll u w)")
  case (Inl e)
  then show ?thesis by simp
next
  case (Inr v)
  show ?thesis
  proof (cases "\<exists>olds. v = Arr olds")
    case True
    then obtain olds where v: "v = Arr olds" by blast
    with assms Inr have "\<not> quota_allows w (notes_key u) (ToString (JSON_stringify (Arr (olds @ [x]))))"
      by (simp add: can_append_def)
    with Inr v show ?thesis by simp
  next
    case False
    with Inr show ?thesis by simp
  qed
qed


section \<open>The shadow record of a successful export\<close>

text \<open>
  Claim C9. When the file path of \<^verbatim>\<open>saveNoteToFile\<close> runs to its end, the call returns
  \<^verbatim>\<open>true\<close> and the user's stored collection is the previous one followed by one
  record: the id, title, type, date, tags, mood and duration of the note, the
  generated filename and \<^verbatim>\<open>savedToFile = true\<close>. The record has no other property: no
  content, no audio or video data, no blob.
\<close>

theorem export_shadow_record:
  assumes "export_completed m n w"
  shows "\<exists>fname olds r w'.
     saveNoteToFile m n w = (Inr True, w') \<and>
     generateFilename (title n) (note_type n) (Date_parse w (date n)) = Inr fname \<and>
     fst (readAll (username (config m)) w) = Inr (Arr olds) \<and>
     fst (readAll (username (config m)) w') = Inr (Arr (olds @ [r])) \<and>
     carries n r \<and>
     get r ''filename'' = Inr (Str fname) \<and>
     get r ''savedToFile'' = Inr (Bool True) \<and>
     (\<forall>k. k \<notin> set [''id'', ''title'', ''type'', ''filename'', ''date'', ''tags'', ''mood'',
                     ''duration'', ''savedToFile''] \<longrightarrow> get r k = Inr Undefined) \<and>
     get r ''content'' = Inr Undefined \<and> get r ''audioData'' = Inr Undefined \<and>
     get r ''videoData'' = Inr Undefined \<and> get r ''blob'' = Inr Undefined"
proof -
  from assms obtain h where h: "directoryHandle m = Some h"
    by (auto simp: export_completed_def split: option.splits)
  with assms obtain b w' where ex: "export_to_directory m h n w = (Inr b, w')"
    by (cases "export_to_directory m h n w") (auto simp: export_completed_def split: sum.splits)
  with h have w': "after_attempt m n w = w'" by (simp add: after_attempt_def)
  from export_completed_shadow [OF ex] obtain fname olds where
    f: "generateFilename (title n) (note_type n) (Date_parse w (date n)) = Inr fname" and
    o: "fst (readAll (username (config m)) w) = Inr (Arr olds)" and
    r: "fst (readAll (username (config m)) w') = Inr (Arr (olds @ [reparse (metadata n fname)]))"
    by blast
  let ?r = "reparse (metadata n fname)"
  have s: "saveNoteToFile m n w = (Inr True, w')"
    using assms w' by (simp add: saveNoteToFile_eq)
  have others: "\<forall>k. k \<notin> set [''id'', ''title'', ''type'', ''filename'', ''date'', ''tags'', ''mood'',
                     ''duration'', ''savedToFile''] \<longrightarrow> get ?r k = Inr Undefined"
    using metadata_other by blast
  have "get ?r ''content'' = Inr Undefined" "get ?r ''audioData'' = Inr Undefined"
    "get ?r ''videoData'' = Inr Undefined" "get ?r ''blob'' = Inr Undefined"
    by (rule metadata_other, simp)+
  with s f o r carries_metadata [of n fname] metadata_filename [of n fname]
    metadata_savedToFile [of n fname] others
  have "saveNoteToFile m n w = (Inr True, w') \<and>
     generateFilename (title n) (note_type n) (Date_parse w (date n)) = Inr fname \<and>
     fst (readAll (username (config m)) w) = Inr (Arr olds) \<and>
     fst (readAll (username (config m)) w') = Inr (Arr (olds @ [?r])) \<and>
     carries n ?r \<and>
     get ?r ''filename'' = Inr (Str fname) \<and>
     get ?r ''savedToFile'' = Inr (Bool True) \<and>
     (\<forall>k. k \<notin> set [''id'', ''title'', ''type'', ''filename'', ''date'', ''tags'', ''mood'',
                     ''duration'', ''savedToFile''] \<longrightarrow> get ?r k = Inr Undefined) \<and>
     get ?r ''content'' = Inr Undefined \<and> get ?r ''audioData'' = Inr Undefined \<and>
     get ?r ''videoData'' = Inr Undefined \<and> get ?r ''blob'' = Inr Undefined"
    by (intro conjI)
  then show ?thesis by (intro exI)
qed

text \<open>The text note of the example, exported on 2025-01-15.\<close>

lemma demo_export_completed: "export_completed demo_manager demo_note demo_world"
  by code_simp

theorem export_shadow_record_witness:
  "export_completed demo_manager demo_note demo_world \<and>
   fst (saveNoteToFile demo_manager demo_note demo_world) = Inr True \<and>
   (\<exists>r. fst (readAll (ascii ''ann'') (snd (saveNoteToFile demo_manager demo_note demo_world)))
          = Inr (Arr [r]) \<and>
        get r ''filename'' = Inr (Str (ascii ''2025-01-15_Hi.txt'')) \<and>
        get r ''savedToFile'' = Inr (Bool True) \<and>
        get r ''content'' = Inr Undefined)"
proof -
  have u: "username (config demo_manager) = ascii ''ann''" by (simp add: demo_manager_def)
  have o: "fst (readAll (ascii ''ann'') demo_world) = Inr (Arr [])"
    by (rule readAll_missing) (simp add: demo_world_def)
  have g: "generateFilename (title demo_note) (note_type demo_note)
             (Date_parse demo_world (date demo_note)) = Inr (ascii ''2025-01-15_Hi.txt'')"
    by code_simp
  from export_shadow_record [OF demo_export_completed] obtain fname olds r w' where
    all: "saveNoteToFile demo_manager demo_note demo_world = (Inr True, w') \<and>
     generateFilename (title demo_note) (note_type demo_note)
       (Date_parse demo_world (date demo_note)) = Inr fname \<and>
     fst (readAll (username (config demo_manager)) demo_world) = Inr (Arr olds) \<and>
     fst (readAll (username (config demo_manager)) w') = Inr (Arr (olds @ [r])) \<and>
     carries demo_note r \<and>
     get r ''filename'' = Inr (Str fname) \<and>
     get r ''savedToFile'' = Inr (Bool True) \<and>
     (\<forall>k. k \<notin> set [''id'', ''title'', ''type'', ''filename'', ''date'', ''tags'', ''mood'',
                     ''duration'', ''savedToFile''] \<longrightarrow> get r k = Inr Undefined) \<and>
     get r ''content'' = Inr Undefined \<and> get r ''audioData'' = Inr Undefined \<and>
     get r ''videoData'' = Inr Undefined \<and> get r ''blob'' = Inr Undefined"
    by (elim exE) (rule that)
  from all have s: "saveNoteToFile demo_manager demo_note demo_world = (Inr True, w')"
    by (rule conjunct1)
  note all = all [THEN conjunct2]
  from all have f: "generateFilename (title demo_note) (note_type demo_note)
             (Date_parse demo_world (date demo_note)) = Inr fname" by (rule conjunct1)
  note all = all [THEN conjunct2]
  from all have o': "fst (readAll (username (config demo_manager)) demo_world) = Inr (Arr olds)"
    by (rule conjunct1)
  note all = all [THEN conjunct2]
  from all have r: "fst (readAll (username (config demo_manager)) w') = Inr (Arr (olds @ [r]))"
    by (rule conjunct1)
  note all = all [THEN conjunct2, THEN conjunct2]
  from all have fn: "get r ''filename'' = Inr (Str fname)" by (rule conjunct1)
  note all = all [THEN conjunct2]
  from all have sv: "get r ''savedToFile'' = Inr (Bool True)" by (rule conjunct1)
  note all = all [THEN conjunct2, THEN conjunct2]
  from all have ct: "get r ''content'' = Inr Undefined" by (rule conjunct1)
  from f g have fname: "fname = ascii ''2025-01-15_Hi.txt''" by simp
  from o o' u have olds: "olds = []" by simp
  from s have w': "snd (saveNoteToFile demo_manager demo_note demo_world) = w'" by simp
  from r have r': "fst (readAll (ascii ''ann'') w') = Inr (Arr [r])"
    unfolding u olds by simp
  from fn have fn': "get r ''filename'' = Inr (Str (ascii ''2025-01-15_Hi.txt''))"
    unfolding fname .
  have c: "fst (readAll (ascii ''ann'') (snd (saveNoteToFile demo_manager demo_note demo_world)))
          = Inr (Arr [r]) \<and>
        get r ''filename'' = Inr (Str (ascii ''2025-01-15_Hi.txt'')) \<and>
        get r ''savedToFile'' = Inr (Bool True) \<and>
        get r ''content'' = Inr Undefined"
    unfolding w' using r' fn' sv ct by (intro conjI)
  have "\<exists>r. fst (readAll (ascii ''ann'') (snd (saveNoteToFile demo_manager demo_note demo_world)))
          = Inr (Arr [r]) \<and>
        get r ''filename'' = Inr (Str (ascii ''2025-01-15_Hi.txt'')) \<and>
        get r ''savedToFile'' = Inr (Bool True) \<and>
        get r ''content'' = Inr Undefined"
  proof (rule exI)
    show "fst (readAll (ascii ''ann'') (snd (saveNoteToFile demo_manager demo_note demo_world)))
          = Inr (Arr [r]) \<and>
        get r ''filename'' = Inr (Str (ascii ''2025-01-15_Hi.txt'')) \<and>
        get r ''savedToFile'' = Inr (Bool True) \<and>
        get r ''content'' = Inr Undefined" by (fact c)
  qed
  moreover from s have "fst (saveNoteToFile demo_manager demo_note demo_world) = Inr True" by simp
  ultimately show ?thesis using demo_export_completed by (intro conjI)
qed

section \<open>The result of saveNoteToFile\<close>

text \<open>
  Claim C8, as the code has it. \<^verbatim>\<open>saveNoteToFile\<close> never throws: it returns one
  boolean, which is \<^verbatim>\<open>true\<close> exactly when the file path ran to its end or the
  fallback could append the note to the stored collection. After \<^verbatim>\<open>true\<close> the stored
  collection has gained exactly one record of the note, whose \<^verbatim>\<open>savedToFile\<close> tells
  which of the two happened. After \<^verbatim>\<open>false\<close> the file path has failed, the fallback
  \<^verbatim>\<open>saveToLocalStorage\<close> has returned \<^verbatim>\<open>false\<close>, \<^verbatim>\<open>localStorage\<close> is as it was, and
  the cause is one of three: the stored collection does not parse, it parses to
  something that is not an array, or the browser refused the write. When the file path
  fails, the result is that of \<^verbatim>\<open>saveToLocalStorage\<close>, called in the world the attempt
  left. Without a directory handle the call is the fallback itself and reports the
  fallback's result.
\<close>

theorem saveNoteToFile_result:
  "fst (saveNoteToFile m n w) =
     Inr (export_completed m n w \<or> can_append (username (config m)) (noteData n) w) \<and>
   (fst (saveNoteToFile m n w) = Inr True \<longrightarrow>
      (\<exists>olds r. fst (readAll (username (config m)) w) = Inr (Arr olds) \<and>
         fst (readAll (username (config m)) (snd (saveNoteToFile m n w))) = Inr (Arr (olds @ [r])) \<and>
         carries n r \<and>
         get r ''savedToFile'' = Inr (Bool (export_completed m n w)))) \<and>
   (fst (saveNoteToFile m n w) = Inr False \<longrightarrow>
      \<not> export_completed m n w \<and>
      saveToLocalStorage m n (after_attempt m n w) = (Inr False, after_attempt m n w) \<and>
      localStorage (snd (saveNoteToFile m n w)) = localStorage w \<and>
      ((\<exists>e. fst (readAll (username (config m)) w) = Inl e) \<or>
       (\<exists>v. fst (readAll (username (config m)) w) = Inr v \<and> (\<forall>olds. v \<noteq> Arr olds)) \<or>
       (\<exists>olds. fst (readAll (username (config m)) w) = Inr (Arr olds) \<and>
          \<not> quota_allows w (notes_key (username (config m)))
               (ToString (JSON_stringify (Arr (olds @ [noteData n]))))))) \<and>
   (export_completed m n w \<longrightarrow> snd (saveNoteToFile m n w) = after_attempt m n w) \<and>
   (\<not> export_completed m n w \<longrightarrow>
      saveNoteToFile m n w = saveToLocalStorage m n (after_attempt m n w) \<and>
      fst (saveToLocalStorage m n (after_attempt m n w)) =
        Inr (can_append (username (config m)) (noteData n) w)) \<and>
   (directoryHandle m = None \<longrightarrow>
      saveNoteToFile m n w = saveToLocalStorage m n w \<and>
      fst (saveNoteToFile m n w) = Inr (can_append (username (config m)) (noteData n) w))"
proof -
  let ?u = "username (config m)"
  let ?w1 = "after_attempt m n w"
  have fb: "fst (saveToLocalStorage m n w0) = Inr (can_append ?u (noteData n) w0)" for w0
    by (subst saveToLocalStorage_cases) simp
  have same: "can_append ?u (noteData n) ?w1 = can_append ?u (noteData n) w"
    if "\<not> export_completed m n w"
    using after_attempt_store [OF that]
      can_append_same_store [of "after_attempt m n w" w "username (config m)" "noteData n"]
    by simp
  have a: "fst (saveNoteToFile m n w) = Inr (export_completed m n w \<or> can_append ?u (noteData n) w)"
    using fb [of ?w1] same by (auto simp: saveNoteToFile_eq)
  have t: "fst (saveNoteToFile m n w) = Inr True \<longrightarrow>
      (\<exists>olds r. fst (readAll ?u w) = Inr (Arr olds) \<and>
         fst (readAll ?u (snd (saveNoteToFile m n w))) = Inr (Arr (olds @ [r])) \<and>
         carries n r \<and>
         get r ''savedToFile'' = Inr (Bool (export_completed m n w)))"
  proof
    assume tr: "fst (saveNoteToFile m n w) = Inr True"
    show "\<exists>olds r. fst (readAll ?u w) = Inr (Arr olds) \<and>
         fst (readAll ?u (snd (saveNoteToFile m n w))) = Inr (Arr (olds @ [r])) \<and>
         carries n r \<and>
         get r ''savedToFile'' = Inr (Bool (export_completed m n w))"
    proof (cases "export_completed m n w")
      case True
      then obtain h where h: "directoryHandle m = Some h"
        by (auto simp: export_completed_def split: option.splits)
      with True obtain b w' where ex: "export_to_directory m h n w = (Inr b, w')"
        by (cases "export_to_directory m h n w") (auto simp: export_completed_def split: sum.splits)
      with h have w': "after_attempt m n w = w'" by (simp add: after_attempt_def)
      from export_completed_shadow [OF ex] obtain fname olds where
        o: "fst (readAll ?u w) = Inr (Arr olds)" and
        r: "fst (readAll ?u w') = Inr (Arr (olds @ [reparse (metadata n fname)]))"
        by blast
      have s: "snd (saveNoteToFile m n w) = w'" using True w' by (simp add: saveNoteToFile_eq)
      have "fst (readAll ?u w) = Inr (Arr olds) \<and>
         fst (readAll ?u (snd (saveNoteToFile m n w))) = Inr (Arr (olds @ [reparse (metadata n fname)])) \<and>
         carries n (reparse (metadata n fname)) \<and>
         get (reparse (metadata n fname)) ''savedToFile'' = Inr (Bool (export_completed m n w))"
        using o r s True carries_metadata [of n fname] metadata_savedToFile [of n fname] by simp
      then show ?thesis by (intro exI)
    next
      case False
      with a tr have "can_append ?u (noteData n) w" by simp
      with same [OF False] have "can_append ?u (noteData n) ?w1" by simp
      from fallback_appends [OF this] obtain olds w' where
        s: "saveToLocalStorage m n ?w1 = (Inr True, w')" and
        o: "fst (readAll ?u ?w1) = Inr (Arr olds)" and
        r: "fst (readAll ?u w') = Inr (Arr (olds @ [reparse (noteData n)]))" by blast
      from after_attempt_store [OF False] readAll_same_store [of ?w1 w ?u] o
      have o': "fst (readAll ?u w) = Inr (Arr olds)" by simp
      have e: "snd (saveNoteToFile m n w) = w'" using False s by (simp add: saveNoteToFile_eq)
      have "fst (readAll ?u w) = Inr (Arr olds) \<and>
         fst (readAll ?u (snd (saveNoteToFile m n w))) = Inr (Arr (olds @ [reparse (noteData n)])) \<and>
         carries n (reparse (noteData n)) \<and>
         get (reparse (noteData n)) ''savedToFile'' = Inr (Bool (export_completed m n w))"
        using o' r e False carries_noteData [of n] noteData_savedToFile [of n] by simp
      then show ?thesis by (intro exI)
    qed
  qed
  have b: "export_completed m n w \<longrightarrow> snd (saveNoteToFile m n w) = ?w1"
    by (simp add: saveNoteToFile_eq)
  have c: "\<not> export_completed m n w \<longrightarrow>
      saveNoteToFile m n w = saveToLocalStorage m n ?w1 \<and>
      fst (saveToLocalStorage m n ?w1) = Inr (can_append ?u (noteData n) w)"
    using fb [of ?w1] same by (simp add: saveNoteToFile_eq)
  have d: "fst (saveNoteToFile m n w) = Inr False \<longrightarrow>
      \<not> export_completed m n w \<and>
      saveToLocalStorage m n ?w1 = (Inr False, ?w1) \<and>
      localStorage (snd (saveNoteToFile m n w)) = localStorage w \<and>
      ((\<exists>e. fst (readAll ?u w) = Inl e) \<or>
       (\<exists>v. fst (readAll ?u w) = Inr v \<and> (\<forall>olds. v \<noteq> Arr olds)) \<or>
       (\<exists>olds. fst (readAll ?u w) = Inr (Arr olds) \<and>
          \<not> quota_allows w (notes_key ?u) (ToString (JSON_stringify (Arr (olds @ [noteData n]))))))"
  proof
    assume "fst (saveNoteToFile m n w) = Inr False"
    with a have ne: "\<not> export_completed m n w" and nc: "\<not> can_append ?u (noteData n) w" by auto
    from nc same [OF ne] have "\<not> can_append ?u (noteData n) ?w1" by simp
    note f = saveToLocalStorage_fail [OF this]
    from f ne after_attempt_store [OF ne]
    have l: "localStorage (snd (saveNoteToFile m n w)) = localStorage w"
      by (simp add: saveNoteToFile_eq)
    from ne f l not_can_append_cases [OF nc]
    show "\<not> export_completed m n w \<and>
      saveToLocalStorage m n ?w1 = (Inr False, ?w1) \<and>
      localStorage (snd (saveNoteToFile m n w)) = localStorage w \<and>
      ((\<exists>e. fst (readAll ?u w) = Inl e) \<or>
       (\<exists>v. fst (readAll ?u w) = Inr v \<and> (\<forall>olds. v \<noteq> Arr olds)) \<or>
       (\<exists>olds. fst (readAll ?u w) = Inr (Arr olds) \<and>
          \<not> quota_allows w (notes_key ?u) (ToString (JSON_stringify (Arr (olds @ [noteData n]))))))"
      by (intro conjI)
  qed
  have e: "directoryHandle m = None \<longrightarrow>
      saveNoteToFile m n w = saveToLocalStorage m n w \<and>
      fst (saveNoteToFile m n w) = Inr (can_append ?u (noteData n) w)"
    using fb [of w]
    by (auto simp: saveNoteToFile_eq export_completed_def after_attempt_def)
  show ?thesis using a t d b c e by (intro conjI)
qed

text \<open>
  No directory handle: over the empty storage of the example the call returns
  \<^verbatim>\<open>true\<close> and the record is stored; over a full storage it returns \<^verbatim>\<open>false\<close>.
\<close>

theorem saveNoteToFile_result_witness:
  "directoryHandle (demo_manager\<lparr>directoryHandle := None\<rparr>) = None \<and>
   fst (saveNoteToFile (demo_manager\<lparr>directoryHandle := None\<rparr>) demo_note demo_world) = Inr True \<and>
   (\<exists>r. fst (readAll (ascii ''ann'')
             (snd (saveNoteToFile (demo_manager\<lparr>directoryHandle := None\<rparr>) demo_note demo_world)))
          = Inr (Arr [r]) \<and>
        get r ''savedToFile'' = Inr (Bool False)) \<and>
   fst (saveNoteToFile (demo_manager\<lparr>directoryHandle := None\<rparr>) demo_note
          (demo_world\<lparr>quota_allows := storage_full\<rparr>)) = Inr False"
proof -
  let ?m = "demo_manager\<lparr>directoryHandle := None\<rparr>"
  let ?f = "demo_world\<lparr>quota_allows := storage_full\<rparr>"
  have h: "directoryHandle ?m = None" by simp
  have u: "username (config ?m) = ascii ''ann''" by (simp add: demo_manager_def)
  have ne: "\<not> export_completed ?m demo_note demo_world" by (simp add: export_completed_def)
  have ne2: "\<not> export_completed ?m demo_note ?f" by (simp add: export_completed_def)
  have c1: "can_append (username (config ?m)) (noteData demo_note) demo_world" by code_simp
  have c2: "\<not> can_append (username (config ?m)) (noteData demo_note) ?f" by code_simp
  have o: "fst (readAll (ascii ''ann'') demo_world) = Inr (Arr [])"
    by (rule readAll_missing) (simp add: demo_world_def)
  note main = saveNoteToFile_result [of ?m demo_note demo_world]
  have t: "fst (saveNoteToFile ?m demo_note demo_world) = Inr True"
    unfolding main [THEN conjunct1] using c1 by simp
  from main [THEN conjunct2, THEN conjunct1, THEN mp, OF t]
  have p: "\<exists>r. fst (readAll (ascii ''ann'') (snd (saveNoteToFile ?m demo_note demo_world)))
          = Inr (Arr [r]) \<and> get r ''savedToFile'' = Inr (Bool False)"
  proof (elim exE conjE)
    fix olds r
    assume a: "fst (readAll (username (config ?m)) demo_world) = Inr (Arr olds)"
    assume b: "fst (readAll (username (config ?m)) (snd (saveNoteToFile ?m demo_note demo_world)))
        = Inr (Arr (olds @ [r]))"
    assume c: "get r ''savedToFile'' = Inr (Bool (export_completed ?m demo_note demo_world))"
    from a o u have "olds = []" by simp
    with b u have b': "fst (readAll (ascii ''ann'') (snd (saveNoteToFile ?m demo_note demo_world)))
        = Inr (Arr [r])" by simp
    from c ne have c': "get r ''savedToFile'' = Inr (Bool False)" by simp
    show "\<exists>r. fst (readAll (ascii ''ann'') (snd (saveNoteToFile ?m demo_note demo_world)))
          = Inr (Arr [r]) \<and> get r ''savedToFile'' = Inr (Bool False)"
    proof (intro exI)
      show "fst (readAll (ascii ''ann'') (snd (saveNoteToFile ?m demo_note demo_world)))
          = Inr (Arr [r]) \<and> get r ''savedToFile'' = Inr (Bool False)"
        using b' c' by (intro conjI)
    qed
  qed
  have f: "fst (saveNoteToFile ?m demo_note ?f) = Inr False"
    unfolding saveNoteToFile_result [of ?m demo_note ?f, THEN conjunct1] using ne2 c2 by simp
  show ?thesis using h t p f by (intro conjI)
qed

text \<open>
  Where the claim as worded fails: no directory was granted and the storage accepts
  every write, but the stored item of the user does not parse. \<^verbatim>\<open>JSON.parse\<close> throws
  inside the \<^verbatim>\<open>try\<close> of \<^verbatim>\<open>saveToLocalStorage\<close>: the call returns \<^verbatim>\<open>false\<close> with a
  storage that is neither full nor disabled.
\<close>

theorem saveNoteToFile_false_counterexample:
  "directoryHandle (demo_manager\<lparr>directoryHandle := None\<rparr>) = None \<and>
   quota_allows
     (demo_world\<lparr>localStorage := [notes_key (ascii ''ann'') \<mapsto> Other_text (ascii ''not json'')]\<rparr>)
     = accept_all \<and>
   fst (saveNoteToFile (demo_manager\<lparr>directoryHandle := None\<rparr>) demo_note
          (demo_world\<lparr>localStorage := [notes_key (ascii ''ann'') \<mapsto> Other_text (ascii ''not json'')]\<rparr>))
     = Inr False"
proof -
  have "fst (saveNoteToFile (demo_manager\<lparr>directoryHandle := None\<rparr>) demo_note
          (demo_world\<lparr>localStorage := [notes_key (ascii ''ann'') \<mapsto> Other_text (ascii ''not json'')]\<rparr>))
     = Inr False" by code_simp
  then show ?thesis by (simp add: demo_world_def)
qed


section \<open>The fallback after a failed export\<close>

lemma write_note_file_no_handle:
  assumes "fs_fault w GetDirectoryHandle \<or> directory w (subdirName (note_type n)) = None \<or>
     (\<exists>e. generateFilename (title n) (note_type n) (Date_parse w (date n)) = Inl e) \<or>
     fs_fault w GetFileHandle"
  shows "\<exists>e. write_note_file h n w = (Inl e, w)"
  using assms
  unfolding write_note_file_def bind_def lift_def return_def getDirectoryHandle_def
    getFileHandle_def
  by (auto split: sum.splits option.splits)

lemma after_attempt_no_handle:
  assumes "directoryHandle m = None \<or> fs_fault w GetDirectoryHandle \<or>
     directory w (subdirName (note_type n)) = None \<or>
     (\<exists>e. generateFilename (title n) (note_type n) (Date_parse w (date n)) = Inl e) \<or>
     fs_fault w GetFileHandle"
  shows "after_attempt m n w = w \<and> \<not> export_completed m n w"
proof (cases "directoryHandle m")
  case None
  then show ?thesis by (simp add: after_attempt_def export_completed_def)
next
  case (Some h)
  with assms have "fs_fault w GetDirectoryHandle \<or>
     directory w (subdirName (note_type n)) = None \<or>
     (\<exists>e. generateFilename (title n) (note_type n) (Date_parse w (date n)) = Inl e) \<or>
     fs_fault w GetFileHandle" by simp
  from write_note_file_no_handle [OF this] obtain e where "write_note_file h n w = (Inl e, w)"
    by blast
  then have "export_to_directory m h n w = (Inl e, w)" by (simp add: export_to_directory_eq)
  with Some show ?thesis by (simp add: after_attempt_def export_completed_def)
qed

text \<open>
  Claim C1, as the code has it. When the file path of \<^verbatim>\<open>saveNoteToFile\<close> does not run
  to its end (no directory handle, or any step of it throws), the call is one call of
  \<^verbatim>\<open>saveToLocalStorage\<close> on the same note, in the world the attempt left, and there is
  no retry. The failed attempt never changes \<^verbatim>\<open>localStorage\<close>, so no shadow record
  accompanies the fallback record, and the fallback does not touch the directory. If
  the stored collection can be appended to, the call returns \<^verbatim>\<open>true\<close> and the
  collection gains exactly one record, which carries the note's id, title, type,
  content, date, tags, mood and duration and has \<^verbatim>\<open>savedToFile = false\<close>; otherwise it
  returns \<^verbatim>\<open>false\<close> and \<^verbatim>\<open>localStorage\<close> is unchanged. When the attempt fails before
  it has a file handle (no directory handle, the subdirectory cannot be opened or is
  missing, the date of the note gives no filename, the file handle cannot be
  obtained), the file path has not completed and the directory is as before.
\<close>

theorem fallback_after_failed_export:
  "(\<not> export_completed m n w \<longrightarrow>
     saveNoteToFile m n w = saveToLocalStorage m n (after_attempt m n w) \<and>
     localStorage (after_attempt m n w) = localStorage w \<and>
     directory (snd (saveNoteToFile m n w)) = directory (after_attempt m n w) \<and>
     (can_append (username (config m)) (noteData n) w \<longrightarrow>
        fst (saveNoteToFile m n w) = Inr True \<and>
        (\<exists>olds r. fst (readAll (username (config m)) w) = Inr (Arr olds) \<and>
           fst (readAll (username (config m)) (snd (saveNoteToFile m n w))) = Inr (Arr (olds @ [r])) \<and>
           carries n r \<and> get r ''content'' = Inr (optional Str (content n)) \<and>
           get r ''savedToFile'' = Inr (Bool False))) \<and>
     (\<not> can_append (username (config m)) (noteData n) w \<longrightarrow>
        fst (saveNoteToFile m n w) = Inr False \<and>
        localStorage (snd (saveNoteToFile m n w)) = localStorage w)) \<and>
   (directoryHandle m = None \<or> fs_fault w GetDirectoryHandle \<or>
    directory w (subdirName (note_type n)) = None \<or>
    (\<exists>e. generateFilename (title n) (note_type n) (Date_parse w (date n)) = Inl e) \<or>
    fs_fault w GetFileHandle \<longrightarrow>
      \<not> export_completed m n w \<and>
      directory (snd (saveNoteToFile m n w)) = directory w)"
proof (intro conjI impI)
  assume ne: "\<not> export_completed m n w"
  let ?u = "username (config m)"
  let ?w1 = "after_attempt m n w"
  note st = after_attempt_store [OF ne]
  show eq: "saveNoteToFile m n w = saveToLocalStorage m n ?w1"
    using ne by (simp add: saveNoteToFile_eq)
  from st show "localStorage ?w1 = localStorage w" by simp
  show "directory (snd (saveNoteToFile m n w)) = directory ?w1"
    by (simp add: eq saveToLocalStorage_directory)
  have same: "can_append ?u (noteData n) ?w1 = can_append ?u (noteData n) w"
    using st can_append_same_store [of ?w1 w ?u "noteData n"] by simp
  have rd: "fst (readAll ?u ?w1) = fst (readAll ?u w)"
    using st readAll_same_store [of ?w1 w ?u] by simp
  {
    assume "can_append ?u (noteData n) w"
    with same have "can_append ?u (noteData n) ?w1" by simp
    from fallback_appends [OF this] obtain olds w' where
      s: "saveToLocalStorage m n ?w1 = (Inr True, w')" and
      o: "fst (readAll ?u ?w1) = Inr (Arr olds)" and
      r: "fst (readAll ?u w') = Inr (Arr (olds @ [reparse (noteData n)]))" by blast
    from s eq show "fst (saveNoteToFile m n w) = Inr True" by simp
    have "fst (readAll ?u w) = Inr (Arr olds) \<and>
           fst (readAll ?u (snd (saveNoteToFile m n w))) = Inr (Arr (olds @ [reparse (noteData n)])) \<and>
           carries n (reparse (noteData n)) \<and>
           get (reparse (noteData n)) ''content'' = Inr (optional Str (content n)) \<and>
           get (reparse (noteData n)) ''savedToFile'' = Inr (Bool False)"
      using s o r rd eq carries_noteData [of n] noteData_content [of n] noteData_savedToFile [of n]
      by simp
    then show "\<exists>olds r. fst (readAll ?u w) = Inr (Arr olds) \<and>
           fst (readAll ?u (snd (saveNoteToFile m n w))) = Inr (Arr (olds @ [r])) \<and>
           carries n r \<and> get r ''content'' = Inr (optional Str (content n)) \<and>
           get r ''savedToFile'' = Inr (Bool False)"
      by (intro exI)
  }
  {
    assume "\<not> can_append ?u (noteData n) w"
    with same have "\<not> can_append ?u (noteData n) ?w1" by simp
    note f = saveToLocalStorage_fail [OF this]
    from f eq show "fst (saveNoteToFile m n w) = Inr False" by simp
    from f eq st show "localStorage (snd (saveNoteToFile m n w)) = localStorage w" by simp
  }
next
  assume h: "directoryHandle m = None \<or> fs_fault w GetDirectoryHandle \<or>
    directory w (subdirName (note_type n)) = None \<or>
    (\<exists>e. generateFilename (title n) (note_type n) (Date_parse w (date n)) = Inl e) \<or>
    fs_fault w GetFileHandle"
  from after_attempt_no_handle [OF h] show "\<not> export_completed m n w" by simp
next
  assume h: "directoryHandle m = None \<or> fs_fault w GetDirectoryHandle \<or>
    directory w (subdirName (note_type n)) = None \<or>
    (\<exists>e. generateFilename (title n) (note_type n) (Date_parse w (date n)) = Inl e) \<or>
    fs_fault w GetFileHandle"
  from after_attempt_no_handle [OF h] have a: "after_attempt m n w = w"
    and ne: "\<not> export_completed m n w" by simp_all
  from ne have "saveNoteToFile m n w = saveToLocalStorage m n (after_attempt m n w)"
    by (simp add: saveNoteToFile_eq)
  with a show "directory (snd (saveNoteToFile m n w)) = directory w"
    by (simp add: saveToLocalStorage_directory)
qed

text \<open>
  Access to the directory is denied: the note goes to the stored collection and the
  directory is as before. The same with a full storage: the call returns
  \<^verbatim>\<open>false\<close> and the store is unchanged.
\<close>

theorem fallback_after_failed_export_witness:
  "\<not> export_completed demo_manager demo_note (demo_world\<lparr>fs_fault := access_denied\<rparr>) \<and>
   can_append (username (config demo_manager)) (noteData demo_note)
     (demo_world\<lparr>fs_fault := access_denied\<rparr>) \<and>
   fst (saveNoteToFile demo_manager demo_note (demo_world\<lparr>fs_fault := access_denied\<rparr>)) = Inr True \<and>
   directory (snd (saveNoteToFile demo_manager demo_note (demo_world\<lparr>fs_fault := access_denied\<rparr>)))
     = empty_folders \<and>
   \<not> can_append (username (config demo_manager)) (noteData demo_note)
     (demo_world\<lparr>fs_fault := access_denied, quota_allows := storage_full\<rparr>) \<and>
   fst (saveNoteToFile demo_manager demo_note
     (demo_world\<lparr>fs_fault := access_denied, quota_allows := storage_full\<rparr>)) = Inr False \<and>
   localStorage (snd (saveNoteToFile demo_manager demo_note
     (demo_world\<lparr>fs_fault := access_denied, quota_allows := storage_full\<rparr>))) = Map.empty"
proof -
  let ?w = "demo_world\<lparr>fs_fault := access_denied\<rparr>"
  let ?v = "demo_world\<lparr>fs_fault := access_denied, quota_allows := storage_full\<rparr>"
  have ca: "can_append (username (config demo_manager)) (noteData demo_note) ?w" by code_simp
  have na: "\<not> can_append (username (config demo_manager)) (noteData demo_note) ?v" by code_simp
  have fl: "fs_fault ?w GetDirectoryHandle" by (simp add: access_denied_def)
  have fv: "fs_fault ?v GetDirectoryHandle" by (simp add: access_denied_def)
  have d: "directory ?w = empty_folders" by (simp add: demo_world_def)
  have l: "localStorage ?v = Map.empty" by (simp add: demo_world_def)
  note main = fallback_after_failed_export [of demo_manager demo_note ?w]
  note other = fallback_after_failed_export [of demo_manager demo_note ?v]
  from main [THEN conjunct2] fl d
  have ne: "\<not> export_completed demo_manager demo_note ?w"
    and a: "directory (snd (saveNoteToFile demo_manager demo_note ?w)) = empty_folders"
    by simp_all
  note m1 = main [THEN conjunct1, THEN mp, OF ne]
  from m1 [THEN conjunct2, THEN conjunct2, THEN conjunct2, THEN conjunct1, THEN mp, OF ca]
  have b: "fst (saveNoteToFile demo_manager demo_note ?w) = Inr True" by (rule conjunct1)
  from other [THEN conjunct2] fv
  have nv: "\<not> export_completed demo_manager demo_note ?v" by simp
  note o1 = other [THEN conjunct1, THEN mp, OF nv]
  note o2 = o1 [THEN conjunct2, THEN conjunct2, THEN conjunct2, THEN conjunct2, THEN mp, OF na]
  from o2 have c: "fst (saveNoteToFile demo_manager demo_note ?v) = Inr False"
    by (rule conjunct1)
  from o2 [THEN conjunct2] l
  have e: "localStorage (snd (saveNoteToFile demo_manager demo_note ?v)) = Map.empty"
    by simp
  show ?thesis using ne ca b a na c e by (intro conjI)
qed

text \<open>
  Where the claim as worded fails. First the storage is full and the directory works:
  the file is written and closed, the shadow record cannot be stored, the fallback
  cannot store the note either, so the call returns \<^verbatim>\<open>false\<close>, the note is not in
  the collection, and its file stays in the directory. Then the storage works and
  closing the stream fails: the fallback stores the note and returns \<^verbatim>\<open>true\<close>, and
  the empty file that \<^verbatim>\<open>getFileHandle\<close> created stays in the directory.
\<close>

theorem saveNoteToFile_partial_state_counterexample:
  "\<not> export_completed demo_manager demo_note (demo_world\<lparr>quota_allows := storage_full\<rparr>) \<and>
   fst (saveNoteToFile demo_manager demo_note (demo_world\<lparr>quota_allows := storage_full\<rparr>))
     = Inr False \<and>
   fst (readAll (ascii ''ann'')
         (snd (saveNoteToFile demo_manager demo_note (demo_world\<lparr>quota_allows := storage_full\<rparr>))))
     = Inr (Arr []) \<and>
   (case directory
           (snd (saveNoteToFile demo_manager demo_note (demo_world\<lparr>quota_allows := storage_full\<rparr>)))
           (ascii ''Text'') of
      None \<Rightarrow> None
    | Some files \<Rightarrow> files (ascii ''2025-01-15_Hi.txt'')) = Some [Text_data (ascii ''dear diary'')] \<and>
   \<not> export_completed demo_manager demo_note (demo_world\<lparr>fs_fault := close_fails\<rparr>) \<and>
   fst (saveNoteToFile demo_manager demo_note (demo_world\<lparr>fs_fault := close_fails\<rparr>))
     = Inr True \<and>
   (case directory
           (snd (saveNoteToFile demo_manager demo_note (demo_world\<lparr>fs_fault := close_fails\<rparr>)))
           (ascii ''Text'') of
      None \<Rightarrow> None
    | Some files \<Rightarrow> files (ascii ''2025-01-15_Hi.txt'')) = Some [] \<and>
   (case directory demo_world (ascii ''Text'') of
      None \<Rightarrow> None
    | Some files \<Rightarrow> files (ascii ''2025-01-15_Hi.txt'')) = None"
  by code_simp


section \<open>Appending a record\<close>

subsection \<open>handleSave\<close>

lemma bind_read: "bind (\<lambda>w. (Inr (g w), w)) f w = f (g w) w"
  by (simp add: bind_def)

lemma handleSave_blank:
  "trim (finalTitle s nt) = [] \<Longrightarrow> handleSave user s nt c d th w = (Inr (s, False), w)"
  by (simp add: handleSave_def return_def)

lemma handleSave_ok:
  assumes "trim (finalTitle s nt) \<noteq> []"
    "fst (readAll user w) = Inr (Arr olds)"
    "can_append user (newNote s (finalTitle s nt) c d th w) w"
  shows "handleSave user s nt c d th w =
     (Inr (resetForm s, True),
      w\<lparr>localStorage := (localStorage w)(notes_key user \<mapsto>
         JSON_text (JArr (SerializeJSONArray (olds @ [newNote s (finalTitle s nt) c d th w]))))\<rparr>)"
proof -
  have "handleSave user s nt c d th w =
      bind (readAll user) (\<lambda>xs. bind (lift (push xs (newNote s (finalTitle s nt) c d th w))) (\<lambda>xs'.
        bind (setItem (notes_key user) (ToString (JSON_stringify xs')))
          (\<lambda>_. return (resetForm s, True)))) w"
    using assms(1) by (simp add: handleSave_def return_def bind_read)
  then show ?thesis by (simp add: append_ok [OF assms(2,3)] return_def)
qed

lemma handleSave_fail:
  assumes "trim (finalTitle s nt) \<noteq> []"
    "\<not> can_append user (newNote s (finalTitle s nt) c d th w) w"
  shows "\<exists>e. handleSave user s nt c d th w = (Inl e, w)"
proof -
  have "handleSave user s nt c d th w =
      bind (readAll user) (\<lambda>xs. bind (lift (push xs (newNote s (finalTitle s nt) c d th w))) (\<lambda>xs'.
        bind (setItem (notes_key user) (ToString (JSON_stringify xs')))
          (\<lambda>_. return (resetForm s, True)))) w"
    using assms(1) by (simp add: handleSave_def return_def bind_read)
  with append_fail [OF assms(2)] show ?thesis by simp
qed

lemma handleSave_unparsable:
  assumes "trim (finalTitle s nt) \<noteq> []" "fst (readAll user w) = Inl e"
  shows "handleSave user s nt c d th w = (Inl e, w)"
proof -
  from assms(2) have "readAll user w = (Inl e, w)" using readAll_pair [of user w] by simp
  with assms(1) show ?thesis
    by (simp add: handleSave_def bind_def return_def)
qed

subsection \<open>No stored value is a Blob\<close>

lemma internalize_not_Blob: "internalize j \<noteq> Blob b"
  by (cases j) simp_all

lemma internalize_members_values:
  "v \<in> snd ` set (internalize_members kvs) \<Longrightarrow> \<exists>j. v = internalize j"
proof (induction kvs)
  case Nil
  then show ?case by simp
next
  case (Cons p kvs)
  obtain k j where "p = (k, j)" by (cases p)
  with Cons show ?case by auto
qed

lemma get_internalize_not_Blob: "get (internalize j) k \<noteq> Inr (Blob b)"
proof (cases j)
  case (JObj kvs)
  show ?thesis
  proof (cases "map_of (define_properties (internalize_members kvs)) k")
    case None
    with JObj show ?thesis by simp
  next
    case (Some v)
    then have "(k, v) \<in> set (define_properties (internalize_members kvs))"
      by (rule map_of_SomeD)
    with define_properties_set [of "internalize_members kvs"]
    have "v \<in> snd ` set (internalize_members kvs)" by force
    from internalize_members_values [OF this] obtain j' where "v = internalize j'" by blast
    with Some JObj show ?thesis by (simp add: internalize_not_Blob)
  qed
qed simp_all

lemma get_reparse_not_Blob: "get (reparse x) k \<noteq> Inr (Blob b)"
  unfolding reparse_def by (rule get_internalize_not_Blob)

section \<open>The store round trip\<close>

lemma noteData_fields:
  assumes "get (noteData n) k = Inr v" "stable v \<or> v = Undefined"
  shows "get (reparse (noteData n)) k = Inr v"
  using assms unfolding noteData_def by (intro get_reparse_stable) simp_all

lemma newNote_fields:
  assumes "get (newNote s final c d th w) k = Inr v" "stable v \<or> v = Undefined"
  shows "get (reparse (newNote s final c d th w)) k = Inr v"
  using assms unfolding newNote_def by (intro get_reparse_stable) simp_all

lemma newNote_described:
  "get (reparse (newNote s final c d th w)) ''id'' = Inr (Str (Number_toString (now_ms w))) \<and>
   get (reparse (newNote s final c d th w)) ''title'' = Inr (Str (trim final)) \<and>
   get (reparse (newNote s final c d th w)) ''type'' = Inr (Str (type_string (noteType s))) \<and>
   get (reparse (newNote s final c d th w)) ''tags'' =
     Inr (Arr (map Str (filter (\<lambda>tag. tag \<noteq> []) (map trim (split 0x2C (form_tags s)))))) \<and>
   get (reparse (newNote s final c d th w)) ''mood'' = Inr (Str (form_mood s)) \<and>
   get (reparse (newNote s final c d th w)) ''date'' = Inr (Str (iso_string (now w))) \<and>
   get (reparse (newNote s final c d th w)) ''createdAt'' = Inr (Num (now_ms w))"
  unfolding newNote_def
  by (intro conjI get_reparse_field) (simp_all add: stable_simps stable_Arr_Str)

text \<open>
  Claim C3, as the code has it. Whenever the user's stored collection can be appended
  to (the stored item is missing, empty or the text of an array, and the browser
  accepts the write), saving a note with \<^verbatim>\<open>saveToLocalStorage\<close> and reading the
  collection back gives the previous collection followed by one record. The record
  carries the note's id, title, type, text content, date, tags, mood and duration
  unchanged, and every property of what was written whose value can be written as JSON
  reads back as it was. The same holds for the record that \<^verbatim>\<open>handleSave\<close> appends for
  a title that is not blank: its id, title, type, tags, mood, date and creation time
  read back unchanged. In every other state of the store the append fails and nothing
  is written: \<^verbatim>\<open>saveToLocalStorage\<close> returns \<^verbatim>\<open>false\<close> and \<^verbatim>\<open>handleSave\<close> ends with
  an exception, each in the world it started in.
\<close>

theorem append_then_readAll:
  "(can_append (username (config m)) (noteData n) w \<longrightarrow>
      (\<exists>olds r w'.
         saveToLocalStorage m n w = (Inr True, w') \<and>
         fst (readAll (username (config m)) w) = Inr (Arr olds) \<and>
         fst (readAll (username (config m)) w') = Inr (Arr (olds @ [r])) \<and>
         carries n r \<and>
         get r ''content'' = Inr (optional Str (content n)) \<and>
         get r ''savedToFile'' = Inr (Bool False) \<and>
         (\<forall>k v. get (noteData n) k = Inr v \<and> (stable v \<or> v = Undefined) \<longrightarrow> get r k = Inr v))) \<and>
   (\<not> can_append (username (config m)) (noteData n) w \<longrightarrow>
      saveToLocalStorage m n w = (Inr False, w)) \<and>
   (trim (finalTitle s nt) \<noteq> [] \<and> can_append user (newNote s (finalTitle s nt) c d th w) w \<longrightarrow>
      (\<exists>olds r w'.
         handleSave user s nt c d th w = (Inr (resetForm s, True), w') \<and>
         fst (readAll user w) = Inr (Arr olds) \<and>
         fst (readAll user w') = Inr (Arr (olds @ [r])) \<and>
         get r ''id'' = Inr (Str (Number_toString (now_ms w))) \<and>
         get r ''title'' = Inr (Str (trim (finalTitle s nt))) \<and>
         get r ''type'' = Inr (Str (type_string (noteType s))) \<and>
         get r ''tags'' =
           Inr (Arr (map Str (filter (\<lambda>tag. tag \<noteq> []) (map trim (split 0x2C (form_tags s)))))) \<and>
         get r ''mood'' = Inr (Str (form_mood s)) \<and>
         get r ''date'' = Inr (Str (iso_string (now w))) \<and>
         get r ''createdAt'' = Inr (Num (now_ms w)) \<and>
         (\<forall>k v. get (newNote s (finalTitle s nt) c d th w) k = Inr v \<and> (stable v \<or> v = Undefined)
            \<longrightarrow> get r k = Inr v))) \<and>
   (trim (finalTitle s nt) \<noteq> [] \<and> \<not> can_append user (newNote s (finalTitle s nt) c d th w) w \<longrightarrow>
      (\<exists>e. handleSave user s nt c d th w = (Inl e, w)) \<and>
      fst (readAll user (snd (handleSave user s nt c d th w))) = fst (readAll user w))"
proof (intro conjI impI)
  assume ca: "can_append (username (config m)) (noteData n) w"
  let ?r = "reparse (noteData n)"
  from fallback_appends [OF ca] obtain olds w' where
    s: "saveToLocalStorage m n w = (Inr True, w')" and
    o: "fst (readAll (username (config m)) w) = Inr (Arr olds)" and
    r: "fst (readAll (username (config m)) w') = Inr (Arr (olds @ [?r]))" by blast
  have f: "\<forall>k v. get (noteData n) k = Inr v \<and> (stable v \<or> v = Undefined) \<longrightarrow> get ?r k = Inr v"
    using noteData_fields by blast
  have "saveToLocalStorage m n w = (Inr True, w') \<and>
         fst (readAll (username (config m)) w) = Inr (Arr olds) \<and>
         fst (readAll (username (config m)) w') = Inr (Arr (olds @ [?r])) \<and>
         carries n ?r \<and>
         get ?r ''content'' = Inr (optional Str (content n)) \<and>
         get ?r ''savedToFile'' = Inr (Bool False) \<and>
         (\<forall>k v. get (noteData n) k = Inr v \<and> (stable v \<or> v = Undefined) \<longrightarrow> get ?r k = Inr v)"
    using s o r carries_noteData [of n] noteData_content [of n] noteData_savedToFile [of n] f
    by (intro conjI)
  then show "\<exists>olds r w'.
         saveToLocalStorage m n w = (Inr True, w') \<and>
         fst (readAll (username (config m)) w) = Inr (Arr olds) \<and>
         fst (readAll (username (config m)) w') = Inr (Arr (olds @ [r])) \<and>
         carries n r \<and>
         get r ''content'' = Inr (optional Str (content n)) \<and>
         get r ''savedToFile'' = Inr (Bool False) \<and>
         (\<forall>k v. get (noteData n) k = Inr v \<and> (stable v \<or> v = Undefined) \<longrightarrow> get r k = Inr v)"
    by (intro exI)
next
  assume "\<not> can_append (username (config m)) (noteData n) w"
  then show "saveToLocalStorage m n w = (Inr False, w)" by (rule saveToLocalStorage_fail)
next
  assume a: "trim (finalTitle s nt) \<noteq> [] \<and> can_append user (newNote s (finalTitle s nt) c d th w) w"
  let ?x = "newNote s (finalTitle s nt) c d th w"
  let ?r = "reparse ?x"
  from a have t: "trim (finalTitle s nt) \<noteq> []" and ca: "can_append user ?x w" by simp_all
  from ca obtain olds where o: "fst (readAll user w) = Inr (Arr olds)" by (rule can_append_cases)
  let ?w' = "w\<lparr>localStorage := (localStorage w)(notes_key user \<mapsto>
         JSON_text (JArr (SerializeJSONArray (olds @ [?x]))))\<rparr>"
  have h: "handleSave user s nt c d th w = (Inr (resetForm s, True), ?w')"
    by (rule handleSave_ok [OF t o ca])
  have r: "fst (readAll user ?w') = Inr (Arr (olds @ [?r]))"
    by (rule readAll_after_append [OF o])
  have f: "\<forall>k v. get ?x k = Inr v \<and> (stable v \<or> v = Undefined) \<longrightarrow> get ?r k = Inr v"
    using newNote_fields by blast
  note d = newNote_described [of s "finalTitle s nt" c d th w]
  have "handleSave user s nt c d th w = (Inr (resetForm s, True), ?w') \<and>
         fst (readAll user w) = Inr (Arr olds) \<and>
         fst (readAll user ?w') = Inr (Arr (olds @ [?r])) \<and>
         get ?r ''id'' = Inr (Str (Number_toString (now_ms w))) \<and>
         get ?r ''title'' = Inr (Str (trim (finalTitle s nt))) \<and>
         get ?r ''type'' = Inr (Str (type_string (noteType s))) \<and>
         get ?r ''tags'' =
           Inr (Arr (map Str (filter (\<lambda>tag. tag \<noteq> []) (map trim (split 0x2C (form_tags s)))))) \<and>
         get ?r ''mood'' = Inr (Str (form_mood s)) \<and>
         get ?r ''date'' = Inr (Str (iso_string (now w))) \<and>
         get ?r ''createdAt'' = Inr (Num (now_ms w)) \<and>
         (\<forall>k v. get ?x k = Inr v \<and> (stable v \<or> v = Undefined) \<longrightarrow> get ?r k = Inr v)"
    using h o r d f by (intro conjI) (simp_all only:)
  then show "\<exists>olds r w'.
         handleSave user s nt c d th w = (Inr (resetForm s, True), w') \<and>
         fst (readAll user w) = Inr (Arr olds) \<and>
         fst (readAll user w') = Inr (Arr (olds @ [r])) \<and>
         get r ''id'' = Inr (Str (Number_toString (now_ms w))) \<and>
         get r ''title'' = Inr (Str (trim (finalTitle s nt))) \<and>
         get r ''type'' = Inr (Str (type_string (noteType s))) \<and>
         get r ''tags'' =
           Inr (Arr (map Str (filter (\<lambda>tag. tag \<noteq> []) (map trim (split 0x2C (form_tags s)))))) \<and>
         get r ''mood'' = Inr (Str (form_mood s)) \<and>
         get r ''date'' = Inr (Str (iso_string (now w))) \<and>
         get r ''createdAt'' = Inr (Num (now_ms w)) \<and>
         (\<forall>k v. get (newNote s (finalTitle s nt) c d th w) k = Inr v \<and> (stable v \<or> v = Undefined)
            \<longrightarrow> get r k = Inr v)"
    by (intro exI)
next
  assume "trim (finalTitle s nt) \<noteq> [] \<and> \<not> can_append user (newNote s (finalTitle s nt) c d th w) w"
  then show "\<exists>e. handleSave user s nt c d th w = (Inl e, w)" by (simp add: handleSave_fail)
next
  assume "trim (finalTitle s nt) \<noteq> [] \<and> \<not> can_append user (newNote s (finalTitle s nt) c d th w) w"
  then have "\<exists>e. handleSave user s nt c d th w = (Inl e, w)" by (simp add: handleSave_fail)
  then obtain e where "handleSave user s nt c d th w = (Inl e, w)" by blast
  then show "fst (readAll user (snd (handleSave user s nt c d th w))) = fst (readAll user w)"
    by simp
qed

text \<open>
  The text note of the example saved by \<^verbatim>\<open>saveToLocalStorage\<close>, and the dialog of the
  example saved by \<^verbatim>\<open>handleSave\<close>, each into an empty storage; and the same two
  saves into a full storage, where the first returns \<^verbatim>\<open>false\<close>, the second throws, and
  the world is as before.
\<close>

theorem append_then_readAll_witness:
  "can_append (username (config demo_manager)) (noteData demo_note) demo_world \<and>
   trim (finalTitle demo_dialog None) \<noteq> [] \<and>
   can_append (ascii ''ann'') (newNote demo_dialog (finalTitle demo_dialog None) Undefined Undefined Undefined demo_world) demo_world \<and>
   (\<exists>r w'. saveToLocalStorage demo_manager demo_note demo_world = (Inr True, w') \<and>
      fst (readAll (ascii ''ann'') w') = Inr (Arr [r]) \<and>
      get r ''content'' = Inr (Str (ascii ''dear diary'')) \<and>
      get r ''savedToFile'' = Inr (Bool False)) \<and>
   (\<exists>r w'. handleSave (ascii ''ann'') demo_dialog None Undefined Undefined Undefined demo_world
         = (Inr (resetForm demo_dialog, True), w') \<and>
      fst (readAll (ascii ''ann'') w') = Inr (Arr [r]) \<and>
      get r ''title'' = Inr (Str (ascii ''Hi'')) \<and>
      get r ''tags'' = Inr (Arr [Str (ascii ''a''), Str (ascii ''b'')])) \<and>
   \<not> can_append (username (config demo_manager)) (noteData demo_note)
       (demo_world\<lparr>quota_allows := storage_full\<rparr>) \<and>
   saveToLocalStorage demo_manager demo_note (demo_world\<lparr>quota_allows := storage_full\<rparr>)
     = (Inr False, demo_world\<lparr>quota_allows := storage_full\<rparr>) \<and>
   \<not> can_append (ascii ''ann'')
       (newNote demo_dialog (finalTitle demo_dialog None) Undefined Undefined Undefined
          (demo_world\<lparr>quota_allows := storage_full\<rparr>))
       (demo_world\<lparr>quota_allows := storage_full\<rparr>) \<and>
   (\<exists>e. handleSave (ascii ''ann'') demo_dialog None Undefined Undefined Undefined
         (demo_world\<lparr>quota_allows := storage_full\<rparr>)
       = (Inl e, demo_world\<lparr>quota_allows := storage_full\<rparr>))"
proof -
  let ?f = "demo_world\<lparr>quota_allows := storage_full\<rparr>"
  let ?y = "newNote demo_dialog (finalTitle demo_dialog None) Undefined Undefined Undefined ?f"
  let ?x = "newNote demo_dialog (finalTitle demo_dialog None) Undefined Undefined Undefined demo_world"
  have u: "username (config demo_manager) = ascii ''ann''" by (simp add: demo_manager_def)
  have c1: "can_append (username (config demo_manager)) (noteData demo_note) demo_world"
    by code_simp
  have t: "trim (finalTitle demo_dialog None) \<noteq> []" by code_simp
  have c2: "can_append (ascii ''ann'') ?x demo_world" by code_simp
  have o: "fst (readAll (ascii ''ann'') demo_world) = Inr (Arr [])"
    by (rule readAll_missing) (simp add: demo_world_def)
  have ct: "optional Str (content demo_note) = Str (ascii ''dear diary'')"
    by (simp add: demo_note_def optional_def)
  have ti: "trim (finalTitle demo_dialog None) = ascii ''Hi''" by code_simp
  have tg: "filter (\<lambda>tag. tag \<noteq> []) (map trim (split 0x2C (form_tags demo_dialog)))
      = [ascii ''a'', ascii ''b'']" by code_simp
  note main = append_then_readAll [of demo_manager demo_note demo_world demo_dialog None
      "ascii ''ann''" Undefined Undefined Undefined]
  from main [THEN conjunct1] c1 obtain olds r w' where
    a: "saveToLocalStorage demo_manager demo_note demo_world = (Inr True, w') \<and>
         fst (readAll (username (config demo_manager)) demo_world) = Inr (Arr olds) \<and>
         fst (readAll (username (config demo_manager)) w') = Inr (Arr (olds @ [r])) \<and>
         carries demo_note r \<and>
         get r ''content'' = Inr (optional Str (content demo_note)) \<and>
         get r ''savedToFile'' = Inr (Bool False) \<and>
         (\<forall>k v. get (noteData demo_note) k = Inr v \<and> (stable v \<or> v = Undefined) \<longrightarrow> get r k = Inr v)"
    by (elim impE exE) (assumption, rule that)
  from a o u have "olds = []" by simp
  with a u ct have a': "saveToLocalStorage demo_manager demo_note demo_world = (Inr True, w') \<and>
      fst (readAll (ascii ''ann'') w') = Inr (Arr [r]) \<and>
      get r ''content'' = Inr (Str (ascii ''dear diary'')) \<and>
      get r ''savedToFile'' = Inr (Bool False)" by simp
  have p1: "\<exists>r w'. saveToLocalStorage demo_manager demo_note demo_world = (Inr True, w') \<and>
      fst (readAll (ascii ''ann'') w') = Inr (Arr [r]) \<and>
      get r ''content'' = Inr (Str (ascii ''dear diary'')) \<and>
      get r ''savedToFile'' = Inr (Bool False)"
  proof (intro exI)
    show "saveToLocalStorage demo_manager demo_note demo_world = (Inr True, w') \<and>
      fst (readAll (ascii ''ann'') w') = Inr (Arr [r]) \<and>
      get r ''content'' = Inr (Str (ascii ''dear diary'')) \<and>
      get r ''savedToFile'' = Inr (Bool False)" by (fact a')
  qed
  from t c2 have tc: "trim (finalTitle demo_dialog None) \<noteq> [] \<and> can_append (ascii ''ann'') ?x demo_world"
    by simp
  from main [THEN conjunct2, THEN conjunct2, THEN conjunct1] tc obtain olds2 r2 w2 where
    b: "handleSave (ascii ''ann'') demo_dialog None Undefined Undefined Undefined demo_world
           = (Inr (resetForm demo_dialog, True), w2) \<and>
         fst (readAll (ascii ''ann'') demo_world) = Inr (Arr olds2) \<and>
         fst (readAll (ascii ''ann'') w2) = Inr (Arr (olds2 @ [r2])) \<and>
         get r2 ''id'' = Inr (Str (Number_toString (now_ms demo_world))) \<and>
         get r2 ''title'' = Inr (Str (trim (finalTitle demo_dialog None))) \<and>
         get r2 ''type'' = Inr (Str (type_string (noteType demo_dialog))) \<and>
         get r2 ''tags'' =
           Inr (Arr (map Str (filter (\<lambda>tag. tag \<noteq> []) (map trim (split 0x2C (form_tags demo_dialog)))))) \<and>
         get r2 ''mood'' = Inr (Str (form_mood demo_dialog)) \<and>
         get r2 ''date'' = Inr (Str (iso_string (now demo_world))) \<and>
         get r2 ''createdAt'' = Inr (Num (now_ms demo_world)) \<and>
         (\<forall>k v. get ?x k = Inr v \<and> (stable v \<or> v = Undefined) \<longrightarrow> get r2 k = Inr v)"
    by (elim impE exE) (assumption, rule that)
  from b o have "olds2 = []" by simp
  with b ti tg have b': "handleSave (ascii ''ann'') demo_dialog None Undefined Undefined Undefined demo_world
         = (Inr (resetForm demo_dialog, True), w2) \<and>
      fst (readAll (ascii ''ann'') w2) = Inr (Arr [r2]) \<and>
      get r2 ''title'' = Inr (Str (ascii ''Hi'')) \<and>
      get r2 ''tags'' = Inr (Arr [Str (ascii ''a''), Str (ascii ''b'')])" by simp
  have p2: "\<exists>r w'. handleSave (ascii ''ann'') demo_dialog None Undefined Undefined Undefined demo_world
         = (Inr (resetForm demo_dialog, True), w') \<and>
      fst (readAll (ascii ''ann'') w') = Inr (Arr [r]) \<and>
      get r ''title'' = Inr (Str (ascii ''Hi'')) \<and>
      get r ''tags'' = Inr (Arr [Str (ascii ''a''), Str (ascii ''b'')])"
  proof (intro exI)
    show "handleSave (ascii ''ann'') demo_dialog None Undefined Undefined Undefined demo_world
         = (Inr (resetForm demo_dialog, True), w2) \<and>
      fst (readAll (ascii ''ann'') w2) = Inr (Arr [r2]) \<and>
      get r2 ''title'' = Inr (Str (ascii ''Hi'')) \<and>
      get r2 ''tags'' = Inr (Arr [Str (ascii ''a''), Str (ascii ''b'')])" by (fact b')
  qed
  have n1: "\<not> can_append (username (config demo_manager)) (noteData demo_note) ?f"
    by code_simp
  have n2: "\<not> can_append (ascii ''ann'') ?y ?f" by code_simp
  note full = append_then_readAll [of demo_manager demo_note ?f demo_dialog None
      "ascii ''ann''" Undefined Undefined Undefined]
  from full [THEN conjunct2, THEN conjunct1] n1
  have p3: "saveToLocalStorage demo_manager demo_note ?f = (Inr False, ?f)" by (rule mp)
  from t n2 have tn: "trim (finalTitle demo_dialog None) \<noteq> [] \<and> \<not> can_append (ascii ''ann'') ?y ?f"
    by (rule conjI)
  from full [THEN conjunct2, THEN conjunct2, THEN conjunct2, THEN mp, OF tn]
  have p4: "\<exists>e. handleSave (ascii ''ann'') demo_dialog None Undefined Undefined Undefined ?f
       = (Inl e, ?f)" by (rule conjunct1)
  show ?thesis using c1 t c2 p1 p2 n1 p3 n2 p4 by (intro conjI)
qed

text \<open>
  Where the claim as worded fails. A stored item that is JSON but not an array (as
  \<^verbatim>\<open>importData\<close> writes it from a file whose notes are an object): the append returns
  \<^verbatim>\<open>false\<close> and the collection does not contain the record. And an audio note: its
  record is appended, but the bytes of the blob are not in it.
\<close>

theorem append_then_readAll_counterexample:
  "fst (saveToLocalStorage demo_manager demo_note
          (demo_world\<lparr>localStorage := [notes_key (ascii ''ann'') \<mapsto> JSON_text (JObj [])]\<rparr>))
     = Inr False \<and>
   fst (readAll (ascii ''ann'')
          (snd (saveToLocalStorage demo_manager demo_note
             (demo_world\<lparr>localStorage := [notes_key (ascii ''ann'') \<mapsto> JSON_text (JObj [])]\<rparr>))))
     = Inr (Obj []) \<and>
   fst (readAll (ascii ''ann'') (snd (saveToLocalStorage demo_manager demo_audio demo_world)))
     = Inr (Arr [Obj [(''id'', Str (ascii ''8'')), (''title'', Str (ascii ''Memo'')),
                      (''type'', Str (ascii ''audio'')), (''audioData'', Obj []),
                      (''date'', Str (ascii ''2025-01-15T10:30:00.000Z'')), (''tags'', Arr []),
                      (''mood'', Str (ascii ''calm'')), (''duration'', Num 12),
                      (''savedToFile'', Bool False)]])"
  by code_simp


section \<open>The binary payload in the fallback\<close>

text \<open>
  Claim C4 is what the code does not do. An audio or video note with a blob that goes
  to the fallback is stored with \<^verbatim>\<open>savedToFile = false\<close>, but
  \<^verbatim>\<open>JSON.stringify\<close> writes the blob as the empty object: what \<^verbatim>\<open>readAll\<close> returns has
  \<^verbatim>\<open>{}\<close> for \<^verbatim>\<open>audioData\<close> (or \<^verbatim>\<open>videoData\<close>), and no property of the record is a
  blob. The payload is lost.
\<close>

theorem binary_payload_not_stored:
  assumes "blob n = Some b" "note_type n \<noteq> TypeText"
    "\<not> export_completed m n w" "can_append (username (config m)) (noteData n) w"
  shows "fst (saveNoteToFile m n w) = Inr True \<and>
     (\<exists>olds r. fst (readAll (username (config m)) w) = Inr (Arr olds) \<and>
        fst (readAll (username (config m)) (snd (saveNoteToFile m n w))) = Inr (Arr (olds @ [r])) \<and>
        get r ''savedToFile'' = Inr (Bool False) \<and>
        get r (if note_type n = TypeAudio then ''audioData'' else ''videoData'') = Inr (Obj []) \<and>
        (\<forall>k b'. get r k \<noteq> Inr (Blob b')))"
proof -
  let ?u = "username (config m)"
  let ?w1 = "after_attempt m n w"
  let ?r = "reparse (noteData n)"
  note st = after_attempt_store [OF assms(3)]
  have eq: "saveNoteToFile m n w = saveToLocalStorage m n ?w1"
    using assms(3) by (simp add: saveNoteToFile_eq)
  have "can_append ?u (noteData n) ?w1"
    using st can_append_same_store [of ?w1 w ?u "noteData n"] assms(4) by simp
  from fallback_appends [OF this] obtain olds w' where
    s: "saveToLocalStorage m n ?w1 = (Inr True, w')" and
    o: "fst (readAll ?u ?w1) = Inr (Arr olds)" and
    r: "fst (readAll ?u w') = Inr (Arr (olds @ [?r]))" by blast
  from o st readAll_same_store [of ?w1 w ?u] have o': "fst (readAll ?u w) = Inr (Arr olds)"
    by simp
  have pl: "get ?r (if note_type n = TypeAudio then ''audioData'' else ''videoData'') = Inr (Obj [])"
    using assms(1,2) by (cases "note_type n") (simp_all add: noteData_audioData noteData_videoData)
  have nb: "\<forall>k b'. get ?r k \<noteq> Inr (Blob b')"
    using get_reparse_not_Blob by blast
  have "fst (readAll ?u w) = Inr (Arr olds) \<and>
        fst (readAll ?u (snd (saveNoteToFile m n w))) = Inr (Arr (olds @ [?r])) \<and>
        get ?r ''savedToFile'' = Inr (Bool False) \<and>
        get ?r (if note_type n = TypeAudio then ''audioData'' else ''videoData'') = Inr (Obj []) \<and>
        (\<forall>k b'. get ?r k \<noteq> Inr (Blob b'))"
    using o' r s eq noteData_savedToFile [of n] pl nb by simp
  then have "\<exists>olds r. fst (readAll ?u w) = Inr (Arr olds) \<and>
        fst (readAll ?u (snd (saveNoteToFile m n w))) = Inr (Arr (olds @ [r])) \<and>
        get r ''savedToFile'' = Inr (Bool False) \<and>
        get r (if note_type n = TypeAudio then ''audioData'' else ''videoData'') = Inr (Obj []) \<and>
        (\<forall>k b'. get r k \<noteq> Inr (Blob b'))"
    by (intro exI)
  moreover from s eq have "fst (saveNoteToFile m n w) = Inr True" by simp
  ultimately show ?thesis by (intro conjI)
qed

text \<open>
  The audio note of the example, with the bytes 1, 2, 3, when access to the directory
  is denied.
\<close>

theorem binary_payload_not_stored_witness:
  "blob demo_audio = Some [1, 2, 3] \<and> note_type demo_audio \<noteq> TypeText \<and>
   \<not> export_completed demo_manager demo_audio (demo_world\<lparr>fs_fault := access_denied\<rparr>) \<and>
   can_append (username (config demo_manager)) (noteData demo_audio)
     (demo_world\<lparr>fs_fault := access_denied\<rparr>) \<and>
   fst (saveNoteToFile demo_manager demo_audio (demo_world\<lparr>fs_fault := access_denied\<rparr>)) = Inr True \<and>
   (\<exists>r. fst (readAll (ascii ''ann'')
              (snd (saveNoteToFile demo_manager demo_audio (demo_world\<lparr>fs_fault := access_denied\<rparr>))))
          = Inr (Arr [r]) \<and>
        get r ''savedToFile'' = Inr (Bool False) \<and>
        get r ''audioData'' = Inr (Obj []) \<and>
        get r ''audioData'' \<noteq> Inr (Blob [1, 2, 3]))"
proof -
  let ?w = "demo_world\<lparr>fs_fault := access_denied\<rparr>"
  have u: "username (config demo_manager) = ascii ''ann''" by (simp add: demo_manager_def)
  have b: "blob demo_audio = Some [1, 2, 3]" by (simp add: demo_audio_def)
  have ty: "note_type demo_audio \<noteq> TypeText" by (simp add: demo_audio_def)
  have ty': "note_type demo_audio = TypeAudio" by (simp add: demo_audio_def)
  have ne: "\<not> export_completed demo_manager demo_audio ?w" by code_simp
  have ca: "can_append (username (config demo_manager)) (noteData demo_audio) ?w" by code_simp
  have o: "fst (readAll (ascii ''ann'') ?w) = Inr (Arr [])"
    by (rule readAll_missing) (simp add: demo_world_def)
  from binary_payload_not_stored [OF b ty ne ca] obtain olds r where
    t: "fst (saveNoteToFile demo_manager demo_audio ?w) = Inr True" and
    a: "fst (readAll (username (config demo_manager)) ?w) = Inr (Arr olds) \<and>
        fst (readAll (username (config demo_manager)) (snd (saveNoteToFile demo_manager demo_audio ?w)))
          = Inr (Arr (olds @ [r])) \<and>
        get r ''savedToFile'' = Inr (Bool False) \<and>
        get r (if note_type demo_audio = TypeAudio then ''audioData'' else ''videoData'') = Inr (Obj []) \<and>
        (\<forall>k b'. get r k \<noteq> Inr (Blob b'))"
    by (elim conjE exE) (rule that, assumption, intro conjI; assumption)
  from a o u have "olds = []" by simp
  with a u ty' have a': "fst (readAll (ascii ''ann'') (snd (saveNoteToFile demo_manager demo_audio ?w)))
          = Inr (Arr [r]) \<and>
        get r ''savedToFile'' = Inr (Bool False) \<and>
        get r ''audioData'' = Inr (Obj []) \<and>
        get r ''audioData'' \<noteq> Inr (Blob [1, 2, 3])" by simp
  have p: "\<exists>r. fst (readAll (ascii ''ann'') (snd (saveNoteToFile demo_manager demo_audio ?w)))
          = Inr (Arr [r]) \<and>
        get r ''savedToFile'' = Inr (Bool False) \<and>
        get r ''audioData'' = Inr (Obj []) \<and>
        get r ''audioData'' \<noteq> Inr (Blob [1, 2, 3])"
  proof (intro exI)
    show "fst (readAll (ascii ''ann'') (snd (saveNoteToFile demo_manager demo_audio ?w)))
          = Inr (Arr [r]) \<and>
        get r ''savedToFile'' = Inr (Bool False) \<and>
        get r ''audioData'' = Inr (Obj []) \<and>
        get r ''audioData'' \<noteq> Inr (Blob [1, 2, 3])" by (fact a')
  qed
  show ?thesis using b ty ne ca t p by (intro conjI)
qed

section \<open>Append\<close>

lemma saveToLocalStorage_twice:
  assumes "can_append (username (config m)) (noteData n) w"
    "can_append (username (config m)) (noteData n) (snd (saveToLocalStorage m n w))"
  shows "\<exists>olds. fst (readAll (username (config m)) w) = Inr (Arr olds) \<and>
     fst (saveToLocalStorage m n (snd (saveToLocalStorage m n w))) = Inr True \<and>
     fst (readAll (username (config m))
            (snd (saveToLocalStorage m n (snd (saveToLocalStorage m n w))))) =
       Inr (Arr (olds @ [reparse (noteData n), reparse (noteData n)]))"
proof -
  let ?u = "username (config m)"
  from fallback_appends [OF assms(1)] obtain olds w1 where
    s1: "saveToLocalStorage m n w = (Inr True, w1)" and
    o1: "fst (readAll ?u w) = Inr (Arr olds)" and
    r1: "fst (readAll ?u w1) = Inr (Arr (olds @ [reparse (noteData n)]))" by blast
  from assms(2) s1 have "can_append ?u (noteData n) w1" by simp
  from fallback_appends [OF this] obtain olds2 w2 where
    s2: "saveToLocalStorage m n w1 = (Inr True, w2)" and
    o2: "fst (readAll ?u w1) = Inr (Arr olds2)" and
    r2: "fst (readAll ?u w2) = Inr (Arr (olds2 @ [reparse (noteData n)]))" by blast
  from r1 o2 have "olds2 = olds @ [reparse (noteData n)]" by simp
  with s1 s2 o1 r2 show ?thesis by simp
qed

lemma handleSave_not_array:
  assumes "trim (finalTitle s nt) \<noteq> []" "fst (readAll user w) = Inr v" "\<forall>olds. v \<noteq> Arr olds"
  shows "handleSave user s nt c d th w = (Inl TypeError, w)"
proof -
  from assms(2) have r: "readAll user w = (Inr v, w)" using readAll_pair [of user w] by simp
  from assms(3) have "push v x = Inl TypeError" for x by (cases v) auto
  with assms(1) r show ?thesis
    by (simp add: handleSave_def bind_def return_def lift_def)
qed

lemma handleSave_refused:
  assumes "trim (finalTitle s nt) \<noteq> []" "fst (readAll user w) = Inr (Arr olds)"
    "\<not> can_append user (newNote s (finalTitle s nt) c d th w) w"
  shows "handleSave user s nt c d th w = (Inl QuotaExceededError, w)"
proof -
  from assms(2) have r: "readAll user w = (Inr (Arr olds), w)"
    using readAll_pair [of user w] by simp
  from assms(2,3) have "\<not> quota_allows w (notes_key user)
      (ToString (JSON_stringify (Arr (olds @ [newNote s (finalTitle s nt) c d th w]))))"
    by (simp add: can_append_def)
  with assms(1) r show ?thesis
    by (simp add: handleSave_def bind_def return_def lift_def setItem_def)
qed

text \<open>
  Claim C7, as the code has it. An append reads the user's current list, where a
  missing item and the empty string are the empty list, adds the record at the end and
  writes the text of the whole list back. Stored content that does not parse, or that
  is not an array, is not taken for the empty list: nothing is written, and
  \<^verbatim>\<open>saveToLocalStorage\<close> returns \<^verbatim>\<open>false\<close> while \<^verbatim>\<open>handleSave\<close> ends with the
  exception (the SyntaxError of \<^verbatim>\<open>JSON.parse\<close>, the TypeError of \<^verbatim>\<open>push\<close>). When the
  browser refuses the write, \<^verbatim>\<open>saveToLocalStorage\<close> returns \<^verbatim>\<open>false\<close> and
  \<^verbatim>\<open>handleSave\<close> ends with the exception of \<^verbatim>\<open>setItem\<close>. No uniqueness is enforced:
  saving the same note twice stores two records with the same id.
\<close>

theorem append_reads_appends_writes:
  "(localStorage w (notes_key user) = None \<or> localStorage w (notes_key user) = Some (Other_text [])
      \<longrightarrow> fst (readAll user w) = Inr (Arr [])) \<and>
   (\<forall>olds. fst (readAll (username (config m)) w) = Inr (Arr olds) \<and>
       can_append (username (config m)) (noteData n) w \<longrightarrow>
       saveToLocalStorage m n w =
         (Inr True, w\<lparr>localStorage := (localStorage w)(notes_key (username (config m)) \<mapsto>
            ToString (JSON_stringify (Arr (olds @ [noteData n]))))\<rparr>) \<and>
       fst (readAll (username (config m)) (snd (saveToLocalStorage m n w))) =
         Inr (Arr (olds @ [reparse (noteData n)]))) \<and>
   (\<not> can_append (username (config m)) (noteData n) w \<longrightarrow>
       saveToLocalStorage m n w = (Inr False, w)) \<and>
   (\<forall>t. localStorage w (notes_key (username (config m))) = Some (Other_text t) \<and> t \<noteq> [] \<longrightarrow>
       saveToLocalStorage m n w = (Inr False, w)) \<and>
   (\<forall>v. fst (readAll (username (config m)) w) = Inr v \<and> (\<forall>olds. v \<noteq> Arr olds) \<longrightarrow>
       saveToLocalStorage m n w = (Inr False, w)) \<and>
   (\<forall>olds. trim (finalTitle s nt) \<noteq> [] \<and> fst (readAll user w) = Inr (Arr olds) \<and>
       can_append user (newNote s (finalTitle s nt) c d th w) w \<longrightarrow>
       handleSave user s nt c d th w =
         (Inr (resetForm s, True), w\<lparr>localStorage := (localStorage w)(notes_key user \<mapsto>
            ToString (JSON_stringify (Arr (olds @ [newNote s (finalTitle s nt) c d th w]))))\<rparr>)) \<and>
   (\<forall>t. trim (finalTitle s nt) \<noteq> [] \<and> localStorage w (notes_key user) = Some (Other_text t) \<and>
       t \<noteq> [] \<longrightarrow> handleSave user s nt c d th w = (Inl SyntaxError, w)) \<and>
   (\<forall>v. trim (finalTitle s nt) \<noteq> [] \<and> fst (readAll user w) = Inr v \<and> (\<forall>olds. v \<noteq> Arr olds) \<longrightarrow>
       handleSave user s nt c d th w = (Inl TypeError, w)) \<and>
   (\<forall>olds. trim (finalTitle s nt) \<noteq> [] \<and> fst (readAll user w) = Inr (Arr olds) \<and>
       \<not> can_append user (newNote s (finalTitle s nt) c d th w) w \<longrightarrow>
       handleSave user s nt c d th w = (Inl QuotaExceededError, w)) \<and>
   (can_append (username (config m)) (noteData n) w \<and>
    can_append (username (config m)) (noteData n) (snd (saveToLocalStorage m n w)) \<longrightarrow>
      (\<exists>olds. fst (readAll (username (config m)) w) = Inr (Arr olds) \<and>
         fst (saveToLocalStorage m n (snd (saveToLocalStorage m n w))) = Inr True \<and>
         fst (readAll (username (config m))
                (snd (saveToLocalStorage m n (snd (saveToLocalStorage m n w))))) =
           Inr (Arr (olds @ [reparse (noteData n), reparse (noteData n)]))))"
proof -
  let ?u = "username (config m)"
  have a: "localStorage w (notes_key user) = None \<or> localStorage w (notes_key user) = Some (Other_text [])
      \<longrightarrow> fst (readAll user w) = Inr (Arr [])"
    using readAll_missing by blast
  have b: "\<forall>olds. fst (readAll ?u w) = Inr (Arr olds) \<and> can_append ?u (noteData n) w \<longrightarrow>
       saveToLocalStorage m n w =
         (Inr True, w\<lparr>localStorage := (localStorage w)(notes_key ?u \<mapsto>
            ToString (JSON_stringify (Arr (olds @ [noteData n]))))\<rparr>) \<and>
       fst (readAll ?u (snd (saveToLocalStorage m n w))) = Inr (Arr (olds @ [reparse (noteData n)]))"
  proof (intro allI impI)
    fix olds
    assume h: "fst (readAll ?u w) = Inr (Arr olds) \<and> can_append ?u (noteData n) w"
    then have o: "fst (readAll ?u w) = Inr (Arr olds)" and ca: "can_append ?u (noteData n) w"
      by simp_all
    from saveToLocalStorage_ok [OF o ca] readAll_after_append [OF o, of "noteData n"]
    show "saveToLocalStorage m n w =
         (Inr True, w\<lparr>localStorage := (localStorage w)(notes_key ?u \<mapsto>
            ToString (JSON_stringify (Arr (olds @ [noteData n]))))\<rparr>) \<and>
       fst (readAll ?u (snd (saveToLocalStorage m n w))) = Inr (Arr (olds @ [reparse (noteData n)]))"
      by (simp add: text_of_array)
  qed
  have c: "\<not> can_append ?u (noteData n) w \<longrightarrow> saveToLocalStorage m n w = (Inr False, w)"
    using saveToLocalStorage_fail by blast
  have d: "\<forall>t. localStorage w (notes_key ?u) = Some (Other_text t) \<and> t \<noteq> [] \<longrightarrow>
       saveToLocalStorage m n w = (Inr False, w)"
    using readAll_unparsable [of w ?u] not_can_append_unparsable [of ?u w SyntaxError "noteData n"]
      saveToLocalStorage_fail [of m n w] by blast
  have e: "\<forall>v. fst (readAll ?u w) = Inr v \<and> (\<forall>olds. v \<noteq> Arr olds) \<longrightarrow>
       saveToLocalStorage m n w = (Inr False, w)"
    using not_can_append_not_array [of ?u w _ "noteData n"] saveToLocalStorage_fail [of m n w]
    by blast
  have f: "\<forall>olds. trim (finalTitle s nt) \<noteq> [] \<and> fst (readAll user w) = Inr (Arr olds) \<and>
       can_append user (newNote s (finalTitle s nt) c d th w) w \<longrightarrow>
       handleSave user s nt c d th w =
         (Inr (resetForm s, True), w\<lparr>localStorage := (localStorage w)(notes_key user \<mapsto>
            ToString (JSON_stringify (Arr (olds @ [newNote s (finalTitle s nt) c d th w]))))\<rparr>)"
    using handleSave_ok [of s nt user w _ c d th] by (simp add: text_of_array)
  have g: "\<forall>t. trim (finalTitle s nt) \<noteq> [] \<and> localStorage w (notes_key user) = Some (Other_text t) \<and>
       t \<noteq> [] \<longrightarrow> handleSave user s nt c d th w = (Inl SyntaxError, w)"
    using readAll_unparsable [of w user] handleSave_unparsable [of s nt user w SyntaxError c d th]
    by blast
  have g2: "\<forall>v. trim (finalTitle s nt) \<noteq> [] \<and> fst (readAll user w) = Inr v \<and> (\<forall>olds. v \<noteq> Arr olds) \<longrightarrow>
       handleSave user s nt c d th w = (Inl TypeError, w)"
    using handleSave_not_array [of s nt user w _ c d th] by blast
  have g3: "\<forall>olds. trim (finalTitle s nt) \<noteq> [] \<and> fst (readAll user w) = Inr (Arr olds) \<and>
       \<not> can_append user (newNote s (finalTitle s nt) c d th w) w \<longrightarrow>
       handleSave user s nt c d th w = (Inl QuotaExceededError, w)"
    using handleSave_refused [of s nt user w _ c d th] by blast
  have h: "can_append ?u (noteData n) w \<and>
    can_append ?u (noteData n) (snd (saveToLocalStorage m n w)) \<longrightarrow>
      (\<exists>olds. fst (readAll ?u w) = Inr (Arr olds) \<and>
         fst (saveToLocalStorage m n (snd (saveToLocalStorage m n w))) = Inr True \<and>
         fst (readAll ?u (snd (saveToLocalStorage m n (snd (saveToLocalStorage m n w))))) =
           Inr (Arr (olds @ [reparse (noteData n), reparse (noteData n)])))"
    using saveToLocalStorage_twice [of m n w] by blast
  show ?thesis using a b c d e f g g2 g3 h by (intro conjI)
qed

text \<open>
  The example: an empty storage reads as the empty list; the same note saved twice is
  stored twice; over stored text that does not parse, nothing is saved; over a stored
  object, \<^verbatim>\<open>handleSave\<close> ends with the TypeError of \<^verbatim>\<open>push\<close>.
\<close>

theorem append_reads_appends_writes_witness:
  "localStorage demo_world (notes_key (ascii ''ann'')) = None \<and>
   fst (readAll (ascii ''ann'') demo_world) = Inr (Arr []) \<and>
   can_append (username (config demo_manager)) (noteData demo_note) demo_world \<and>
   can_append (username (config demo_manager)) (noteData demo_note)
     (snd (saveToLocalStorage demo_manager demo_note demo_world)) \<and>
   fst (readAll (username (config demo_manager))
          (snd (saveToLocalStorage demo_manager demo_note
                 (snd (saveToLocalStorage demo_manager demo_note demo_world)))))
     = Inr (Arr [reparse (noteData demo_note), reparse (noteData demo_note)]) \<and>
   localStorage (demo_world\<lparr>localStorage := [notes_key (ascii ''ann'') \<mapsto> Other_text (ascii ''not json'')]\<rparr>)
       (notes_key (username (config demo_manager))) = Some (Other_text (ascii ''not json'')) \<and>
   ascii ''not json'' \<noteq> [] \<and>
   saveToLocalStorage demo_manager demo_note
       (demo_world\<lparr>localStorage := [notes_key (ascii ''ann'') \<mapsto> Other_text (ascii ''not json'')]\<rparr>)
     = (Inr False,
        demo_world\<lparr>localStorage := [notes_key (ascii ''ann'') \<mapsto> Other_text (ascii ''not json'')]\<rparr>) \<and>
   trim (finalTitle demo_dialog None) \<noteq> [] \<and>
   fst (readAll (ascii ''ann'')
          (demo_world\<lparr>localStorage := [notes_key (ascii ''ann'') \<mapsto> JSON_text (JObj [])]\<rparr>))
     = Inr (Obj []) \<and>
   handleSave (ascii ''ann'') demo_dialog None Undefined Undefined Undefined
       (demo_world\<lparr>localStorage := [notes_key (ascii ''ann'') \<mapsto> JSON_text (JObj [])]\<rparr>)
     = (Inl TypeError,
        demo_world\<lparr>localStorage := [notes_key (ascii ''ann'') \<mapsto> JSON_text (JObj [])]\<rparr>)"
proof -
  let ?O = "demo_world\<lparr>localStorage := [notes_key (ascii ''ann'') \<mapsto> JSON_text (JObj [])]\<rparr>"
  let ?W = "demo_world\<lparr>localStorage := [notes_key (ascii ''ann'') \<mapsto> Other_text (ascii ''not json'')]\<rparr>"
  let ?u = "username (config demo_manager)"
  have u: "?u = ascii ''ann''" by (simp add: demo_manager_def)
  have e: "localStorage demo_world (notes_key (ascii ''ann'')) = None" by (simp add: demo_world_def)
  have c1: "can_append ?u (noteData demo_note) demo_world" by code_simp
  have c2: "can_append ?u (noteData demo_note) (snd (saveToLocalStorage demo_manager demo_note demo_world))"
    by code_simp
  have s: "localStorage ?W (notes_key ?u) = Some (Other_text (ascii ''not json''))" by (simp add: u)
  have ne: "ascii ''not json'' \<noteq> []" by (simp add: ascii_def)
  note main1 = append_reads_appends_writes [of demo_world "ascii ''ann''" demo_manager demo_note
      demo_dialog None Undefined Undefined Undefined]
  note main2 = append_reads_appends_writes [of ?W "ascii ''ann''" demo_manager demo_note
      demo_dialog None Undefined Undefined Undefined]
  from main1 [THEN conjunct1] e have r0: "fst (readAll (ascii ''ann'') demo_world) = Inr (Arr [])"
    by simp
  from main1 [THEN conjunct2, THEN conjunct2, THEN conjunct2, THEN conjunct2, THEN conjunct2,
      THEN conjunct2, THEN conjunct2, THEN conjunct2, THEN conjunct2] c1 c2
  obtain olds where
    o: "fst (readAll ?u demo_world) = Inr (Arr olds)" and
    r2: "fst (readAll ?u (snd (saveToLocalStorage demo_manager demo_note
                 (snd (saveToLocalStorage demo_manager demo_note demo_world)))))
       = Inr (Arr (olds @ [reparse (noteData demo_note), reparse (noteData demo_note)]))"
    by blast
  from o r0 u have "olds = []" by simp
  with r2 have r2': "fst (readAll ?u (snd (saveToLocalStorage demo_manager demo_note
                 (snd (saveToLocalStorage demo_manager demo_note demo_world)))))
       = Inr (Arr [reparse (noteData demo_note), reparse (noteData demo_note)])" by simp
  from main2 [THEN conjunct2, THEN conjunct2, THEN conjunct2, THEN conjunct1] s ne
  have f: "saveToLocalStorage demo_manager demo_note ?W = (Inr False, ?W)" by blast
  have t: "trim (finalTitle demo_dialog None) \<noteq> []" by code_simp
  have ro: "fst (readAll (ascii ''ann'') ?O) = Inr (Obj [])" by code_simp
  have na: "\<forall>olds. Obj [] \<noteq> Arr olds" by simp
  note main3 = append_reads_appends_writes [of ?O "ascii ''ann''" demo_manager demo_note
      demo_dialog None Undefined Undefined Undefined]
  from t ro na have pre: "trim (finalTitle demo_dialog None) \<noteq> [] \<and>
      fst (readAll (ascii ''ann'') ?O) = Inr (Obj []) \<and> (\<forall>olds. Obj [] \<noteq> Arr olds)"
    by (intro conjI)
  have g: "handleSave (ascii ''ann'') demo_dialog None Undefined Undefined Undefined ?O
      = (Inl TypeError, ?O)"
    by (rule main3 [THEN conjunct2, THEN conjunct2, THEN conjunct2, THEN conjunct2, THEN conjunct2,
      THEN conjunct2, THEN conjunct2, THEN conjunct1, THEN spec, THEN mp, OF pre])
  show ?thesis using e r0 c1 c2 r2' s ne f t ro g by (intro conjI)
qed

text \<open>
  Where the claim as worded fails: the stored text does not parse. It is not taken
  for the empty list: \<^verbatim>\<open>saveToLocalStorage\<close> returns \<^verbatim>\<open>false\<close>, \<^verbatim>\<open>handleSave\<close> ends
  with the SyntaxError, and the stored text stays as it was.
\<close>

theorem append_unparsable_counterexample:
  "fst (saveToLocalStorage demo_manager demo_note
          (demo_world\<lparr>localStorage := [notes_key (ascii ''ann'') \<mapsto> Other_text (ascii ''not json'')]\<rparr>))
     = Inr False \<and>
   localStorage (snd (saveToLocalStorage demo_manager demo_note
          (demo_world\<lparr>localStorage := [notes_key (ascii ''ann'') \<mapsto> Other_text (ascii ''not json'')]\<rparr>)))
       (notes_key (ascii ''ann'')) = Some (Other_text (ascii ''not json'')) \<and>
   fst (handleSave (ascii ''ann'') demo_dialog None Undefined Undefined Undefined
          (demo_world\<lparr>localStorage := [notes_key (ascii ''ann'') \<mapsto> Other_text (ascii ''not json'')]\<rparr>))
     = Inl SyntaxError \<and>
   localStorage (snd (handleSave (ascii ''ann'') demo_dialog None Undefined Undefined Undefined
          (demo_world\<lparr>localStorage := [notes_key (ascii ''ann'') \<mapsto> Other_text (ascii ''not json'')]\<rparr>)))
       (notes_key (ascii ''ann'')) = Some (Other_text (ascii ''not json''))"
  by code_simp


section \<open>Blank titles\<close>

lemma trim_Nil_iff: "trim t = [] \<longleftrightarrow> (\<forall>c \<in> set t. is_ws c)"
proof
  assume "trim t = []"
  then have "dropWhile is_ws (rev (dropWhile is_ws t)) = []" by (simp add: trim_def)
  then have a: "\<forall>c \<in> set (dropWhile is_ws t). is_ws c"
    unfolding dropWhile_eq_Nil_conv by simp
  have "dropWhile is_ws t = []"
  proof (cases "dropWhile is_ws t")
    case Nil
    then show ?thesis .
  next
    case (Cons c cs)
    then have "\<not> is_ws c" using hd_dropWhile [of is_ws t] by simp
    with a Cons show ?thesis by simp
  qed
  then show "\<forall>c \<in> set t. is_ws c" unfolding dropWhile_eq_Nil_conv .
next
  assume "\<forall>c \<in> set t. is_ws c"
  then have d: "dropWhile is_ws t = []" unfolding dropWhile_eq_Nil_conv .
  show "trim t = []" unfolding trim_def d by simp
qed

text \<open>
  Claim C10. When the title that \<^verbatim>\<open>handleSave\<close> would use (its argument, or the
  dialog's title when the argument is missing or empty) is empty or consists of
  whitespace only, that is, when it is empty after trimming, \<^verbatim>\<open>handleSave\<close> returns at
  once: nothing is thrown, the world and with it the stored collection is unchanged,
  the dialog keeps its state and \<^verbatim>\<open>onNoteCreated\<close> is not called.
\<close>

theorem handleSave_blank_title:
  "(trim (finalTitle s nt) = [] \<longleftrightarrow> (\<forall>c \<in> set (finalTitle s nt). is_ws c)) \<and>
   (trim (finalTitle s nt) = [] \<longrightarrow>
      handleSave user s nt c d th w = (Inr (s, False), w) \<and>
      fst (readAll user (snd (handleSave user s nt c d th w))) = fst (readAll user w))"
  using handleSave_blank [of s nt user c d th w] trim_Nil_iff [of "finalTitle s nt"] by simp

text \<open>
  The dialog of the example with a title of two spaces, saved with a title argument of
  one tab, over a storage that already holds a list.
\<close>

theorem handleSave_blank_title_witness:
  "trim (finalTitle (demo_dialog\<lparr>form_title := ascii ''  ''\<rparr>) (Some [0x09])) = [] \<and>
   handleSave (ascii ''ann'') (demo_dialog\<lparr>form_title := ascii ''  ''\<rparr>) (Some [0x09])
       (Str (ascii ''text'')) Undefined Undefined
       (demo_world\<lparr>localStorage := [notes_key (ascii ''ann'') \<mapsto> JSON_text (JArr [JNum 1])]\<rparr>)
     = (Inr (demo_dialog\<lparr>form_title := ascii ''  ''\<rparr>, False),
        demo_world\<lparr>localStorage := [notes_key (ascii ''ann'') \<mapsto> JSON_text (JArr [JNum 1])]\<rparr>)"
proof -
  let ?s = "demo_dialog\<lparr>form_title := ascii ''  ''\<rparr>"
  let ?w = "demo_world\<lparr>localStorage := [notes_key (ascii ''ann'') \<mapsto> JSON_text (JArr [JNum 1])]\<rparr>"
  have t: "trim (finalTitle ?s (Some [0x09])) = []" by code_simp
  from handleSave_blank_title [of ?s "Some [0x09]" "ascii ''ann''" "Str (ascii ''text'')" Undefined
      Undefined ?w, THEN conjunct2] t
  have "handleSave (ascii ''ann'') ?s (Some [0x09]) (Str (ascii ''text'')) Undefined Undefined ?w
      = (Inr (?s, False), ?w)" by blast
  with t show ?thesis by (intro conjI)
qed


section \<open>Deleting all data\<close>

lemma notes_key_not_settings_key: "notes_key u \<noteq> settings_key u'"
  by (simp add: notes_key_def settings_key_def ascii_def)

text \<open>
  Claim C5. The confirmed call of \<^verbatim>\<open>deleteAllData\<close> (the second of the two-step
  gesture) removes the user's note collection and the user's settings from
  \<^verbatim>\<open>localStorage\<close>, whatever they held, and leaves every other item; reading the
  user's collection afterwards gives the empty list, and the view's settings are the
  defaults. The first call only arms the confirmation and removes nothing.
\<close>

theorem deleteAllData_wipes:
  "(showDeleteConfirm s \<longrightarrow>
      localStorage (snd (deleteAllData user s w)) (notes_key user) = None \<and>
      localStorage (snd (deleteAllData user s w)) (settings_key user) = None \<and>
      (\<forall>k. k \<noteq> notes_key user \<and> k \<noteq> settings_key user \<longrightarrow>
         localStorage (snd (deleteAllData user s w)) k = localStorage w k) \<and>
      fst (readAll user (snd (deleteAllData user s w))) = Inr (Arr []) \<and>
      settings (snd (fst (deleteAllData user s w))) = defaultSettings \<and>
      \<not> showDeleteConfirm (snd (fst (deleteAllData user s w)))) \<and>
   (\<not> showDeleteConfirm s \<longrightarrow>
      snd (deleteAllData user s w) = w \<and>
      showDeleteConfirm (snd (fst (deleteAllData user s w))))"
proof (intro conjI impI)
  assume c: "showDeleteConfirm s"
  let ?w' = "snd (deleteAllData user s w)"
  from c have l: "localStorage ?w' = (localStorage w)(notes_key user := None, settings_key user := None)"
    by (simp add: deleteAllData_def removeItem_def)
  from l show n: "localStorage ?w' (notes_key user) = None"
    by (simp add: notes_key_not_settings_key)
  from l show "localStorage ?w' (settings_key user) = None" by simp
  from l show "\<forall>k. k \<noteq> notes_key user \<and> k \<noteq> settings_key user \<longrightarrow>
         localStorage ?w' k = localStorage w k" by simp
  from n show "fst (readAll user ?w') = Inr (Arr [])" by (simp add: readAll_missing)
  from c show "settings (snd (fst (deleteAllData user s w))) = defaultSettings"
    by (simp add: deleteAllData_def removeItem_def)
  from c show "\<not> showDeleteConfirm (snd (fst (deleteAllData user s w)))"
    by (simp add: deleteAllData_def removeItem_def)
next
  assume "\<not> showDeleteConfirm s"
  then show "snd (deleteAllData user s w) = w" by (simp add: deleteAllData_def)
next
  assume "\<not> showDeleteConfirm s"
  then show "showDeleteConfirm (snd (fst (deleteAllData user s w)))" by (simp add: deleteAllData_def)
qed

text \<open>
  The view of the example, confirmation armed, over a storage that holds a note and
  settings of the user.
\<close>

theorem deleteAllData_wipes_witness:
  "showDeleteConfirm demo_view \<and>
   fst (readAll (ascii ''ann'')
         (demo_world\<lparr>localStorage :=
            [notes_key (ascii ''ann'') \<mapsto> JSON_text (JArr [JNum 1]),
             settings_key (ascii ''ann'') \<mapsto> JSON_text (JObj [])]\<rparr>)) = Inr (Arr [Num 1]) \<and>
   fst (readAll (ascii ''ann'')
         (snd (deleteAllData (ascii ''ann'') demo_view
            (demo_world\<lparr>localStorage :=
               [notes_key (ascii ''ann'') \<mapsto> JSON_text (JArr [JNum 1]),
                settings_key (ascii ''ann'') \<mapsto> JSON_text (JObj [])]\<rparr>)))) = Inr (Arr []) \<and>
   localStorage
     (snd (deleteAllData (ascii ''ann'') demo_view
            (demo_world\<lparr>localStorage :=
               [notes_key (ascii ''ann'') \<mapsto> JSON_text (JArr [JNum 1]),
                settings_key (ascii ''ann'') \<mapsto> JSON_text (JObj [])]\<rparr>)))
     (settings_key (ascii ''ann'')) = None"
proof -
  let ?w = "demo_world\<lparr>localStorage :=
            [notes_key (ascii ''ann'') \<mapsto> JSON_text (JArr [JNum 1]),
             settings_key (ascii ''ann'') \<mapsto> JSON_text (JObj [])]\<rparr>"
  have c: "showDeleteConfirm demo_view" by (simp add: demo_view_def)
  have b: "fst (readAll (ascii ''ann'') ?w) = Inr (Arr [Num 1])" by code_simp
  note main = deleteAllData_wipes [of demo_view "ascii ''ann''" ?w, THEN conjunct1]
  from main c have
    "fst (readAll (ascii ''ann'') (snd (deleteAllData (ascii ''ann'') demo_view ?w))) = Inr (Arr [])"
    by blast
  moreover from main c have
    "localStorage (snd (deleteAllData (ascii ''ann'') demo_view ?w)) (settings_key (ascii ''ann'')) = None"
    by blast
  ultimately show ?thesis using c b by (intro conjI)
qed

section \<open>Export and import\<close>

lemma Serialize_None_iff: "SerializeJSONProperty v = None \<longleftrightarrow> v = Undefined"
  by (cases v) simp_all

lemma readback_reparse:
  "v \<noteq> Undefined \<Longrightarrow>
   (case SerializeJSONProperty v of None \<Rightarrow> Undefined | Some j \<Rightarrow> internalize j) = reparse v"
  by (auto simp: reparse_def Serialize_None_iff split: option.splits)

lemma text_of_stable:
  assumes "stable v"
  shows "\<exists>j. ToString (JSON_stringify v) = JSON_text j \<and> internalize j = v"
  using assms by (auto simp: stable_def ToString_def JSON_stringify_def split: option.splits)

lemma parse_text_of_stable: "stable v \<Longrightarrow> JSON_parse (ToString (JSON_stringify v)) = Inr v"
  using text_of_stable [of v] by auto

lemma truthy_reparse: "truthy v \<Longrightarrow> truthy (reparse v)"
  by (cases v) (simp_all add: reparse_def)

lemma truthy_not_Undefined: "truthy v \<Longrightarrow> v \<noteq> Undefined"
  by auto

lemma exportData_eq:
  assumes "fst (readAll user w) = Inr notes"
  shows "exportData user s w =
     (Inr (ascii ''mydiary-backup-'' @ user @ ascii ''-'' @
             hd (split 0x54 (iso_string (now w))) @ ascii ''.json'',
           ToString (JSON_stringify (Obj
              [(''username'', Str user),
               (''settings'', settings s),
               (''notes'', notes),
               (''exportDate'', Str (iso_string (now w))),
               (''version'', Str (ascii ''1.0''))]))), w)"
proof -
  from assms have "readAll user w = (Inr notes, w)" using readAll_pair [of user w] by simp
  then show ?thesis by (simp add: exportData_def bind_def Let_def)
qed

lemma exportData_throws:
  assumes "fst (readAll user w) = Inl e"
  shows "exportData user s w = (Inl e, w)"
proof -
  from assms have "readAll user w = (Inl e, w)" using readAll_pair [of user w] by simp
  then show ?thesis by (simp add: exportData_def bind_def)
qed

lemma parse_exported:
  "JSON_parse (ToString (JSON_stringify (Obj kvs))) = Inr (reparse (Obj kvs))"
  by (simp add: ToString_def JSON_stringify_def reparse_def)

lemma importData_ok:
  assumes "JSON_parse doc = Inr D" "get D ''notes'' = Inr ns" "get D ''settings'' = Inr st"
    "truthy ns" "truthy st"
    "quota_allows w (notes_key user) (ToString (JSON_stringify ns))"
    "quota_allows w (settings_key user) (ToString (JSON_stringify st))"
  shows "importData user s (Some doc) w =
     ((Some ''Data imported successfully!'', s\<lparr>settings := st\<rparr>),
      w\<lparr>localStorage := (localStorage w)
           (notes_key user \<mapsto> ToString (JSON_stringify ns),
            settings_key user \<mapsto> ToString (JSON_stringify st))\<rparr>)"
  using assms by (simp add: importData_def setItem_def Let_def)

lemma importData_notes_refused:
  assumes "JSON_parse doc = Inr D" "get D ''notes'' = Inr ns" "truthy ns"
    "\<not> quota_allows w (notes_key user) (ToString (JSON_stringify ns))"
  shows "importData user s (Some doc) w =
     ((Some ''Error importing data. Please check the file format.'', s), w)"
  using assms by (simp add: importData_def setItem_def Let_def)

lemma importData_settings_refused:
  assumes "JSON_parse doc = Inr D" "get D ''notes'' = Inr ns" "get D ''settings'' = Inr st"
    "truthy ns" "truthy st"
    "quota_allows w (notes_key user) (ToString (JSON_stringify ns))"
    "\<not> quota_allows w (settings_key user) (ToString (JSON_stringify st))"
  shows "importData user s (Some doc) w =
     ((Some ''Error importing data. Please check the file format.'', s\<lparr>settings := st\<rparr>),
      w\<lparr>localStorage := (localStorage w)(notes_key user \<mapsto> ToString (JSON_stringify ns))\<rparr>)"
  using assms by (simp add: importData_def setItem_def Let_def)

text \<open>
  Claim C6, as the code has it. When the stored note collection of the user parses
  (otherwise \<^verbatim>\<open>exportData\<close> ends with the exception of \<^verbatim>\<open>JSON.parse\<close> and offers no
  file), \<^verbatim>\<open>exportData\<close> offers one JSON document whose properties are exactly the
  username, the settings of the view, the full note list as read, the export timestamp
  and the version \<^verbatim>\<open>"1.0"\<close>. Importing that document in any state of the view and of
  the browser, provided the exported notes and settings are truthy (lists and settings
  objects always are) and the browser accepts the two writes, shows the success alert
  and replaces the stored note collection and the stored and displayed settings by
  values equal to the exported ones, whatever was stored before (a replacement, not a
  merge); the other items of \<^verbatim>\<open>localStorage\<close> are untouched. The replacement is
  not all-or-nothing: when the browser accepts the write of the notes and refuses the
  write of the settings, the error alert is shown, the stored notes are replaced, the
  stored settings are not, and the view displays the imported settings. When the
  browser refuses the write of the notes, the error alert is shown and nothing changes.
\<close>

theorem export_then_import:
  "(\<forall>e. fst (readAll user w) = Inl e \<longrightarrow> exportData user s w = (Inl e, w)) \<and>
   (fst (readAll user w) = Inr notes \<longrightarrow>
      (\<exists>download doc D.
         exportData user s w = (Inr (download, doc), w) \<and>
         JSON_parse doc = Inr D \<and>
         get D ''username'' = Inr (Str user) \<and>
         get D ''settings'' = Inr (if settings s = Undefined then Undefined else reparse (settings s)) \<and>
         get D ''notes'' = Inr notes \<and>
         get D ''exportDate'' = Inr (Str (iso_string (now w))) \<and>
         get D ''version'' = Inr (Str (ascii ''1.0'')) \<and>
         (\<forall>k. k \<notin> set [''username'', ''settings'', ''notes'', ''exportDate'', ''version'']
            \<longrightarrow> get D k = Inr Undefined) \<and>
         (\<forall>s2 w2.
            truthy notes \<and> truthy (settings s) \<and>
            quota_allows w2 (notes_key user) (ToString (JSON_stringify notes)) \<and>
            quota_allows w2 (settings_key user) (ToString (JSON_stringify (reparse (settings s))))
            \<longrightarrow>
            importData user s2 (Some doc) w2 =
              ((Some ''Data imported successfully!'', s2\<lparr>settings := reparse (settings s)\<rparr>),
               w2\<lparr>localStorage := (localStorage w2)
                    (notes_key user \<mapsto> ToString (JSON_stringify notes),
                     settings_key user \<mapsto> ToString (JSON_stringify (reparse (settings s))))\<rparr>) \<and>
            fst (readAll user (snd (importData user s2 (Some doc) w2))) = Inr notes \<and>
            JSON_parse (ToString (JSON_stringify (reparse (settings s)))) = Inr (reparse (settings s))) \<and>
         (\<forall>s2 w2.
            truthy notes \<and> truthy (settings s) \<and>
            quota_allows w2 (notes_key user) (ToString (JSON_stringify notes)) \<and>
            \<not> quota_allows w2 (settings_key user) (ToString (JSON_stringify (reparse (settings s))))
            \<longrightarrow>
            importData user s2 (Some doc) w2 =
              ((Some ''Error importing data. Please check the file format.'',
                s2\<lparr>settings := reparse (settings s)\<rparr>),
               w2\<lparr>localStorage := (localStorage w2)
                    (notes_key user \<mapsto> ToString (JSON_stringify notes))\<rparr>)) \<and>
         (\<forall>s2 w2.
            truthy notes \<and>
            \<not> quota_allows w2 (notes_key user) (ToString (JSON_stringify notes))
            \<longrightarrow>
            importData user s2 (Some doc) w2 =
              ((Some ''Error importing data. Please check the file format.'', s2), w2))))"
proof (intro conjI allI impI)
  fix e assume "fst (readAll user w) = Inl e"
  then show "exportData user s w = (Inl e, w)" by (rule exportData_throws)
next
  assume rd: "fst (readAll user w) = Inr notes"
  let ?fields = "[(''username'', Str user), (''settings'', settings s), (''notes'', notes),
               (''exportDate'', Str (iso_string (now w))), (''version'', Str (ascii ''1.0''))]"
  let ?doc = "ToString (JSON_stringify (Obj ?fields))"
  let ?D = "reparse (Obj ?fields)"
  let ?dl = "ascii ''mydiary-backup-'' @ user @ ascii ''-'' @
             hd (split 0x54 (iso_string (now w))) @ ascii ''.json''"
  let ?S = "reparse (settings s)"
  have dk: "distinct (map fst ?fields)" by simp
  from rd have sn: "stable notes" by (rule readAll_stable)
  have ex: "exportData user s w = (Inr (?dl, ?doc), w)" by (rule exportData_eq [OF rd])
  have pd: "JSON_parse ?doc = Inr ?D" by (rule parse_exported)
  have g1: "get ?D ''username'' = Inr (Str user)"
    by (rule get_reparse_field [OF dk]) (simp_all add: stable_simps)
  have g2: "get ?D ''settings'' = Inr (if settings s = Undefined then Undefined else ?S)"
    by (simp add: get_reparse_Obj [OF dk] readback_reparse)
  have g3: "get ?D ''notes'' = Inr notes"
    using sn by (intro get_reparse_field [OF dk]) simp_all
  have g4: "get ?D ''exportDate'' = Inr (Str (iso_string (now w)))"
    by (rule get_reparse_field [OF dk]) (simp_all add: stable_simps)
  have g5: "get ?D ''version'' = Inr (Str (ascii ''1.0''))"
    by (rule get_reparse_field [OF dk]) (simp_all add: stable_simps)
  have g6: "\<forall>k. k \<notin> set [''username'', ''settings'', ''notes'', ''exportDate'', ''version'']
            \<longrightarrow> get ?D k = Inr Undefined"
    using get_reparse_absent [OF dk] by simp
  have imp: "\<forall>s2 w2.
            truthy notes \<and> truthy (settings s) \<and>
            quota_allows w2 (notes_key user) (ToString (JSON_stringify notes)) \<and>
            quota_allows w2 (settings_key user) (ToString (JSON_stringify ?S))
            \<longrightarrow>
            importData user s2 (Some ?doc) w2 =
              ((Some ''Data imported successfully!'', s2\<lparr>settings := ?S\<rparr>),
               w2\<lparr>localStorage := (localStorage w2)
                    (notes_key user \<mapsto> ToString (JSON_stringify notes),
                     settings_key user \<mapsto> ToString (JSON_stringify ?S))\<rparr>) \<and>
            fst (readAll user (snd (importData user s2 (Some ?doc) w2))) = Inr notes \<and>
            JSON_parse (ToString (JSON_stringify ?S)) = Inr ?S"
  proof (intro allI impI)
    fix s2 :: SettingsView and w2 :: world
    assume h: "truthy notes \<and> truthy (settings s) \<and>
            quota_allows w2 (notes_key user) (ToString (JSON_stringify notes)) \<and>
            quota_allows w2 (settings_key user) (ToString (JSON_stringify ?S))"
    then have tn: "truthy notes" and ts: "truthy (settings s)"
      and q1: "quota_allows w2 (notes_key user) (ToString (JSON_stringify notes))"
      and q2: "quota_allows w2 (settings_key user) (ToString (JSON_stringify ?S))" by simp_all
    from ts have "settings s \<noteq> Undefined" by (rule truthy_not_Undefined)
    with g2 have g2': "get ?D ''settings'' = Inr ?S" by simp
    from ts have tS: "truthy ?S" by (rule truthy_reparse)
    let ?w' = "w2\<lparr>localStorage := (localStorage w2)
                    (notes_key user \<mapsto> ToString (JSON_stringify notes),
                     settings_key user \<mapsto> ToString (JSON_stringify ?S))\<rparr>"
    have i: "importData user s2 (Some ?doc) w2 =
        ((Some ''Data imported successfully!'', s2\<lparr>settings := ?S\<rparr>), ?w')"
      by (rule importData_ok [OF pd g3 g2' tn tS q1 q2])
    have r: "fst (readAll user ?w') = Inr notes"
      using parse_text_of_stable [OF sn] text_of_stable [OF sn]
      by (auto simp: readAll_eq or_text_def notes_key_not_settings_key)
    have p: "JSON_parse (ToString (JSON_stringify ?S)) = Inr ?S"
      by (rule parse_text_of_stable) (rule reparse_stable)
    from i r p show "importData user s2 (Some ?doc) w2 =
              ((Some ''Data imported successfully!'', s2\<lparr>settings := ?S\<rparr>), ?w') \<and>
            fst (readAll user (snd (importData user s2 (Some ?doc) w2))) = Inr notes \<and>
            JSON_parse (ToString (JSON_stringify ?S)) = Inr ?S" by simp
  qed
  have part: "\<forall>s2 w2.
            truthy notes \<and> truthy (settings s) \<and>
            quota_allows w2 (notes_key user) (ToString (JSON_stringify notes)) \<and>
            \<not> quota_allows w2 (settings_key user) (ToString (JSON_stringify ?S))
            \<longrightarrow>
            importData user s2 (Some ?doc) w2 =
              ((Some ''Error importing data. Please check the file format.'',
                s2\<lparr>settings := ?S\<rparr>),
               w2\<lparr>localStorage := (localStorage w2)
                    (notes_key user \<mapsto> ToString (JSON_stringify notes))\<rparr>)"
  proof (intro allI impI)
    fix s2 :: SettingsView and w2 :: world
    assume h: "truthy notes \<and> truthy (settings s) \<and>
            quota_allows w2 (notes_key user) (ToString (JSON_stringify notes)) \<and>
            \<not> quota_allows w2 (settings_key user) (ToString (JSON_stringify ?S))"
    then have tn: "truthy notes" and ts: "truthy (settings s)"
      and q1: "quota_allows w2 (notes_key user) (ToString (JSON_stringify notes))"
      and q2: "\<not> quota_allows w2 (settings_key user) (ToString (JSON_stringify ?S))" by simp_all
    from ts have "settings s \<noteq> Undefined" by (rule truthy_not_Undefined)
    with g2 have g2': "get ?D ''settings'' = Inr ?S" by simp
    from ts have tS: "truthy ?S" by (rule truthy_reparse)
    show "importData user s2 (Some ?doc) w2 =
              ((Some ''Error importing data. Please check the file format.'',
                s2\<lparr>settings := ?S\<rparr>),
               w2\<lparr>localStorage := (localStorage w2)
                    (notes_key user \<mapsto> ToString (JSON_stringify notes))\<rparr>)"
      by (rule importData_settings_refused [OF pd g3 g2' tn tS q1 q2])
  qed
  have none: "\<forall>s2 w2.
            truthy notes \<and>
            \<not> quota_allows w2 (notes_key user) (ToString (JSON_stringify notes))
            \<longrightarrow>
            importData user s2 (Some ?doc) w2 =
              ((Some ''Error importing data. Please check the file format.'', s2), w2)"
  proof (intro allI impI)
    fix s2 :: SettingsView and w2 :: world
    assume h: "truthy notes \<and>
            \<not> quota_allows w2 (notes_key user) (ToString (JSON_stringify notes))"
    then have tn: "truthy notes"
      and q1: "\<not> quota_allows w2 (notes_key user) (ToString (JSON_stringify notes))" by simp_all
    show "importData user s2 (Some ?doc) w2 =
              ((Some ''Error importing data. Please check the file format.'', s2), w2)"
      by (rule importData_notes_refused [OF pd g3 tn q1])
  qed
  have "exportData user s w = (Inr (?dl, ?doc), w) \<and>
         JSON_parse ?doc = Inr ?D \<and>
         get ?D ''username'' = Inr (Str user) \<and>
         get ?D ''settings'' = Inr (if settings s = Undefined then Undefined else ?S) \<and>
         get ?D ''notes'' = Inr notes \<and>
         get ?D ''exportDate'' = Inr (Str (iso_string (now w))) \<and>
         get ?D ''version'' = Inr (Str (ascii ''1.0'')) \<and>
         (\<forall>k. k \<notin> set [''username'', ''settings'', ''notes'', ''exportDate'', ''version'']
            \<longrightarrow> get ?D k = Inr Undefined) \<and>
         (\<forall>s2 w2.
            truthy notes \<and> truthy (settings s) \<and>
            quota_allows w2 (notes_key user) (ToString (JSON_stringify notes)) \<and>
            quota_allows w2 (settings_key user) (ToString (JSON_stringify ?S))
            \<longrightarrow>
            importData user s2 (Some ?doc) w2 =
              ((Some ''Data imported successfully!'', s2\<lparr>settings := ?S\<rparr>),
               w2\<lparr>localStorage := (localStorage w2)
                    (notes_key user \<mapsto> ToString (JSON_stringify notes),
                     settings_key user \<mapsto> ToString (JSON_stringify ?S))\<rparr>) \<and>
            fst (readAll user (snd (importData user s2 (Some ?doc) w2))) = Inr notes \<and>
            JSON_parse (ToString (JSON_stringify ?S)) = Inr ?S) \<and>
         (\<forall>s2 w2.
            truthy notes \<and> truthy (settings s) \<and>
            quota_allows w2 (notes_key user) (ToString (JSON_stringify notes)) \<and>
            \<not> quota_allows w2 (settings_key user) (ToString (JSON_stringify ?S))
            \<longrightarrow>
            importData user s2 (Some ?doc) w2 =
              ((Some ''Error importing data. Please check the file format.'',
                s2\<lparr>settings := ?S\<rparr>),
               w2\<lparr>localStorage := (localStorage w2)
                    (notes_key user \<mapsto> ToString (JSON_stringify notes))\<rparr>)) \<and>
         (\<forall>s2 w2.
            truthy notes \<and>
            \<not> quota_allows w2 (notes_key user) (ToString (JSON_stringify notes))
            \<longrightarrow>
            importData user s2 (Some ?doc) w2 =
              ((Some ''Error importing data. Please check the file format.'', s2), w2))"
    using ex pd g1 g2 g3 g4 g5 g6 imp part none by (intro conjI)
  then show "\<exists>download doc D.
         exportData user s w = (Inr (download, doc), w) \<and>
         JSON_parse doc = Inr D \<and>
         get D ''username'' = Inr (Str user) \<and>
         get D ''settings'' = Inr (if settings s = Undefined then Undefined else reparse (settings s)) \<and>
         get D ''notes'' = Inr notes \<and>
         get D ''exportDate'' = Inr (Str (iso_string (now w))) \<and>
         get D ''version'' = Inr (Str (ascii ''1.0'')) \<and>
         (\<forall>k. k \<notin> set [''username'', ''settings'', ''notes'', ''exportDate'', ''version'']
            \<longrightarrow> get D k = Inr Undefined) \<and>
         (\<forall>s2 w2.
            truthy notes \<and> truthy (settings s) \<and>
            quota_allows w2 (notes_key user) (ToString (JSON_stringify notes)) \<and>
            quota_allows w2 (settings_key user) (ToString (JSON_stringify (reparse (settings s))))
            \<longrightarrow>
            importData user s2 (Some doc) w2 =
              ((Some ''Data imported successfully!'', s2\<lparr>settings := reparse (settings s)\<rparr>),
               w2\<lparr>localStorage := (localStorage w2)
                    (notes_key user \<mapsto> ToString (JSON_stringify notes),
                     settings_key user \<mapsto> ToString (JSON_stringify (reparse (settings s))))\<rparr>) \<and>
            fst (readAll user (snd (importData user s2 (Some doc) w2))) = Inr notes \<and>
            JSON_parse (ToString (JSON_stringify (reparse (settings s)))) = Inr (reparse (settings s))) \<and>
         (\<forall>s2 w2.
            truthy notes \<and> truthy (settings s) \<and>
            quota_allows w2 (notes_key user) (ToString (JSON_stringify notes)) \<and>
            \<not> quota_allows w2 (settings_key user) (ToString (JSON_stringify (reparse (settings s))))
            \<longrightarrow>
            importData user s2 (Some doc) w2 =
              ((Some ''Error importing data. Please check the file format.'',
                s2\<lparr>settings := reparse (settings s)\<rparr>),
               w2\<lparr>localStorage := (localStorage w2)
                    (notes_key user \<mapsto> ToString (JSON_stringify notes))\<rparr>)) \<and>
         (\<forall>s2 w2.
            truthy notes \<and>
            \<not> quota_allows w2 (notes_key user) (ToString (JSON_stringify notes))
            \<longrightarrow>
            importData user s2 (Some doc) w2 =
              ((Some ''Error importing data. Please check the file format.'', s2), w2))"
    by (intro exI)
qed

text \<open>
  The view of the example exports a storage that holds the list \<^verbatim>\<open>[1]\<close>; the
  document is imported into the empty storage of the example.
\<close>

theorem export_then_import_witness:
  "fst (readAll (ascii ''ann'')
         (demo_world\<lparr>localStorage := [notes_key (ascii ''ann'') \<mapsto> JSON_text (JArr [JNum 1])]\<rparr>))
     = Inr (Arr [Num 1]) \<and>
   truthy (Arr [Num 1]) \<and> truthy (settings demo_view) \<and>
   quota_allows demo_world (notes_key (ascii ''ann'')) (ToString (JSON_stringify (Arr [Num 1]))) \<and>
   quota_allows demo_world (settings_key (ascii ''ann''))
     (ToString (JSON_stringify (reparse (settings demo_view)))) \<and>
   (\<exists>download doc.
      exportData (ascii ''ann'') demo_view
         (demo_world\<lparr>localStorage := [notes_key (ascii ''ann'') \<mapsto> JSON_text (JArr [JNum 1])]\<rparr>)
        = (Inr (download, doc),
           demo_world\<lparr>localStorage := [notes_key (ascii ''ann'') \<mapsto> JSON_text (JArr [JNum 1])]\<rparr>) \<and>
      fst (fst (importData (ascii ''ann'') demo_view (Some doc) demo_world))
        = Some ''Data imported successfully!'' \<and>
      fst (readAll (ascii ''ann'') (snd (importData (ascii ''ann'') demo_view (Some doc) demo_world)))
        = Inr (Arr [Num 1]))"
proof -
  let ?w = "demo_world\<lparr>localStorage := [notes_key (ascii ''ann'') \<mapsto> JSON_text (JArr [JNum 1])]\<rparr>"
  let ?S = "reparse (settings demo_view)"
  have r: "fst (readAll (ascii ''ann'') ?w) = Inr (Arr [Num 1])" by code_simp
  have t1: "truthy (Arr [Num 1])" by simp
  have t2: "truthy (settings demo_view)" by (simp add: demo_view_def defaultSettings_def)
  have q1: "quota_allows demo_world (notes_key (ascii ''ann'')) (ToString (JSON_stringify (Arr [Num 1])))"
    by (simp add: demo_world_def accept_all_def)
  have q2: "quota_allows demo_world (settings_key (ascii ''ann'')) (ToString (JSON_stringify ?S))"
    by (simp add: demo_world_def accept_all_def)
  note ex = export_then_import [of "ascii ''ann''" ?w demo_view "Arr [Num 1]", THEN conjunct2,
      THEN mp, OF r]
  from ex have p: "\<exists>download doc.
      exportData (ascii ''ann'') demo_view ?w = (Inr (download, doc), ?w) \<and>
      fst (fst (importData (ascii ''ann'') demo_view (Some doc) demo_world))
        = Some ''Data imported successfully!'' \<and>
      fst (readAll (ascii ''ann'') (snd (importData (ascii ''ann'') demo_view (Some doc) demo_world)))
        = Inr (Arr [Num 1])"
  proof (elim exE conjE)
    fix download doc D
    assume e: "exportData (ascii ''ann'') demo_view ?w = (Inr (download, doc), ?w)"
    assume i: "\<forall>s2 w2.
            truthy (Arr [Num 1]) \<and> truthy (settings demo_view) \<and>
            quota_allows w2 (notes_key (ascii ''ann'')) (ToString (JSON_stringify (Arr [Num 1]))) \<and>
            quota_allows w2 (settings_key (ascii ''ann'')) (ToString (JSON_stringify ?S))
            \<longrightarrow>
            importData (ascii ''ann'') s2 (Some doc) w2 =
              ((Some ''Data imported successfully!'', s2\<lparr>settings := ?S\<rparr>),
               w2\<lparr>localStorage := (localStorage w2)
                    (notes_key (ascii ''ann'') \<mapsto> ToString (JSON_stringify (Arr [Num 1])),
                     settings_key (ascii ''ann'') \<mapsto> ToString (JSON_stringify ?S))\<rparr>) \<and>
            fst (readAll (ascii ''ann'') (snd (importData (ascii ''ann'') s2 (Some doc) w2)))
              = Inr (Arr [Num 1]) \<and>
            JSON_parse (ToString (JSON_stringify ?S)) = Inr ?S"
    have pre: "truthy (Arr [Num 1]) \<and> truthy (settings demo_view) \<and>
            quota_allows demo_world (notes_key (ascii ''ann'')) (ToString (JSON_stringify (Arr [Num 1]))) \<and>
            quota_allows demo_world (settings_key (ascii ''ann'')) (ToString (JSON_stringify ?S))"
      using t1 t2 q1 q2 by (intro conjI)
    have j: "importData (ascii ''ann'') demo_view (Some doc) demo_world =
                ((Some ''Data imported successfully!'', demo_view\<lparr>settings := ?S\<rparr>),
                 demo_world\<lparr>localStorage := (localStorage demo_world)
                      (notes_key (ascii ''ann'') \<mapsto> ToString (JSON_stringify (Arr [Num 1])),
                       settings_key (ascii ''ann'') \<mapsto> ToString (JSON_stringify ?S))\<rparr>) \<and>
              fst (readAll (ascii ''ann'') (snd (importData (ascii ''ann'') demo_view (Some doc) demo_world)))
                = Inr (Arr [Num 1]) \<and>
              JSON_parse (ToString (JSON_stringify ?S)) = Inr ?S"
      by (rule i [THEN spec, THEN spec, THEN mp, OF pre])
    from j [THEN conjunct1]
    have j1: "fst (fst (importData (ascii ''ann'') demo_view (Some doc) demo_world))
          = Some ''Data imported successfully!''" by simp
    from j have j2: "fst (readAll (ascii ''ann'')
          (snd (importData (ascii ''ann'') demo_view (Some doc) demo_world))) = Inr (Arr [Num 1])"
      by (rule conjunct2 [THEN conjunct1])
    show "\<exists>download doc.
        exportData (ascii ''ann'') demo_view ?w = (Inr (download, doc), ?w) \<and>
        fst (fst (importData (ascii ''ann'') demo_view (Some doc) demo_world))
          = Some ''Data imported successfully!'' \<and>
        fst (readAll (ascii ''ann'') (snd (importData (ascii ''ann'') demo_view (Some doc) demo_world)))
          = Inr (Arr [Num 1])"
    proof (intro exI)
      show "exportData (ascii ''ann'') demo_view ?w = (Inr (download, doc), ?w) \<and>
        fst (fst (importData (ascii ''ann'') demo_view (Some doc) demo_world))
          = Some ''Data imported successfully!'' \<and>
        fst (readAll (ascii ''ann'') (snd (importData (ascii ''ann'') demo_view (Some doc) demo_world)))
          = Inr (Arr [Num 1])" using e j1 j2 by (intro conjI)
    qed
  qed
  show ?thesis using r t1 t2 q1 q2 p by (intro conjI)
qed

text \<open>
  Where the claim as worded fails. Over a stored collection that does not parse,
  \<^verbatim>\<open>exportData\<close> ends with the SyntaxError and offers no document. And a browser that
  accepts the write of the notes and refuses the write of the settings: the import of
  an exported document shows the error alert, the notes are replaced and the stored
  settings are not.
\<close>

theorem export_then_import_counterexample:
  "fst (exportData (ascii ''ann'') demo_view
          (demo_world\<lparr>localStorage := [notes_key (ascii ''ann'') \<mapsto> Other_text (ascii ''not json'')]\<rparr>))
     = Inl SyntaxError \<and>
   (case fst (exportData (ascii ''ann'') demo_view
          (demo_world\<lparr>localStorage := [notes_key (ascii ''ann'') \<mapsto> JSON_text (JArr [JNum 1])]\<rparr>)) of
      Inl e \<Rightarrow> False
    | Inr (download, doc) \<Rightarrow>
        fst (fst (importData (ascii ''ann'') demo_view (Some doc)
                   (demo_world\<lparr>quota_allows := settings_refused\<rparr>)))
          = Some ''Error importing data. Please check the file format.'' \<and>
        fst (readAll (ascii ''ann'')
               (snd (importData (ascii ''ann'') demo_view (Some doc)
                      (demo_world\<lparr>quota_allows := settings_refused\<rparr>))))
          = Inr (Arr [Num 1]) \<and>
        localStorage (snd (importData (ascii ''ann'') demo_view (Some doc)
                      (demo_world\<lparr>quota_allows := settings_refused\<rparr>)))
          (settings_key (ascii ''ann'')) = None)"
  by code_simp

end
